theory Spec2Isabelle
  imports Main "HOL-Library.Word" "HOL-Library.AList" "HOL-Library.Monad_Syntax"
begin

unbundle bit_operations_syntax

section \<open>The RPC-over-HTTP parser of exch/http/http-parser.cpp\<close>

text \<open>
  A shallow embedding of the per-context state machine of \<^verbatim>\<open>http_parser.cpp\<close>: the
  registry of virtual connections with its scoped references, the request-line and
  Authorization parsing, the RPC delegation step, the body reader for MS-RPCH channels,
  the reply writer, and the pairing and recycling operations on virtual connections.

  C strings are byte lists; a \<^verbatim>\<open>char\<close> of HOL is one byte. Pointers to contexts are
  slot numbers of the context pool, pointers to virtual connections are their keys in the
  registry. A dereference of a null or dangling pointer, which the C++ leaves undefined,
  is the result \<^verbatim>\<open>None\<close> of the function that performs it.
\<close>

subsection \<open>Bytes and C strings\<close>

definition NUL :: char where
  "NUL = CHR 0x00"

definition CR :: char where
  "CR = CHR 0x0D"

definition LF :: char where
  "LF = CHR 0x0A"

text \<open>What a C string function sees of a buffer: the bytes before the first NUL.\<close>

definition c_str :: "string \<Rightarrow> string" where
  "c_str s = takeWhile (\<lambda>c. c \<noteq> NUL) s"

text \<open>\<^verbatim>\<open>gx_strlcpy\<close> into a buffer of \<^verbatim>\<open>size\<close> bytes: at most \<open>size - 1\<close>
  bytes of the C string are kept.\<close>

definition gx_strlcpy :: "nat \<Rightarrow> string \<Rightarrow> string" where
  "gx_strlcpy sz src = take (sz - 1) (c_str src)"

text \<open>\<^verbatim>\<open>gx_snprintf\<close> into a buffer of \<^verbatim>\<open>size\<close> bytes; the result is the
  formatted text cut to what fits.\<close>

definition gx_snprintf :: "nat \<Rightarrow> string \<Rightarrow> string" where
  "gx_snprintf sz s = take (sz - 1) s"

definition tolower_c :: "char \<Rightarrow> char" where
  "tolower_c c =
     (case map_of (zip ''ABCDEFGHIJKLMNOPQRSTUVWXYZ'' ''abcdefghijklmnopqrstuvwxyz'') c of
        None \<Rightarrow> c
      | Some l \<Rightarrow> l)"

definition HX_strlower :: "string \<Rightarrow> string" where
  "HX_strlower s = map tolower_c s"

text \<open>\<^verbatim>\<open>strcasecmp\<close> and \<^verbatim>\<open>strncasecmp\<close> on C strings, as equality tests.\<close>

definition strcasecmp_eq :: "string \<Rightarrow> string \<Rightarrow> bool" where
  "strcasecmp_eq a b \<longleftrightarrow> map tolower_c (c_str a) = map tolower_c (c_str b)"

definition strncasecmp_eq :: "string \<Rightarrow> string \<Rightarrow> nat \<Rightarrow> bool" where
  "strncasecmp_eq a b n \<longleftrightarrow>
     map tolower_c (take n (c_str a)) = map tolower_c (take n (c_str b))"

definition strncmp_eq :: "string \<Rightarrow> string \<Rightarrow> nat \<Rightarrow> bool" where
  "strncmp_eq a b n \<longleftrightarrow> take n (c_str a) = take n (c_str b)"

definition strcmp_eq :: "string \<Rightarrow> string \<Rightarrow> bool" where
  "strcmp_eq a b \<longleftrightarrow> c_str a = c_str b"

text \<open>\<^verbatim>\<open>memchr\<close>: the index of the first occurrence among the first \<^verbatim>\<open>n\<close> bytes.\<close>

fun index_of :: "char \<Rightarrow> string \<Rightarrow> nat option" where
  "index_of c [] = None"
| "index_of c (x # xs) =
     (if x = c then Some 0 else map_option Suc (index_of c xs))"

definition memchr :: "string \<Rightarrow> char \<Rightarrow> nat \<Rightarrow> nat option" where
  "memchr buf c n = index_of c (take n buf)"

text \<open>\<^verbatim>\<open>strchr\<close>: the index of the first occurrence in the C string.\<close>

definition strchr :: "string \<Rightarrow> char \<Rightarrow> nat option" where
  "strchr s c = index_of c (c_str s)"

text \<open>Decimal printing, as \<open>%u\<close>, \<open>%zu\<close> and \<open>%d\<close> do.\<close>

definition digit_char :: "nat \<Rightarrow> char" where
  "digit_char d = ''0123456789'' ! d"

fun show_nat :: "nat \<Rightarrow> string" where
  "show_nat n = (if n < 10 then [digit_char n]
     else show_nat (n div 10) @ [digit_char (n mod 10)])"

definition show_int :: "int \<Rightarrow> string" where
  "show_int i = (if i < 0 then CHR ''-'' # show_nat (nat (- i)) else show_nat (nat i))"

subsection \<open>Enumerations of http-parser.h\<close>

datatype hsched_stat =
  SCHED_STAT_INITSSL | SCHED_STAT_RDHEAD | SCHED_STAT_RDBODY | SCHED_STAT_WRREP
  | SCHED_STAT_WAIT | SCHED_STAT_SOCKET

datatype hchannel_stat =
  CHANNEL_STAT_OPENSTART | CHANNEL_STAT_WAITINCHANNEL | CHANNEL_STAT_RECYCLING
  | CHANNEL_STAT_WAITRECYCLED | CHANNEL_STAT_OPENED | CHANNEL_STAT_RECYCLED

datatype hchannel_type = CHANNEL_TYPE_NONE | CHANNEL_TYPE_IN | CHANNEL_TYPE_OUT

text \<open>The verdict each step returns to the scheduler.\<close>

datatype tproc_status =
  TPROC_CONT | TPROC_LOOP | TPROC_IDLE | TPROC_POLLING_RDONLY | TPROC_POLLING_WRONLY
  | TPROC_SLEEPING | TPROC_RUNOFF | TPROC_CLOSE

text \<open>The verdict of the PDU processor on one fragment.\<close>

datatype pdu_result =
  PDU_PROCESSOR_ERROR | PDU_PROCESSOR_INPUT | PDU_PROCESSOR_FORWARD
  | PDU_PROCESSOR_OUTPUT | PDU_PROCESSOR_TERMINATE

subsection \<open>Virtual connections and their registry\<close>

type_synonym ctx_ptr = nat

record VIRTUAL_CONNECTION =
  reference :: int
  pprocessor :: "nat option"
  pcontext_in :: "ctx_ptr option"
  pcontext_insucc :: "ctx_ptr option"
  pcontext_out :: "ctx_ptr option"
  pcontext_outsucc :: "ctx_ptr option"

text \<open>
  What a step does to the world outside its own data: the mutexes it takes and releases
  (\<^verbatim>\<open>g_vconnection_lock\<close> and the lock of one virtual connection), the destruction of
  an extracted registry node, and the calls into the scheduler and the PDU processor.
\<close>

datatype event =
  Lock_registry
  | Unlock_registry
  | Lock_vconn string
  | Unlock_vconn string
  | Vconn_destructor string
  | Pdu_processor_destroy nat
  | Contexts_pool_signal ctx_ptr
  | Rts_flowcontrolack_withdestination "32 word" "32 word" string
  | Auth_login string string
  | Add_user_into_temp_list string int


text \<open>A node of a PDU queue (\<^verbatim>\<open>BLOB_NODE\<close>): the encoded PDU and the flag that marks
  RPC transport signalling.\<close>

record BLOB_NODE =
  blob :: string
  b_rts :: bool

text \<open>A call of the PDU processor, as far as the parser looks into it: the PDUs it has
  produced and not yet handed over.\<close>

record DCERPC_CALL =
  reply_list :: "BLOB_NODE list"

record RPC_IN_CHANNEL =
  ich_frag_length :: "16 word"
  ich_channel_cookie :: string
  ich_connection_cookie :: string
  ich_life_time :: "32 word"
  ich_client_keepalive :: "32 word"
  ich_available_window :: "32 word"
  ich_bytes_received :: "32 word"
  ich_assoc_group_id :: string
  ich_pdu_list :: "BLOB_NODE list"
  ich_channel_stat :: hchannel_stat

record RPC_OUT_CHANNEL =
  och_frag_length :: "16 word"
  och_channel_cookie :: string
  och_connection_cookie :: string
  och_b_obsolete :: bool
  och_client_keepalive :: "32 word"
  och_available_window :: "32 word"
  och_window_size :: "32 word"
  och_bytes_sent :: "32 word"
  och_pcall :: "DCERPC_CALL option"
  och_pdu_list :: "BLOB_NODE list"
  och_channel_stat :: hchannel_stat

datatype channel = In_channel RPC_IN_CHANNEL | Out_channel RPC_OUT_CHANNEL

text \<open>
  Modelled from the spec: the byte stream of \<^verbatim>\<open>gromox/stream.hpp\<close>, which is not among
  the sources. It is a growable buffer made of blocks of \<^verbatim>\<open>STREAM_BLOCK_SIZE\<close> bytes
  with a read cursor: \<^verbatim>\<open>st_data\<close> is everything written, \<^verbatim>\<open>st_rd\<close> the cursor.
\<close>

record STREAM =
  st_data :: string
  st_rd :: nat

record HTTP_REQUEST =
  req_method :: string
  f_request_uri :: string
  version :: string
  f_content_length :: string
  f_others :: "string \<rightharpoonup> string"

text \<open>
  \<^verbatim>\<open>HTTP_CONTEXT\<close>. The three flags \<^verbatim>\<open>hpm_in_charge\<close>, \<^verbatim>\<open>fcgi_in_charge\<close> and
  \<^verbatim>\<open>cache_in_charge\<close> are the bookkeeping of the content-handler modules for this
  context, read by their \<^verbatim>\<open>is_in_charge\<close> and cleared by their \<^verbatim>\<open>put_context\<close>;
  \<^verbatim>\<open>last_timestamp\<close> is that of the connection.
\<close>

record HTTP_CONTEXT =
  sched_stat :: hsched_stat
  request :: HTTP_REQUEST
  total_length :: "64 word"
  bytes_rw :: "64 word"
  stream_in :: STREAM
  stream_out :: STREAM
  write_buff :: "string option"
  write_offset :: int
  write_length :: int
  b_close :: bool
  b_authed :: bool
  auth_times :: int
  username :: string
  password :: string
  maildir :: string
  lang :: string
  host :: string
  port :: int
  channel_type :: hchannel_type
  pchannel :: "channel option"
  last_timestamp :: int
  hpm_in_charge :: bool
  fcgi_in_charge :: bool
  cache_in_charge :: bool

text \<open>The process-wide state: the registry \<^verbatim>\<open>g_vconnection_hash\<close> (an association
  list with distinct keys), the context pool, and the events so far.\<close>

record gstate =
  g_vconnection_hash :: "(string \<times> VIRTUAL_CONNECTION) list"
  g_context_list :: "ctx_ptr \<rightharpoonup> HTTP_CONTEXT"
  trace :: "event list"

text \<open>The key of a virtual connection as \<^verbatim>\<open>http_parser_get_vconnection\<close> prints it into
  its buffer of 384 bytes.\<close>

definition vconn_key :: "string \<Rightarrow> int \<Rightarrow> string \<Rightarrow> string" where
  "vconn_key h p conn_cookie =
     HX_strlower (gx_snprintf 384 (c_str conn_cookie @ '':'' @ show_int p @ '':'' @ c_str h))"

text \<open>A \<^verbatim>\<open>VCONN_REF\<close> is null or names the registry entry it holds; taking one counts
  the reference up under the registry lock and then takes the lock of the connection.\<close>

type_synonym VCONN_REF = "string option"

definition http_parser_get_vconnection ::
  "string \<Rightarrow> int \<Rightarrow> string \<Rightarrow> gstate \<Rightarrow> VCONN_REF \<times> gstate" where
  "http_parser_get_vconnection h p conn_cookie s =
     (let k = vconn_key h p conn_cookie in
      case map_of (g_vconnection_hash s) k of
        None \<Rightarrow> (None, s\<lparr>trace := trace s @ [Lock_registry, Unlock_registry]\<rparr>)
      | Some vc \<Rightarrow>
          (Some k,
           s\<lparr>g_vconnection_hash :=
                AList.update k (vc\<lparr>reference := reference vc + 1\<rparr>) (g_vconnection_hash s),
             trace := trace s @ [Lock_registry, Unlock_registry, Lock_vconn k]\<rparr>))"

text \<open>
  \<^verbatim>\<open>VCONN_REF::put\<close>. The node taken out of the registry is a local of the inner block,
  so its destructor (and with it \<^verbatim>\<open>pdu_processor_destroy\<close>, when there is a processor)
  runs at the end of that block, after \<^verbatim>\<open>vc_hold.unlock()\<close>. When nothing is taken
  out, the registry lock is released at the end of the function.
\<close>

definition vconn_removable :: "VIRTUAL_CONNECTION \<Rightarrow> bool" where
  "vconn_removable vc \<longleftrightarrow>
     reference vc = 0 \<and> pcontext_in vc = None \<and> pcontext_out vc = None"

definition VCONN_REF_put :: "VCONN_REF \<Rightarrow> gstate \<Rightarrow> gstate option" where
  "VCONN_REF_put r s =
     (case r of
        None \<Rightarrow> Some s
      | Some k \<Rightarrow>
          (case map_of (g_vconnection_hash s) k of
             None \<Rightarrow> None
           | Some vc \<Rightarrow>
               (let vc' = vc\<lparr>reference := reference vc - 1\<rparr> in
                if vconn_removable vc' then
                  Some (s\<lparr>g_vconnection_hash := AList.delete k (g_vconnection_hash s),
                          trace := trace s @
                            [Unlock_vconn k, Lock_registry, Unlock_registry, Vconn_destructor k] @
                            (case pprocessor vc' of None \<Rightarrow> []
                             | Some pr \<Rightarrow> [Pdu_processor_destroy pr])\<rparr>)
                else
                  Some (s\<lparr>g_vconnection_hash := AList.update k vc' (g_vconnection_hash s),
                          trace := trace s @
                            [Unlock_vconn k, Lock_registry, Unlock_registry]\<rparr>))))"

text \<open>Reading a trace: is the registry lock held after it, and did every destruction in
  it run while the lock was free?\<close>

fun registry_locked :: "bool \<Rightarrow> event list \<Rightarrow> bool" where
  "registry_locked held [] = held"
| "registry_locked held (Lock_registry # es) = registry_locked True es"
| "registry_locked held (Unlock_registry # es) = registry_locked False es"
| "registry_locked held (e # es) = registry_locked held es"

fun destroyed_unlocked :: "bool \<Rightarrow> event list \<Rightarrow> bool" where
  "destroyed_unlocked held [] = True"
| "destroyed_unlocked held (Lock_registry # es) = destroyed_unlocked True es"
| "destroyed_unlocked held (Unlock_registry # es) = destroyed_unlocked False es"
| "destroyed_unlocked held (Vconn_destructor k # es) =
     (\<not> held \<and> destroyed_unlocked held es)"
| "destroyed_unlocked held (Pdu_processor_destroy pr # es) =
     (\<not> held \<and> destroyed_unlocked held es)"
| "destroyed_unlocked held (e # es) = destroyed_unlocked held es"

text \<open>The events a step added to the trace.\<close>

definition new_events :: "gstate \<Rightarrow> gstate \<Rightarrow> event list" where
  "new_events s s' = drop (length (trace s)) (trace s')"

subsection \<open>Constants, configuration and the outside world\<close>

text \<open>
  Constants that the sources use and do not define (\<^verbatim>\<open>STREAM_BLOCK_SIZE\<close>,
  \<^verbatim>\<open>http_request::uri_limit\<close>, the DCE/RPC header offsets of \<^verbatim>\<open>pdu_ndr.h\<close>) and the
  values \<^verbatim>\<open>http_parser_init\<close> stores. Times are ticks of the steady clock,
  \<^verbatim>\<open>ticks_per_sec\<close> of them in a second.
\<close>

record config =
  g_context_num :: nat
  g_timeout :: int
  g_max_auth_times :: int
  g_block_auth_fail :: int
  ticks_per_sec :: int
  user_default_lang :: "string option"
  STREAM_BLOCK_SIZE :: nat
  uri_limit :: nat
  DCERPC_FRAG_LEN_OFFSET :: nat
  DCERPC_DREP_OFFSET :: nat
  DCERPC_DREP_LE :: "8 word"

definition MAX_RECLYING_REMAINING :: "64 word" where
  "MAX_RECLYING_REMAINING = 0x4000000"

definition OUT_CHANNEL_MAX_LENGTH :: nat where
  "OUT_CHANNEL_MAX_LENGTH = 0x40000000"

definition TOSEC :: "config \<Rightarrow> int \<Rightarrow> int" where
  "TOSEC cfg x = sgn x * (\<bar>x\<bar> div ticks_per_sec cfg)"

text \<open>What one call of \<^verbatim>\<open>read\<close> or \<^verbatim>\<open>SSL_read\<close>, and of \<^verbatim>\<open>write\<close> or
  \<^verbatim>\<open>SSL_write\<close>, can answer.\<close>

datatype read_result = Read_data string | Read_eof | Read_eagain | Read_error

datatype write_result = Written nat | Write_eagain | Write_error

text \<open>
  The answers of the outside world during one step: the clock, the date line, the
  socket, whether the block pool can supply a block and what a fresh block holds,
  and whether a channel can be allocated.
\<close>

record env =
  now :: int
  dstring :: string
  sock_read :: read_result
  sock_write :: write_result
  alloc_ok :: bool
  fresh_block :: string
  channel_alloc_ok :: bool

record sql_meta_result =
  mres_username :: string
  mres_maildir :: string
  mres_lang :: string

text \<open>
  Functions of other modules and of the C library that the parser calls and the sources
  do not contain. \<^verbatim>\<open>judge_user\<close> is a service that may be absent;
  \<^verbatim>\<open>auth_login\<close> answers with the user's record on success;
  \<^verbatim>\<open>have_temp_list\<close> tells whether \<^verbatim>\<open>system_services_add_user_into_temp_list\<close> is
  registered; \<^verbatim>\<open>decode64\<close> answers with the decoded bytes when it returns 0;
  \<^verbatim>\<open>mod_rewrite_process\<close> answers with the rewritten URI when it rewrites;
  \<^verbatim>\<open>strtol0\<close> and \<^verbatim>\<open>strtoull0\<close> are the C conversions with base 0, the first
  with the value of the \<^verbatim>\<open>long\<close> it returns.
\<close>

record services =
  judge_user :: "(string \<Rightarrow> bool) option"
  auth_login :: "string \<Rightarrow> string \<Rightarrow> sql_meta_result option"
  have_temp_list :: bool
  decode64 :: "string \<Rightarrow> string option"
  mod_rewrite_process :: "string \<Rightarrow> string option"
  strtol0 :: "string \<Rightarrow> int"
  strtoull0 :: "string \<Rightarrow> 64 word"

subsection \<open>Byte streams\<close>

definition DQUOTE :: char where
  "DQUOTE = CHR 0x22"

definition CRLF :: string where
  "CRLF = [CR, LF]"

definition stream_init :: STREAM where
  "stream_init = \<lparr>st_data = [], st_rd = 0\<rparr>"

definition stream_get_total_length :: "STREAM \<Rightarrow> nat" where
  "stream_get_total_length st = length (st_data st)"

text \<open>\<^verbatim>\<open>get_read_buf\<close>: the unread bytes of the block under the cursor, at most
  \<^verbatim>\<open>sz\<close> of them, and the cursor moved past them; null when nothing is unread.\<close>

definition stream_get_read_buf :: "nat \<Rightarrow> nat \<Rightarrow> STREAM \<Rightarrow> string option \<times> STREAM" where
  "stream_get_read_buf bs sz st =
     (let rd = st_rd st; len = length (st_data st) in
      if len \<le> rd then (None, st)
      else (let n = min sz (min (len - rd) (bs - rd mod bs)) in
            (Some (take n (drop rd (st_data st))), st\<lparr>st_rd := rd + n\<rparr>)))"

definition stream_rewind_read_ptr :: "nat \<Rightarrow> STREAM \<Rightarrow> STREAM" where
  "stream_rewind_read_ptr n st = st\<lparr>st_rd := st_rd st - min n (st_rd st)\<rparr>"

definition stream_fwd_read_ptr :: "nat \<Rightarrow> STREAM \<Rightarrow> STREAM" where
  "stream_fwd_read_ptr n st = st\<lparr>st_rd := min (st_rd st + n) (length (st_data st))\<rparr>"

text \<open>\<^verbatim>\<open>get_write_buf\<close>: the room left in the block under the write position, null
  when the pool has no block.\<close>

definition stream_get_write_buf :: "nat \<Rightarrow> bool \<Rightarrow> STREAM \<Rightarrow> nat option" where
  "stream_get_write_buf bs ok st =
     (if ok then Some (bs - length (st_data st) mod bs) else None)"

definition stream_fwd_write :: "string \<Rightarrow> STREAM \<Rightarrow> STREAM" where
  "stream_fwd_write bytes st = st\<lparr>st_data := st_data st @ bytes\<rparr>"

definition stream_write :: "string \<Rightarrow> STREAM \<Rightarrow> STREAM" where
  "stream_write bytes st = st\<lparr>st_data := st_data st @ bytes\<rparr>"

text \<open>
  The copy loop of \<^verbatim>\<open>http_parser_reconstruct_stream\<close>. \<^verbatim>\<open>done\<close> holds the blocks of
  the destination that are full, \<^verbatim>\<open>cur\<close> the block being filled and \<^verbatim>\<open>used\<close> how much
  of it is filled. A chunk that fits is copied to the start of \<^verbatim>\<open>cur\<close>, as the
  \<^verbatim>\<open>memcpy(pbuff1, pbuff, size)\<close> of the source does; a chunk that does not fit fills
  the block and goes on in a fresh one. The answer is the destination, or \<^verbatim>\<open>None\<close>
  when no block could be had (the source's return of -1).
\<close>

function reconstruct_loop ::
  "nat \<Rightarrow> bool \<Rightarrow> string \<Rightarrow> string \<Rightarrow> string \<Rightarrow> nat \<Rightarrow> string \<Rightarrow> STREAM
     \<Rightarrow> (string option \<times> STREAM)" where
  "reconstruct_loop bs ok fresh dn cur used chunk src =
     (if length chunk \<le> bs - used then
        (let cur' = chunk @ drop (length chunk) cur;
             used' = used + length chunk in
         case stream_get_read_buf bs bs src of
           (None, src') \<Rightarrow> (Some (dn @ take used' cur'), src')
         | (Some chunk', src') \<Rightarrow>
             if st_rd src < st_rd src'
             then reconstruct_loop bs ok fresh dn cur' used' chunk' src'
             else (None, src'))
      else
        (let size_copied = bs - used;
             full = take used cur @ take size_copied chunk in
         if \<not> ok then (None, src)
         else
           (let used' = length chunk - size_copied;
                cur' = drop size_copied chunk @ drop used' fresh in
            case stream_get_read_buf bs bs src of
              (None, src') \<Rightarrow> (Some (dn @ full @ take used' cur'), src')
            | (Some chunk', src') \<Rightarrow>
                if st_rd src < st_rd src'
                then reconstruct_loop bs ok fresh (dn @ full) cur' used' chunk' src'
                else (None, src'))))"
  by pat_completeness auto
termination
  by (relation "measure (\<lambda>(bs, ok, fresh, dn, cur, used, chunk, src).
        length (st_data src) - st_rd src)")
     (auto simp: stream_get_read_buf_def Let_def split: if_splits)

text \<open>\<^verbatim>\<open>http_parser_reconstruct_stream\<close>: the return value (negative on failure) and
  the stream afterwards.\<close>

definition http_parser_reconstruct_stream ::
  "config \<Rightarrow> env \<Rightarrow> STREAM \<Rightarrow> int \<times> STREAM" where
  "http_parser_reconstruct_stream cfg e src =
     (case stream_get_read_buf (STREAM_BLOCK_SIZE cfg) (STREAM_BLOCK_SIZE cfg) src of
        (None, src') \<Rightarrow> (0, stream_init)
      | (Some chunk, src') \<Rightarrow>
          (case reconstruct_loop (STREAM_BLOCK_SIZE cfg) (alloc_ok e) (fresh_block e) []
                  (fresh_block e) 0 chunk src' of
             (None, src'') \<Rightarrow> (- 1, src'')
           | (Some d, src'') \<Rightarrow> (int (length d), \<lparr>st_data = d, st_rd = 0\<rparr>)))"

subsection \<open>Error pages\<close>

definition status_text :: "nat \<Rightarrow> string" where
  "status_text c =
     (if c = 304 then ''Not Modified''
      else if c = 400 then ''Bad Request''
      else if c = 403 then ''Permission Denied''
      else if c = 404 then ''Not Found''
      else if c = 405 then ''Method Not Allowed''
      else if c = 414 then ''URI Too Long''
      else if c = 416 then ''Range Not Satisfiable''
      else if c = 4162 then ''Too Many Ranges''
      else if c = 501 then ''Not Implemented''
      else if c = 502 then ''Bad FCGI Gateway''
      else if c = 503 then ''Service Unavailable''
      else if c = 5032 then ''Resources Exhausted''
      else if c = 5042 then ''FCGI Timeout''
      else ''Internal Server Error'')"

text \<open>The module in charge of a context gives it back: \<^verbatim>\<open>hpm_processor_put_context\<close>,
  \<^verbatim>\<open>mod_fastcgi_put_context\<close> or \<^verbatim>\<open>mod_cache_put_context\<close>.\<close>

definition put_module_context :: "HTTP_CONTEXT \<Rightarrow> HTTP_CONTEXT" where
  "put_module_context ctx =
     (if hpm_in_charge ctx then ctx\<lparr>hpm_in_charge := False\<rparr>
      else if fcgi_in_charge ctx then ctx\<lparr>fcgi_in_charge := False\<rparr>
      else if cache_in_charge ctx then ctx\<lparr>cache_in_charge := False\<rparr>
      else ctx)"

definition error_page :: "env \<Rightarrow> nat \<Rightarrow> bool \<Rightarrow> string" where
  "error_page e c closing =
     (let msg = status_text c;
          c' = (if 1000 \<le> c then c div 10 else c) in
      gx_snprintf 1024
        (''HTTP/1.1 '' @ show_nat c' @ '' '' @ msg @ CRLF @
         ''Date: '' @ dstring e @ CRLF @
         ''Content-Length: '' @ show_nat (length msg + 2) @ CRLF @
         ''Content-Type: text/plain; charset=utf-8'' @ CRLF @
         ''Connection: '' @ (if closing then ''close'' else ''keep-alive'') @ CRLF @
         CRLF @ msg @ CRLF))"

definition http_done :: "env \<Rightarrow> HTTP_CONTEXT \<Rightarrow> int \<Rightarrow> tproc_status \<times> HTTP_CONTEXT" where
  "http_done e ctx c =
     (let ctx1 = ctx\<lparr>b_close := True\<rparr>;
          c1 = (if c < 0 then - c else c);
          ctx2 = put_module_context ctx1;
          response = error_page e (nat c1) (b_close ctx2) in
      (TPROC_LOOP,
       ctx2\<lparr>stream_out := stream_write response (stream_out ctx2),
            total_length := of_nat (length response),
            bytes_rw := 0,
            sched_stat := SCHED_STAT_WRREP\<rparr>))"

subsection \<open>The request line\<close>

text \<open>
  \<^verbatim>\<open>strncasecmp(&buf[off], lit, n)\<close> for a literal without NUL, on a buffer of known
  extent: the comparison stops at the first byte that differs, and reading past the
  end of the buffer is undefined.
\<close>

definition strncasecmp_at :: "string \<Rightarrow> nat \<Rightarrow> string \<Rightarrow> nat \<Rightarrow> bool option" where
  "strncasecmp_at buf off lit n =
     (let t = take n (drop off buf); l = take n lit in
      if length t < length l \<and> map tolower_c t = map tolower_c (take (length t) l)
      then None
      else Some (map tolower_c t = map tolower_c l))"

definition byte_at :: "string \<Rightarrow> nat \<Rightarrow> char option" where
  "byte_at buf i = (if i < length buf then Some (buf ! i) else None)"

text \<open>Does the text at \<^verbatim>\<open>ptoken1\<close> read as the given HTTP version, followed by CR, LF
  or NUL?\<close>

definition version_is :: "string \<Rightarrow> nat \<Rightarrow> string \<Rightarrow> bool option" where
  "version_is buf i1 v =
     (case strncasecmp_at buf (i1 + 1) v 8 of
        None \<Rightarrow> None
      | Some False \<Rightarrow> Some False
      | Some True \<Rightarrow>
          (case byte_at buf (i1 + 9) of
             None \<Rightarrow> None
           | Some c \<Rightarrow> Some (c = CR \<or> c = LF \<or> c = NUL)))"

text \<open>
  \<^verbatim>\<open>htparse_rdhead_no\<close>, the parser of the request line. \<^verbatim>\<open>line\<close> is the line and
  \<^verbatim>\<open>after\<close> the bytes that follow it in the buffer, the line terminator first. The
  version is copied into a field of 8 bytes; a copy that does not fit is undefined.
\<close>

definition htparse_rdhead_no ::
  "config \<Rightarrow> env \<Rightarrow> services \<Rightarrow> HTTP_CONTEXT \<Rightarrow> string \<Rightarrow> string
     \<Rightarrow> (tproc_status \<times> HTTP_CONTEXT) option" where
  "htparse_rdhead_no cfg e sv ctx line after =
     (let buf = line @ after; line_length = length line in
      case memchr buf (CHR '' '') line_length of
        None \<Rightarrow> Some (http_done e ctx (- 400))
      | Some tmp_len \<Rightarrow>
          if 32 \<le> tmp_len then Some (http_done e ctx (- 400))
          else
            (let ctx1 = ctx\<lparr>request := (request ctx)\<lparr>req_method := take tmp_len buf\<rparr>\<rparr> in
             case memchr (drop (tmp_len + 1) buf) (CHR '' '') (line_length - tmp_len - 1) of
               None \<Rightarrow> Some (http_done e ctx1 (- 400))
             | Some tmp_len1 \<Rightarrow>
                 (let i1 = tmp_len + 1 + tmp_len1 in
                  case version_is buf i1 ''HTTP/1.1'' of
                    None \<Rightarrow> None
                  | Some v11 \<Rightarrow>
                      (case (if v11 then Some False else version_is buf i1 ''HTTP/1.0'') of
                         None \<Rightarrow> None
                       | Some v10 \<Rightarrow>
                           if \<not> v11 \<and> \<not> v10 then Some (http_done e ctx1 (- 400))
                           else
                             (let ctx2 = ctx1\<lparr>b_close := \<not> v11\<rparr> in
                              if tmp_len1 = 0 then Some (http_done e ctx2 (- 400))
                              else if uri_limit cfg \<le> tmp_len1
                              then Some (http_done e ctx2 (- 414))
                              else
                                (let uri = take tmp_len1 (drop (tmp_len + 1) buf);
                                     rewritten = mod_rewrite_process sv uri;
                                     ctx3 = ctx2\<lparr>request := (request ctx2)
                                       \<lparr>f_request_uri :=
                                          (case rewritten of None \<Rightarrow> uri | Some u \<Rightarrow> u)\<rparr>\<rparr> in
                                 if rewritten \<noteq> None \<and> f_request_uri (request ctx3) = []
                                 then Some (http_done e ctx3 (- 400))
                                 else if line_length < i1 + 6 \<or> 7 < line_length - (i1 + 6)
                                 then None
                                 else Some (TPROC_RUNOFF,
                                   ctx3\<lparr>request := (request ctx3)
                                     \<lparr>version :=
                                        take (line_length - (i1 + 6)) (drop (i1 + 6) buf)\<rparr>\<rparr>)))))))"

subsection \<open>Authentication\<close>

definition unauthorized_page :: "config \<Rightarrow> env \<Rightarrow> bool \<Rightarrow> string" where
  "unauthorized_page cfg e empty_body =
     gx_snprintf 1024
       (''HTTP/1.1 401 Unauthorized'' @ CRLF @
        ''Date: '' @ dstring e @ CRLF @
        (if empty_body then
           ''Content-Length: 0'' @ CRLF @
           ''Keep-Alive: timeout='' @ show_int (TOSEC cfg (g_timeout cfg)) @ CRLF @
           ''Connection: close'' @ CRLF
         else
           ''Keep-Alive: timeout='' @ show_int (TOSEC cfg (g_timeout cfg)) @ CRLF @
           ''Connection: close'' @ CRLF @
           ''Content-Type: text/plain; charset=ascii'' @ CRLF @
           ''Content-Length: 2'' @ CRLF) @
        ''WWW-Authenticate: Basic realm='' @ [DQUOTE] @ ''msrpc realm'' @ [DQUOTE] @ CRLF @
        CRLF @ (if empty_body then [] else CRLF))"

definition reply_unauthorized ::
  "config \<Rightarrow> env \<Rightarrow> bool \<Rightarrow> HTTP_CONTEXT \<Rightarrow> HTTP_CONTEXT" where
  "reply_unauthorized cfg e empty_body ctx =
     (let response = unauthorized_page cfg e empty_body in
      ctx\<lparr>stream_out := stream_write response (stream_out ctx),
          total_length := of_nat (length response),
          bytes_rw := 0,
          sched_stat := SCHED_STAT_WRREP\<rparr>)"

text \<open>\<^verbatim>\<open>htp_auth\<close>: the verdict, the context, and the calls made to the services.\<close>

definition htp_auth ::
  "config \<Rightarrow> env \<Rightarrow> services \<Rightarrow> HTTP_CONTEXT
     \<Rightarrow> tproc_status \<times> HTTP_CONTEXT \<times> event list" where
  "htp_auth cfg e sv ctx =
     (if (case judge_user sv of None \<Rightarrow> False | Some judge \<Rightarrow> \<not> judge (username ctx))
      then (case http_done e ctx 503 of (r, ctx') \<Rightarrow> (r, ctx', []))
      else
        (case auth_login sv (username ctx) (password ctx) of
           Some mres \<Rightarrow>
             (let ctx1 = ctx\<lparr>username := gx_strlcpy 256 (mres_username mres),
                               maildir := gx_strlcpy 256 (mres_maildir mres),
                               lang := gx_strlcpy 32 (mres_lang mres)\<rparr>;
                  ev = [Auth_login (username ctx) (password ctx)] in
              if maildir ctx1 = []
              then (TPROC_LOOP, reply_unauthorized cfg e True ctx1, ev)
              else
                (let ctx2 = (if lang ctx1 = []
                       then ctx1\<lparr>lang := gx_strlcpy 32
                              (case user_default_lang cfg of None \<Rightarrow> [] | Some l \<Rightarrow> l)\<rparr>
                       else ctx1) in
                 (TPROC_RUNOFF, ctx2\<lparr>b_authed := True\<rparr>, ev)))
         | None \<Rightarrow>
             (let ctx1 = ctx\<lparr>b_authed := False, auth_times := auth_times ctx + 1\<rparr>;
                  ev = [Auth_login (username ctx) (password ctx)] @
                       (if have_temp_list sv \<and> g_max_auth_times cfg \<le> auth_times ctx1
                        then [Add_user_into_temp_list (username ctx1) (g_block_auth_fail cfg)]
                        else []) in
              (TPROC_LOOP, reply_unauthorized cfg e False ctx1, ev))))"

text \<open>\<^verbatim>\<open>htp_auth_1\<close>: looks at the Authorization header and hands a Basic pair of user
  and password to \<^verbatim>\<open>htp_auth\<close>.\<close>

definition htp_auth_1 ::
  "config \<Rightarrow> env \<Rightarrow> services \<Rightarrow> HTTP_CONTEXT
     \<Rightarrow> tproc_status \<times> HTTP_CONTEXT \<times> event list" where
  "htp_auth_1 cfg e sv ctx =
     (case f_others (request ctx) ''Authorization'' of
        None \<Rightarrow> (TPROC_RUNOFF, ctx, [])
      | Some v \<Rightarrow>
          (let line = c_str v in
           if strncasecmp_eq line ''Basic '' 6 then
             (case decode64 sv (drop 6 line) of
                None \<Rightarrow> (TPROC_RUNOFF, ctx, [])
              | Some decoded \<Rightarrow>
                  (case strchr decoded (CHR '':'') of
                     None \<Rightarrow> (TPROC_RUNOFF, ctx, [])
                   | Some p \<Rightarrow>
                       htp_auth cfg e sv
                         (ctx\<lparr>username := gx_strlcpy 256 (take p decoded),
                              password := gx_strlcpy 128 (drop (p + 1) decoded)\<rparr>)))
           else (TPROC_RUNOFF, ctx, [])))"

subsection \<open>Delegation of an RPC request\<close>

text \<open>A channel as the allocator hands it out: every field zero, the queue empty.\<close>

definition new_in_channel :: RPC_IN_CHANNEL where
  "new_in_channel = \<lparr>ich_frag_length = 0, ich_channel_cookie = [],
     ich_connection_cookie = [], ich_life_time = 0, ich_client_keepalive = 0,
     ich_available_window = 0, ich_bytes_received = 0, ich_assoc_group_id = [],
     ich_pdu_list = [], ich_channel_stat = CHANNEL_STAT_OPENSTART\<rparr>"

definition new_out_channel :: RPC_OUT_CHANNEL where
  "new_out_channel = \<lparr>och_frag_length = 0, och_channel_cookie = [],
     och_connection_cookie = [], och_b_obsolete = False, och_client_keepalive = 0,
     och_available_window = 0, och_window_size = 0, och_bytes_sent = 0, och_pcall = None,
     och_pdu_list = [], och_channel_stat = CHANNEL_STAT_OPENSTART\<rparr>"

text \<open>The start of the host in the buffer when the URI begins with one of the two
  paths of the RPC proxy.\<close>

definition rpcproxy_prefix :: "string \<Rightarrow> nat option" where
  "rpcproxy_prefix tmp_buff =
     (if strncmp_eq tmp_buff ''/rpc/rpcproxy.dll?'' 18 then Some 18
      else if strncmp_eq tmp_buff ''/rpcwithcert/rpcproxy.dll?'' 26 then Some 26
      else None)"

text \<open>
  The second half of \<^verbatim>\<open>htp_delegate_rpc\<close>, from the test of \<^verbatim>\<open>b_authed\<close> on: the
  challenge for a request that is not authenticated; otherwise the Content-Length is
  taken, a channel is allocated when it exceeds 0x10 (an echo request has at most that),
  and the context turns to reading the body.
\<close>

definition rpc_open_channel ::
  "config \<Rightarrow> env \<Rightarrow> services \<Rightarrow> HTTP_CONTEXT \<Rightarrow> nat \<Rightarrow> tproc_status \<times> HTTP_CONTEXT" where
  "rpc_open_channel cfg e sv ctx1 stream_1_written =
     (if \<not> b_authed ctx1
      then (TPROC_LOOP, reply_unauthorized cfg e True ctx1)
      else
        (let ctx2 = ctx1\<lparr>total_length :=
               strtoull0 sv (c_str (f_content_length (request ctx1)))\<rparr>;
             ctx3 =
               (if 0x10 < total_length ctx2 then
                  (if strcmp_eq (req_method (request ctx2)) ''RPC_IN_DATA''
                   then ctx2\<lparr>channel_type := CHANNEL_TYPE_IN,
                          pchannel := (if channel_alloc_ok e
                            then Some (In_channel new_in_channel) else None)\<rparr>
                   else ctx2\<lparr>channel_type := CHANNEL_TYPE_OUT,
                          pchannel := (if channel_alloc_ok e
                            then Some (Out_channel new_out_channel) else None)\<rparr>)
                else ctx2) in
         if 0x10 < total_length ctx2 \<and> pchannel ctx3 = None
         then http_done e ctx3 5032
         else (TPROC_LOOP,
               ctx3\<lparr>bytes_rw := of_nat stream_1_written,
                    sched_stat := SCHED_STAT_RDBODY\<rparr>)))"

text \<open>The conversion of the \<^verbatim>\<open>long\<close> that \<^verbatim>\<open>strtol\<close> returns to the \<^verbatim>\<open>int\<close> of the
  field \<^verbatim>\<open>port\<close>: the low 32 bits, read as a signed number.\<close>

definition int_of_long :: "int \<Rightarrow> int" where
  "int_of_long x = sint (word_of_int x :: 32 word)"

text \<open>
  \<^verbatim>\<open>htp_delegate_rpc\<close>. The colon is looked for from the start of the buffer and
  overwritten with NUL; the host is the C string at \<^verbatim>\<open>ptoken\<close>, copied into the
  field of 128 bytes, and the port is whatever \<^verbatim>\<open>strtol\<close> with base 0 makes of the
  rest, narrowed to an \<^verbatim>\<open>int\<close>.
\<close>

definition htp_delegate_rpc ::
  "config \<Rightarrow> env \<Rightarrow> services \<Rightarrow> HTTP_CONTEXT \<Rightarrow> nat \<Rightarrow> tproc_status \<times> HTTP_CONTEXT" where
  "htp_delegate_rpc cfg e sv ctx stream_1_written =
     (let tmp_len = length (f_request_uri (request ctx)) in
      if tmp_len = 0 \<or> 1024 \<le> tmp_len then http_done e ctx 400
      else
        (let tmp_buff = gx_strlcpy 2048 (f_request_uri (request ctx)) in
         case rpcproxy_prefix tmp_buff of
           None \<Rightarrow> http_done e ctx 400
         | Some ptoken \<Rightarrow>
             (case strchr tmp_buff (CHR '':'') of
                None \<Rightarrow> http_done e ctx 400
              | Some ptoken1 \<Rightarrow>
                  if 128 < int ptoken1 - int ptoken then http_done e ctx 400
                  else
                    rpc_open_channel cfg e sv
                      (ctx\<lparr>host := gx_strlcpy 128 (drop ptoken (tmp_buff[ptoken1 := NUL])),
                           port := int_of_long (strtol0 sv (drop (ptoken1 + 1) tmp_buff))\<rparr>)
                      stream_1_written)))"

subsection \<open>The content-handler modules and the PDU processor\<close>

datatype hpm_retrieve =
  HPM_RETRIEVE_ERROR | HPM_RETRIEVE_WRITE | HPM_RETRIEVE_NONE | HPM_RETRIEVE_WAIT
  | HPM_RETRIEVE_DONE

datatype fcgi_response = RESPONSE_WAITING | RESPONSE_TIMEOUT | RESPONSE_AVAILABLE

text \<open>The functions of the three content-handler modules that the body reader and the
  reply writer call; a function that may write into the context answers with the
  context afterwards.\<close>

record modules =
  hpm_processor_write_request :: "HTTP_CONTEXT \<Rightarrow> bool \<times> HTTP_CONTEXT"
  hpm_processor_check_end_of_request :: "HTTP_CONTEXT \<Rightarrow> bool"
  hpm_processor_proc :: "HTTP_CONTEXT \<Rightarrow> bool \<times> HTTP_CONTEXT"
  hpm_processor_retrieve_response :: "HTTP_CONTEXT \<Rightarrow> hpm_retrieve \<times> HTTP_CONTEXT"
  mod_fastcgi_write_request :: "HTTP_CONTEXT \<Rightarrow> bool \<times> HTTP_CONTEXT"
  mod_fastcgi_check_end_of_read :: "HTTP_CONTEXT \<Rightarrow> bool"
  mod_fastcgi_relay_content :: "HTTP_CONTEXT \<Rightarrow> bool \<times> HTTP_CONTEXT"
  mod_fastcgi_check_response :: "HTTP_CONTEXT \<Rightarrow> fcgi_response"
  mod_fastcgi_check_responded :: "HTTP_CONTEXT \<Rightarrow> bool"
  mod_fastcgi_read_response :: "HTTP_CONTEXT \<Rightarrow> bool \<times> HTTP_CONTEXT"
  mod_cache_write_request :: "HTTP_CONTEXT \<Rightarrow> bool \<times> HTTP_CONTEXT"
  mod_cache_check_end_of_read :: "HTTP_CONTEXT \<Rightarrow> bool"
  mod_cache_read_response :: "HTTP_CONTEXT \<Rightarrow> bool \<times> HTTP_CONTEXT"
  mod_cache_check_responded :: "HTTP_CONTEXT \<Rightarrow> bool"

text \<open>
  The functions of the PDU processor that the parser calls. \<^verbatim>\<open>pdu_processor_rts_input\<close>
  runs with the context as the current one and may call back into the parser, so it
  answers with the state afterwards; the builders of RTS PDUs answer with the call that
  now holds the PDU; \<^verbatim>\<open>pdu_processor_rts_echo\<close> is the echo PDU it writes.
\<close>

record pdu_processor =
  pdu_processor_rts_echo :: string
  pdu_processor_rts_input ::
    "string \<Rightarrow> ctx_ptr \<Rightarrow> gstate \<Rightarrow> pdu_result \<times> DCERPC_CALL option \<times> gstate"
  pdu_processor_input :: "nat \<Rightarrow> string \<Rightarrow> pdu_result \<times> DCERPC_CALL option"
  pdu_processor_rts_flowcontrolack_withdestination ::
    "DCERPC_CALL \<Rightarrow> 32 word \<Rightarrow> 32 word \<Rightarrow> string \<Rightarrow> DCERPC_CALL"
  pdu_processor_rts_outr2_a2 :: "DCERPC_CALL \<Rightarrow> bool \<times> DCERPC_CALL"
  pdu_processor_create :: "string \<Rightarrow> int \<Rightarrow> nat option"

text \<open>\<^verbatim>\<open>pdu_processor_output_pdu\<close> moves the PDUs of a call to the tail of a queue;
  \<^verbatim>\<open>pdu_processor_output_stream\<close> writes them into a stream.\<close>

definition pdu_processor_output_pdu :: "DCERPC_CALL \<Rightarrow> BLOB_NODE list \<Rightarrow> BLOB_NODE list" where
  "pdu_processor_output_pdu pcall pdu_list = pdu_list @ reply_list pcall"

definition pdu_processor_output_stream :: "DCERPC_CALL \<Rightarrow> STREAM \<Rightarrow> STREAM" where
  "pdu_processor_output_stream pcall st = stream_write (concat (map blob (reply_list pcall))) st"

subsection \<open>Reading the body of a request that is not an MS-RPCH channel\<close>

text \<open>What \<^verbatim>\<open>read\<close> hands over when asked for \<^verbatim>\<open>sz\<close> bytes.\<close>

definition received :: "env \<Rightarrow> nat \<Rightarrow> string" where
  "received e sz = (case sock_read e of Read_data d \<Rightarrow> take sz d | _ \<Rightarrow> [])"

definition timed_out :: "config \<Rightarrow> env \<Rightarrow> HTTP_CONTEXT \<Rightarrow> bool" where
  "timed_out cfg e ctx \<longleftrightarrow> \<not> now e - last_timestamp ctx < g_timeout cfg"

text \<open>After a module has taken the whole request: the context turns to writing and the
  input stream is compacted.\<close>

definition turn_to_wrrep ::
  "config \<Rightarrow> env \<Rightarrow> HTTP_CONTEXT \<Rightarrow> (HTTP_CONTEXT \<Rightarrow> tproc_status \<times> HTTP_CONTEXT)
     \<Rightarrow> tproc_status \<times> HTTP_CONTEXT" where
  "turn_to_wrrep cfg e ctx continue =
     (let ctx1 = ctx\<lparr>sched_stat := SCHED_STAT_WRREP\<rparr> in
      case http_parser_reconstruct_stream cfg e (stream_in ctx1) of
        (ret, st) \<Rightarrow>
          if ret < 0 then http_done e (ctx1\<lparr>stream_in := st\<rparr>) (- 5032)
          else continue (ctx1\<lparr>stream_in := st\<rparr>))"

text \<open>Taking the next chunk of the output stream as the write buffer.\<close>

definition load_write_buff :: "config \<Rightarrow> HTTP_CONTEXT \<Rightarrow> HTTP_CONTEXT" where
  "load_write_buff cfg ctx =
     (case stream_get_read_buf (STREAM_BLOCK_SIZE cfg) (STREAM_BLOCK_SIZE cfg) (stream_out ctx) of
        (b, st) \<Rightarrow>
          ctx\<lparr>stream_out := st, write_buff := b,
              write_length := (case b of None \<Rightarrow> 0 | Some bytes \<Rightarrow> int (length bytes))\<rparr>)"

definition htparse_rdbody_nochan2 ::
  "config \<Rightarrow> env \<Rightarrow> modules \<Rightarrow> HTTP_CONTEXT \<Rightarrow> tproc_status \<times> HTTP_CONTEXT" where
  "htparse_rdbody_nochan2 cfg e md ctx =
     (case stream_get_write_buf (STREAM_BLOCK_SIZE cfg) (alloc_ok e) (stream_in ctx) of
        None \<Rightarrow> http_done e ctx 400
      | Some sz \<Rightarrow>
          (case sock_read e of
             Read_eof \<Rightarrow> (TPROC_RUNOFF, ctx)
           | Read_error \<Rightarrow> (TPROC_RUNOFF, ctx)
           | Read_eagain \<Rightarrow>
               if timed_out cfg e ctx then http_done e ctx 408
               else (TPROC_POLLING_RDONLY, ctx)
           | Read_data d \<Rightarrow>
               if received e sz = [] then (TPROC_RUNOFF, ctx)
               else
                 (let ctx1 = ctx\<lparr>last_timestamp := now e,
                          stream_in := stream_fwd_write (received e sz) (stream_in ctx)\<rparr> in
                  if hpm_in_charge ctx1 then
                    (case hpm_processor_write_request md ctx1 of
                       (False, ctx2) \<Rightarrow> http_done e ctx2 400
                     | (True, ctx2) \<Rightarrow>
                         if \<not> hpm_processor_check_end_of_request md ctx2
                         then (TPROC_CONT, ctx2)
                         else
                           (case hpm_processor_proc md ctx2 of
                              (False, ctx3) \<Rightarrow> http_done e ctx3 400
                            | (True, ctx3) \<Rightarrow>
                                turn_to_wrrep cfg e ctx3
                                  (\<lambda>c. (TPROC_CONT,
                                     if stream_get_total_length (stream_out c) \<noteq> 0
                                     then load_write_buff cfg c else c))))
                  else if fcgi_in_charge ctx1 then
                    (case mod_fastcgi_write_request md ctx1 of
                       (False, ctx2) \<Rightarrow> http_done e ctx2 400
                     | (True, ctx2) \<Rightarrow>
                         if \<not> mod_fastcgi_check_end_of_read md ctx2
                         then (TPROC_CONT, ctx2)
                         else
                           (case mod_fastcgi_relay_content md ctx2 of
                              (False, ctx3) \<Rightarrow> http_done e ctx3 502
                            | (True, ctx3) \<Rightarrow>
                                turn_to_wrrep cfg e ctx3 (\<lambda>c. (TPROC_CONT, c))))
                  else if cache_in_charge ctx1 then
                    (case mod_cache_write_request md ctx1 of
                       (False, ctx2) \<Rightarrow> http_done e ctx2 400
                     | (True, ctx2) \<Rightarrow>
                         if \<not> mod_cache_check_end_of_read md ctx2
                         then (TPROC_CONT, ctx2)
                         else turn_to_wrrep cfg e ctx2 (\<lambda>c. (TPROC_CONT, c)))
                  else
                    (let ctx2 = ctx1\<lparr>bytes_rw := bytes_rw ctx1 +
                             of_nat (length (received e sz))\<rparr> in
                     if bytes_rw ctx2 < total_length ctx2 then (TPROC_CONT, ctx2)
                     else (TPROC_RUNOFF, ctx2)))))"

text \<open>The reply to an echo request: a fixed head and the echo PDU of 20 bytes.\<close>

definition echo_response :: "pdu_processor \<Rightarrow> string" where
  "echo_response pp =
     gx_snprintf 1024
       (''HTTP/1.1 200 Success'' @ CRLF @
        ''Connection: Keep-Alive'' @ CRLF @
        ''Content-Length: 20'' @ CRLF @
        ''Content-Type: application/rpc'' @ CRLF @ CRLF) @
     take 20 (pdu_processor_rts_echo pp)"

definition htparse_rdbody_nochan ::
  "config \<Rightarrow> env \<Rightarrow> modules \<Rightarrow> pdu_processor \<Rightarrow> HTTP_CONTEXT
     \<Rightarrow> tproc_status \<times> HTTP_CONTEXT" where
  "htparse_rdbody_nochan cfg e md pp ctx =
     (let rd = (if total_length ctx = 0 \<or> bytes_rw ctx < total_length ctx
                then htparse_rdbody_nochan2 cfg e md ctx
                else (TPROC_RUNOFF, ctx)) in
      if fst rd \<noteq> TPROC_RUNOFF then rd
      else
        (let ctx1 = snd rd in
         if \<not> strcasecmp_eq (req_method (request ctx1)) ''RPC_IN_DATA'' \<and>
            \<not> strcasecmp_eq (req_method (request ctx1)) ''RPC_OUT_DATA''
         then http_done e ctx1 405
         else
           (let response = echo_response pp;
                ctx2 = ctx1\<lparr>stream_out := stream_write response (stream_out ctx1),
                            total_length := of_nat (length response),
                            bytes_rw := 0,
                            sched_stat := SCHED_STAT_WRREP\<rparr> in
            case http_parser_reconstruct_stream cfg e (stream_in ctx2) of
              (ret, st) \<Rightarrow>
                if ret < 0 then http_done e (ctx2\<lparr>stream_in := st\<rparr>) (- 5032)
                else (TPROC_CONT, ctx2\<lparr>stream_in := st\<rparr>))))"

subsection \<open>Reading the body of an MS-RPCH channel\<close>

definition in_chan :: "HTTP_CONTEXT \<Rightarrow> RPC_IN_CHANNEL option" where
  "in_chan ctx = (case pchannel ctx of Some (In_channel c) \<Rightarrow> Some c | _ \<Rightarrow> None)"

definition out_chan :: "HTTP_CONTEXT \<Rightarrow> RPC_OUT_CHANNEL option" where
  "out_chan ctx = (case pchannel ctx of Some (Out_channel c) \<Rightarrow> Some c | _ \<Rightarrow> None)"

definition set_ctx :: "ctx_ptr \<Rightarrow> HTTP_CONTEXT \<Rightarrow> gstate \<Rightarrow> gstate" where
  "set_ctx p ctx s = s\<lparr>g_context_list := (g_context_list s)(p \<mapsto> ctx)\<rparr>"

definition add_event :: "event \<Rightarrow> gstate \<Rightarrow> gstate" where
  "add_event ev s = s\<lparr>trace := trace s @ [ev]\<rparr>"

text \<open>The fragment length a channel context has noted for the PDU in progress; the
  cast of \<^verbatim>\<open>pchannel\<close> follows \<^verbatim>\<open>channel_type\<close>.\<close>

definition chan_frag_length :: "HTTP_CONTEXT \<Rightarrow> 16 word option" where
  "chan_frag_length ctx =
     (if channel_type ctx = CHANNEL_TYPE_IN then map_option ich_frag_length (in_chan ctx)
      else map_option och_frag_length (out_chan ctx))"

definition set_chan_frag_length :: "16 word \<Rightarrow> HTTP_CONTEXT \<Rightarrow> HTTP_CONTEXT option" where
  "set_chan_frag_length fl ctx =
     (if channel_type ctx = CHANNEL_TYPE_IN then
        map_option (\<lambda>c. ctx\<lparr>pchannel := Some (In_channel (c\<lparr>ich_frag_length := fl\<rparr>))\<rparr>)
          (in_chan ctx)
      else
        map_option (\<lambda>c. ctx\<lparr>pchannel := Some (Out_channel (c\<lparr>och_frag_length := fl\<rparr>))\<rparr>)
          (out_chan ctx))"

definition le16p_to_cpu :: "char \<Rightarrow> char \<Rightarrow> 16 word" where
  "le16p_to_cpu b0 b1 = of_char b0 OR push_bit 8 (of_char b1)"

definition be16p_to_cpu :: "char \<Rightarrow> char \<Rightarrow> 16 word" where
  "be16p_to_cpu b0 b1 = push_bit 8 (of_char b0) OR of_char b1"

text \<open>The fragment length in the header of the PDU at the start of \<^verbatim>\<open>pbuff\<close>: the
  data representation byte selects the byte order of the 16 bits at
  \<^verbatim>\<open>DCERPC_FRAG_LEN_OFFSET\<close>.\<close>

definition read_frag_length :: "config \<Rightarrow> string \<Rightarrow> 16 word option" where
  "read_frag_length cfg pbuff =
     do {
       drep \<leftarrow> byte_at pbuff (DCERPC_DREP_OFFSET cfg);
       b0 \<leftarrow> byte_at pbuff (DCERPC_FRAG_LEN_OFFSET cfg);
       b1 \<leftarrow> byte_at pbuff (DCERPC_FRAG_LEN_OFFSET cfg + 1);
       Some (if (of_char drep :: 8 word) AND DCERPC_DREP_LE cfg \<noteq> 0
             then le16p_to_cpu b0 b1 else be16p_to_cpu b0 b1)
     }"

text \<open>
  The first part of \<^verbatim>\<open>htparse_rdbody\<close> for a channel context: when the header of the
  next PDU or the PDU itself is not yet in the stream, one read from the socket.
  \<^verbatim>\<open>Inl\<close> is a verdict returned at once, \<^verbatim>\<open>Inr\<close> the context to go on with.
\<close>

definition rdbody_read ::
  "config \<Rightarrow> env \<Rightarrow> 16 word \<Rightarrow> HTTP_CONTEXT
     \<Rightarrow> (tproc_status \<times> HTTP_CONTEXT) + HTTP_CONTEXT" where
  "rdbody_read cfg e frag_length ctx =
     (let tmp_len = stream_get_total_length (stream_in ctx) in
      if tmp_len < DCERPC_FRAG_LEN_OFFSET cfg + 2 \<or>
         (0 < frag_length \<and> tmp_len < unat frag_length) then
        (case stream_get_write_buf (STREAM_BLOCK_SIZE cfg) (alloc_ok e) (stream_in ctx) of
           None \<Rightarrow> Inl (http_done e ctx 5032)
         | Some sz \<Rightarrow>
             (case sock_read e of
                Read_eof \<Rightarrow> Inl (TPROC_RUNOFF, ctx)
              | Read_error \<Rightarrow> Inl (TPROC_RUNOFF, ctx)
              | Read_eagain \<Rightarrow>
                  if timed_out cfg e ctx then Inl (http_done e ctx 408)
                  else Inl (TPROC_POLLING_RDONLY, ctx)
              | Read_data d \<Rightarrow>
                  if received e sz = [] then Inl (TPROC_RUNOFF, ctx)
                  else
                    (let ctx1 = ctx\<lparr>bytes_rw := bytes_rw ctx +
                             of_nat (length (received e sz))\<rparr> in
                     if total_length ctx1 < bytes_rw ctx1 then Inl (TPROC_RUNOFF, ctx1)
                     else Inr (ctx1\<lparr>last_timestamp := now e,
                             stream_in := stream_fwd_write (received e sz) (stream_in ctx1)\<rparr>))))
      else Inr ctx)"

text \<open>
  The second part: the bytes at the head of the stream are looked at, and when the
  channel has no fragment length yet and enough of the header is there, the length is
  read from it and noted in the channel. \<^verbatim>\<open>Inr\<close> carries the context, the buffer and
  the fragment length of a PDU that is complete.
\<close>

definition rdbody_frag ::
  "config \<Rightarrow> 16 word \<Rightarrow> HTTP_CONTEXT
     \<Rightarrow> ((tproc_status \<times> HTTP_CONTEXT) + (HTTP_CONTEXT \<times> string \<times> 16 word)) option" where
  "rdbody_frag cfg frag_length ctx =
     (case stream_get_read_buf (STREAM_BLOCK_SIZE cfg) (STREAM_BLOCK_SIZE cfg) (stream_in ctx) of
        (None, st) \<Rightarrow> Some (Inl (TPROC_POLLING_RDONLY, ctx\<lparr>stream_in := st\<rparr>))
      | (Some pbuff, st) \<Rightarrow>
          (let tmp_len = length pbuff;
               ctx1 = ctx\<lparr>stream_in := stream_rewind_read_ptr tmp_len st\<rparr> in
           if tmp_len < DCERPC_FRAG_LEN_OFFSET cfg + 2 then Some (Inl (TPROC_CONT, ctx1))
           else
             do {
               (fl, ctx2) \<leftarrow>
                 (if frag_length = 0 then
                    do {
                      fl \<leftarrow> read_frag_length cfg pbuff;
                      ctx2 \<leftarrow> set_chan_frag_length fl ctx1;
                      Some (fl, ctx2)
                    }
                  else Some (frag_length, ctx1));
               Some (if tmp_len < unat fl then Inl (TPROC_CONT, ctx2)
                     else Inr (ctx2, pbuff, fl))
             }))"

text \<open>
  The forwarding of a PDU that arrived on an opened IN channel to the PDU processor of
  its virtual connection, with the account of the receive window: the window is
  debited and the byte count credited by the fragment length; when the processor has
  answered with a call, the connection has an OUT channel and the window has fallen
  below half of that channel's window size, the window is set back to the window size
  and a FlowControlAckWithDestination is built on the call; the call's PDUs are queued
  on the OUT channel there and then only when the processor's verdict is
  \<^verbatim>\<open>PDU_PROCESSOR_INPUT\<close>. The reference to the connection is released at the end of
  the block.
\<close>

definition rdbody_forward ::
  "pdu_processor \<Rightarrow> ctx_ptr \<Rightarrow> string \<Rightarrow> 16 word \<Rightarrow> gstate
     \<Rightarrow> ((tproc_status \<times> gstate) + (pdu_result \<times> DCERPC_CALL option \<times> gstate)) option" where
  "rdbody_forward pp p pbuff fl s =
     do {
       ctx \<leftarrow> g_context_list s p;
       ich \<leftarrow> in_chan ctx;
       (case http_parser_get_vconnection (host ctx) (port ctx) (ich_connection_cookie ich) s of
          (None, s1) \<Rightarrow> Some (Inl (TPROC_RUNOFF, s1))
        | (Some k, s1) \<Rightarrow>
            do {
              vc \<leftarrow> map_of (g_vconnection_hash s1) k;
              if pcontext_in vc \<noteq> Some p \<or> pprocessor vc = None then
                do {
                  s2 \<leftarrow> VCONN_REF_put (Some k) s1;
                  Some (Inl (TPROC_RUNOFF, s2))
                }
              else
                do {
                  pr \<leftarrow> pprocessor vc;
                  (case pdu_processor_input pp pr (take (unat fl) pbuff) of
                     (result, pcall) \<Rightarrow>
                       do {
                         let ich1 = ich\<lparr>
                               ich_available_window := ich_available_window ich - ucast fl,
                               ich_bytes_received := ich_bytes_received ich + ucast fl\<rparr>;
                         let s2 = set_ctx p (ctx\<lparr>pchannel := Some (In_channel ich1)\<rparr>) s1;
                         (pcall', s3) \<leftarrow>
                           (case (pcall, pcontext_out vc) of
                              (Some pc, Some po) \<Rightarrow>
                                do {
                                  octx \<leftarrow> g_context_list s2 po;
                                  och \<leftarrow> out_chan octx;
                                  if ich_available_window ich1 < och_window_size och div 2 then
                                    do {
                                      let ich2 = ich1\<lparr>ich_available_window := och_window_size och\<rparr>;
                                      let pc' = pdu_processor_rts_flowcontrolack_withdestination pp
                                            pc (ich_bytes_received ich2) (ich_available_window ich2)
                                            (ich_channel_cookie ich2);
                                      let s3 = add_event
                                            (Rts_flowcontrolack_withdestination
                                               (ich_bytes_received ich2) (ich_available_window ich2)
                                               (ich_channel_cookie ich2))
                                            (set_ctx p (ctx\<lparr>pchannel := Some (In_channel ich2)\<rparr>) s2);
                                      if result = PDU_PROCESSOR_INPUT then
                                        Some (Some (pc'\<lparr>reply_list := []\<rparr>),
                                          add_event (Contexts_pool_signal po)
                                            (set_ctx po
                                               (octx\<lparr>pchannel := Some (Out_channel
                                                   (och\<lparr>och_pdu_list :=
                                                      pdu_processor_output_pdu pc' (och_pdu_list och)\<rparr>)),
                                                 sched_stat := SCHED_STAT_WRREP\<rparr>) s3))
                                      else Some (Some pc', s3)
                                    }
                                  else Some (pcall, s2)
                                }
                            | _ \<Rightarrow> Some (pcall, s2));
                         s4 \<leftarrow> VCONN_REF_put (Some k) s3;
                         Some (Inr (result, pcall', s4))
                       })
                }
            })
     }"

text \<open>What an opened IN channel does with the verdict on transport signalling: an
  error is passed over, a PDU to be forwarded goes to the PDU processor.\<close>

definition rdbody_opened_in ::
  "pdu_processor \<Rightarrow> ctx_ptr \<Rightarrow> string \<Rightarrow> 16 word \<Rightarrow> pdu_result \<Rightarrow> DCERPC_CALL option \<Rightarrow> gstate
     \<Rightarrow> ((tproc_status \<times> gstate) + (pdu_result \<times> DCERPC_CALL option \<times> gstate)) option" where
  "rdbody_opened_in pp p pbuff fl result pcall s =
     do {
       ctx \<leftarrow> g_context_list s p;
       if channel_type ctx = CHANNEL_TYPE_IN then
         do {
           ich \<leftarrow> in_chan ctx;
           if ich_channel_stat ich = CHANNEL_STAT_OPENED then
             (if result = PDU_PROCESSOR_ERROR then Some (Inr (PDU_PROCESSOR_INPUT, pcall, s))
              else if result = PDU_PROCESSOR_FORWARD then rdbody_forward pp p pbuff fl s
              else Some (Inr (result, pcall, s)))
           else Some (Inr (result, pcall, s))
         }
       else Some (Inr (result, pcall, s))
     }"

definition out_channel_head :: "env \<Rightarrow> string" where
  "out_channel_head e =
     gx_snprintf 1024
       (''HTTP/1.1 200 Success'' @ CRLF @
        ''Date: '' @ dstring e @ CRLF @
        ''Cache-Control: private'' @ CRLF @
        ''Content-Type: application/rpc'' @ CRLF @
        ''Persistent-Auth: true'' @ CRLF @
        ''Content-Length: '' @ show_nat OUT_CHANNEL_MAX_LENGTH @ CRLF @ CRLF)"

text \<open>The verdict \<^verbatim>\<open>PDU_PROCESSOR_OUTPUT\<close> on an OUT channel: the channel is being
  opened, and the reply head and the first PDUs go into the output stream.\<close>

definition rdbody_output_out ::
  "env \<Rightarrow> ctx_ptr \<Rightarrow> DCERPC_CALL option \<Rightarrow> HTTP_CONTEXT \<Rightarrow> gstate
     \<Rightarrow> (tproc_status \<times> gstate) option" where
  "rdbody_output_out e p pcall ctx s =
     do {
       och \<leftarrow> out_chan ctx;
       if och_channel_stat och \<noteq> CHANNEL_STAT_OPENSTART \<and>
          och_channel_stat och \<noteq> CHANNEL_STAT_RECYCLING
       then Some (TPROC_RUNOFF, set_ctx p ctx s)
       else
         do {
           pc \<leftarrow> pcall;
           let response = out_channel_head e;
           Some (TPROC_LOOP,
             set_ctx p
               (ctx\<lparr>stream_out :=
                      pdu_processor_output_stream pc (stream_write response (stream_out ctx)),
                    total_length := of_nat (OUT_CHANNEL_MAX_LENGTH + length response),
                    bytes_rw := 0,
                    sched_stat := SCHED_STAT_WRREP,
                    pchannel := Some (Out_channel
                      (och\<lparr>och_pcall := Some (pc\<lparr>reply_list := []\<rparr>),
                           och_channel_stat :=
                             (if och_channel_stat och = CHANNEL_STAT_OPENSTART
                              then CHANNEL_STAT_WAITINCHANNEL
                              else CHANNEL_STAT_WAITRECYCLED)\<rparr>))\<rparr>) s)
         }
     }"

text \<open>The verdict \<^verbatim>\<open>PDU_PROCESSOR_OUTPUT\<close> on an IN channel: the PDUs go to the queue of
  the paired OUT channel, or to the IN channel's own queue when that one is obsolete.\<close>

definition rdbody_output_in ::
  "ctx_ptr \<Rightarrow> DCERPC_CALL option \<Rightarrow> HTTP_CONTEXT \<Rightarrow> gstate
     \<Rightarrow> (tproc_status \<times> gstate) option" where
  "rdbody_output_in p pcall ctx s =
     do {
       ich \<leftarrow> in_chan ctx;
       (case http_parser_get_vconnection (host ctx) (port ctx) (ich_connection_cookie ich)
               (set_ctx p ctx s) of
          (None, s1) \<Rightarrow> Some (TPROC_RUNOFF, s1)
        | (Some k, s1) \<Rightarrow>
            do {
              vc \<leftarrow> map_of (g_vconnection_hash s1) k;
              if (Some p \<noteq> pcontext_in vc \<and> Some p \<noteq> pcontext_insucc vc) \<or>
                 pcontext_out vc = None then
                do {
                  s2 \<leftarrow> VCONN_REF_put (Some k) s1;
                  Some (TPROC_RUNOFF, s2)
                }
              else
                do {
                  po \<leftarrow> pcontext_out vc;
                  octx \<leftarrow> g_context_list s1 po;
                  och \<leftarrow> out_chan octx;
                  pc \<leftarrow> pcall;
                  s3 \<leftarrow> VCONN_REF_put (Some k)
                    (if och_b_obsolete och then
                       set_ctx p (ctx\<lparr>pchannel := Some (In_channel
                         (ich\<lparr>ich_pdu_list := pdu_processor_output_pdu pc (ich_pdu_list ich)\<rparr>))\<rparr>) s1
                     else
                       add_event (Contexts_pool_signal po)
                         (set_ctx po (octx\<lparr>pchannel := Some (Out_channel
                            (och\<lparr>och_pdu_list := pdu_processor_output_pdu pc (och_pdu_list och)\<rparr>)),
                            sched_stat := SCHED_STAT_WRREP\<rparr>) s1));
                  Some (TPROC_CONT, s3)
                }
            })
     }"

text \<open>The end of \<^verbatim>\<open>htparse_rdbody\<close>: the PDU is taken off the stream, the fragment
  length of the channel is cleared, and the verdict on the PDU decides how to go on.\<close>

definition rdbody_finish ::
  "config \<Rightarrow> env \<Rightarrow> ctx_ptr \<Rightarrow> 16 word \<Rightarrow> pdu_result \<Rightarrow> DCERPC_CALL option \<Rightarrow> gstate
     \<Rightarrow> (tproc_status \<times> gstate) option" where
  "rdbody_finish cfg e p fl result pcall s =
     do {
       ctx \<leftarrow> g_context_list s p;
       ctx1 \<leftarrow> set_chan_frag_length 0
         (ctx\<lparr>stream_in := stream_fwd_read_ptr (unat fl) (stream_in ctx)\<rparr>);
       (case http_parser_reconstruct_stream cfg e (stream_in ctx1) of
          (ret, st) \<Rightarrow>
            (let ctx2 = ctx1\<lparr>stream_in := st\<rparr> in
             if ret < 0 then
               (case http_done e ctx2 (- 5032) of (r, c) \<Rightarrow> Some (r, set_ctx p c s))
             else
               (case result of
                  PDU_PROCESSOR_ERROR \<Rightarrow> Some (TPROC_RUNOFF, set_ctx p ctx2 s)
                | PDU_PROCESSOR_FORWARD \<Rightarrow> Some (TPROC_RUNOFF, set_ctx p ctx2 s)
                | PDU_PROCESSOR_INPUT \<Rightarrow> Some (TPROC_CONT, set_ctx p ctx2 s)
                | PDU_PROCESSOR_TERMINATE \<Rightarrow> Some (TPROC_RUNOFF, set_ctx p ctx2 s)
                | PDU_PROCESSOR_OUTPUT \<Rightarrow>
                    if channel_type ctx2 = CHANNEL_TYPE_OUT
                    then rdbody_output_out e p pcall ctx2 s
                    else rdbody_output_in p pcall ctx2 s)))
     }"

text \<open>\<^verbatim>\<open>htparse_rdbody\<close>, the step of a context in the state of reading a body.\<close>

definition htparse_rdbody ::
  "config \<Rightarrow> env \<Rightarrow> modules \<Rightarrow> pdu_processor \<Rightarrow> ctx_ptr \<Rightarrow> gstate
     \<Rightarrow> (tproc_status \<times> gstate) option" where
  "htparse_rdbody cfg e md pp p s =
     do {
       ctx \<leftarrow> g_context_list s p;
       if pchannel ctx = None \<or>
          (channel_type ctx \<noteq> CHANNEL_TYPE_IN \<and> channel_type ctx \<noteq> CHANNEL_TYPE_OUT)
       then (case htparse_rdbody_nochan cfg e md pp ctx of (r, c) \<Rightarrow> Some (r, set_ctx p c s))
       else
         do {
           frag_length \<leftarrow> chan_frag_length ctx;
           (case rdbody_read cfg e frag_length ctx of
              Inl (r, c) \<Rightarrow> Some (r, set_ctx p c s)
            | Inr ctx1 \<Rightarrow>
                do {
                  x \<leftarrow> rdbody_frag cfg frag_length ctx1;
                  (case x of
                     Inl (r, c) \<Rightarrow> Some (r, set_ctx p c s)
                   | Inr (ctx2, pbuff, fl) \<Rightarrow>
                       (case pdu_processor_rts_input pp (take (unat fl) pbuff) p
                               (set_ctx p ctx2 s) of
                          (result, pcall, s1) \<Rightarrow>
                            do {
                              y \<leftarrow> rdbody_opened_in pp p pbuff fl result pcall s1;
                              (case y of
                                 Inl rs \<Rightarrow> Some rs
                               | Inr (result', pcall', s2) \<Rightarrow>
                                   rdbody_finish cfg e p fl result' pcall' s2)
                            }))
                })
         }
     }"

subsection \<open>Writing the reply\<close>

definition request_clear :: "HTTP_REQUEST \<Rightarrow> HTTP_REQUEST" where
  "request_clear r = r\<lparr>req_method := [], f_request_uri := [], version := [],
     f_content_length := [], f_others := Map.empty\<rparr>"

text \<open>The reply is complete and the connection stays: back to reading a request head.\<close>

definition back_to_rdhead :: "HTTP_CONTEXT \<Rightarrow> HTTP_CONTEXT" where
  "back_to_rdhead ctx =
     ctx\<lparr>request := request_clear (request ctx), sched_stat := SCHED_STAT_RDHEAD,
         stream_out := stream_init\<rparr>"

text \<open>Is the context an OUT channel in the state OPENED? The test reads the channel
  through \<^verbatim>\<open>pchannel\<close> whenever the type is OUT.\<close>

definition out_opened :: "HTTP_CONTEXT \<Rightarrow> bool option" where
  "out_opened ctx =
     (if channel_type ctx = CHANNEL_TYPE_OUT
      then map_option (\<lambda>c. och_channel_stat c = CHANNEL_STAT_OPENED) (out_chan ctx)
      else Some False)"

text \<open>The part of \<^verbatim>\<open>htparse_wrrep_nobuf\<close> that asks the module in charge for more of
  its reply.\<close>

definition wrrep_nobuf_modules ::
  "env \<Rightarrow> modules \<Rightarrow> HTTP_CONTEXT \<Rightarrow> (tproc_status \<times> HTTP_CONTEXT) + HTTP_CONTEXT" where
  "wrrep_nobuf_modules e md ctx =
     (if hpm_in_charge ctx then
        (case hpm_processor_retrieve_response md ctx of
           (HPM_RETRIEVE_ERROR, c) \<Rightarrow> Inl (http_done e c 400)
         | (HPM_RETRIEVE_WRITE, c) \<Rightarrow> Inr c
         | (HPM_RETRIEVE_NONE, c) \<Rightarrow> Inl (TPROC_CONT, c)
         | (HPM_RETRIEVE_WAIT, c) \<Rightarrow> Inl (TPROC_IDLE, c\<lparr>sched_stat := SCHED_STAT_WAIT\<rparr>)
         | (HPM_RETRIEVE_DONE, c) \<Rightarrow>
             if b_close c then Inl (TPROC_RUNOFF, c)
             else Inl (TPROC_CONT, back_to_rdhead (c\<lparr>hpm_in_charge := False\<rparr>)))
      else if fcgi_in_charge ctx then
        (case mod_fastcgi_check_response md ctx of
           RESPONSE_WAITING \<Rightarrow> Inl (TPROC_CONT, ctx)
         | RESPONSE_TIMEOUT \<Rightarrow> Inl (http_done e ctx 5042)
         | RESPONSE_AVAILABLE \<Rightarrow>
             (case mod_fastcgi_read_response md ctx of
                (got, c) \<Rightarrow>
                  if mod_fastcgi_check_responded md ctx then
                    (if \<not> got \<and> stream_get_total_length (stream_out c) = 0 then
                       (if b_close c then Inl (TPROC_RUNOFF, c)
                        else Inl (TPROC_CONT, back_to_rdhead c))
                     else Inr c)
                  else if \<not> got then Inl (http_done e c 502)
                  else Inr c))
      else if cache_in_charge ctx then
        (case mod_cache_read_response md ctx of
           (True, c) \<Rightarrow> Inr c
         | (False, c) \<Rightarrow>
             if \<not> mod_cache_check_responded md c then Inl (http_done e c 400)
             else if stream_get_total_length (stream_out c) = 0 then
               (if b_close c then Inl (TPROC_RUNOFF, c)
                else Inl (TPROC_CONT, back_to_rdhead c))
             else Inr c)
      else Inr ctx)"

text \<open>\<^verbatim>\<open>htparse_wrrep_nobuf\<close>: finds the next bytes to write, from the head of the PDU
  queue for an opened OUT channel and from the output stream otherwise.\<close>

definition htparse_wrrep_nobuf ::
  "config \<Rightarrow> env \<Rightarrow> modules \<Rightarrow> ctx_ptr \<Rightarrow> gstate \<Rightarrow> (tproc_status \<times> gstate) option" where
  "htparse_wrrep_nobuf cfg e md p s =
     do {
       ctx0 \<leftarrow> g_context_list s p;
       (case wrrep_nobuf_modules e md ctx0 of
          Inl (r, c) \<Rightarrow> Some (r, set_ctx p c s)
        | Inr c \<Rightarrow>
            do {
              let ctx = c\<lparr>write_offset := 0\<rparr>;
              opened \<leftarrow> out_opened ctx;
              if opened then
                do {
                  chan \<leftarrow> out_chan ctx;
                  (case http_parser_get_vconnection (host ctx) (port ctx)
                          (och_connection_cookie chan) (set_ctx p ctx s) of
                     (None, s1) \<Rightarrow> Some (TPROC_RUNOFF, s1)
                   | (Some k, s1) \<Rightarrow>
                       (case och_pdu_list chan of
                          [] \<Rightarrow>
                            do {
                              s2 \<leftarrow> VCONN_REF_put (Some k) s1;
                              Some (TPROC_IDLE, set_ctx p (ctx\<lparr>sched_stat := SCHED_STAT_WAIT\<rparr>) s2)
                            }
                        | pnode # rest \<Rightarrow>
                            do {
                              s2 \<leftarrow> VCONN_REF_put (Some k)
                                (set_ctx p (ctx\<lparr>write_buff := Some (blob pnode),
                                   write_length := int (length (blob pnode))\<rparr>) s1);
                              Some (TPROC_RUNOFF, s2)
                            }))
                }
              else Some (TPROC_RUNOFF, set_ctx p (load_write_buff cfg ctx) s)
            })
     }"

text \<open>
  The account of an opened OUT channel after a write of \<^verbatim>\<open>written_len\<close> bytes: the
  node at the head of the queue is looked at, and unless it is marked as RTS the window
  is debited and the count of bytes sent credited. Looking at the head of an empty
  queue is undefined.
\<close>

definition wrrep_account :: "nat \<Rightarrow> RPC_OUT_CHANNEL \<Rightarrow> RPC_OUT_CHANNEL option" where
  "wrrep_account written_len pchannel_out =
     (case och_pdu_list pchannel_out of
        [] \<Rightarrow> None
      | pnode # rest \<Rightarrow>
          Some (if \<not> b_rts pnode then
                  pchannel_out\<lparr>
                    och_available_window := och_available_window pchannel_out - of_nat written_len,
                    och_bytes_sent := och_bytes_sent pchannel_out + of_nat written_len\<rparr>
                else pchannel_out))"

text \<open>The end of a write on an opened OUT channel when the buffer is written out: the
  node is taken off the queue; the next one becomes the buffer, or recycling of the
  channel begins, or the context waits.\<close>

definition wrrep_next_pdu ::
  "pdu_processor \<Rightarrow> ctx_ptr \<Rightarrow> HTTP_CONTEXT \<Rightarrow> gstate \<Rightarrow> (tproc_status \<times> gstate) option" where
  "wrrep_next_pdu pp p ctx s =
     do {
       hch \<leftarrow> out_chan ctx;
       (case http_parser_get_vconnection (host ctx) (port ctx) (och_connection_cookie hch)
               (set_ctx p ctx s) of
          (None, s1) \<Rightarrow> Some (TPROC_RUNOFF, s1)
        | (Some k, s1) \<Rightarrow>
            do {
              let hch1 = hch\<lparr>och_pdu_list := tl (och_pdu_list hch)\<rparr>;
              ctx1 \<leftarrow>
                (case och_pdu_list hch1 of
                   pnode # rest \<Rightarrow>
                     Some (ctx\<lparr>pchannel := Some (Out_channel hch1),
                              write_buff := Some (blob pnode),
                              write_length := int (length (blob pnode))\<rparr>)
                 | [] \<Rightarrow>
                     if 0 < total_length ctx \<and>
                        total_length ctx - bytes_rw ctx \<le> MAX_RECLYING_REMAINING \<and>
                        \<not> och_b_obsolete hch1 then
                       do {
                         pc \<leftarrow> och_pcall hch1;
                         (case pdu_processor_rts_outr2_a2 pp pc of
                            (True, pc') \<Rightarrow>
                              Some (ctx\<lparr>pchannel := Some (Out_channel
                                (hch1\<lparr>och_pcall := Some (pc'\<lparr>reply_list := []\<rparr>),
                                      och_pdu_list := pdu_processor_output_pdu pc' (och_pdu_list hch1),
                                      och_b_obsolete := True\<rparr>))\<rparr>)
                          | (False, pc') \<Rightarrow>
                              Some (ctx\<lparr>pchannel := Some (Out_channel
                                (hch1\<lparr>och_pcall := Some pc'\<rparr>))\<rparr>))
                       }
                     else Some (ctx\<lparr>pchannel := Some (Out_channel hch1),
                                  sched_stat := SCHED_STAT_WAIT\<rparr>));
              s2 \<leftarrow> VCONN_REF_put (Some k) (set_ctx p ctx1 s1);
              Some (TPROC_CONT, s2)
            })
     }"

text \<open>The end of a write from the output stream when the buffer is written out.\<close>

definition wrrep_next_chunk :: "config \<Rightarrow> HTTP_CONTEXT \<Rightarrow> (tproc_status \<times> HTTP_CONTEXT) option" where
  "wrrep_next_chunk cfg ctx0 =
     (let ctx = load_write_buff cfg ctx0 in
      if write_buff ctx \<noteq> None then Some (TPROC_CONT, ctx)
      else
        do {
          waiting \<leftarrow>
            (if channel_type ctx = CHANNEL_TYPE_OUT
             then map_option (\<lambda>c. och_channel_stat c = CHANNEL_STAT_WAITINCHANNEL \<or>
                                   och_channel_stat c = CHANNEL_STAT_WAITRECYCLED) (out_chan ctx)
             else Some False);
          if waiting
          then Some (TPROC_CONT, ctx\<lparr>sched_stat := SCHED_STAT_WAIT, stream_out := stream_init\<rparr>)
          else if hpm_in_charge ctx \<or> fcgi_in_charge ctx \<or> cache_in_charge ctx
          then Some (TPROC_CONT, ctx\<lparr>stream_out := stream_init\<rparr>)
          else if b_close ctx then Some (TPROC_RUNOFF, ctx)
          else Some (TPROC_CONT, back_to_rdhead ctx)
        })"

text \<open>The length to write, cut down to the window of an opened OUT channel.\<close>

definition wrrep_clamp :: "RPC_OUT_CHANNEL option \<Rightarrow> int \<Rightarrow> int" where
  "wrrep_clamp pchannel_out wl =
     (case pchannel_out of None \<Rightarrow> wl
      | Some c \<Rightarrow> if 0 \<le> wl \<and> uint (och_available_window c) < wl
                   then uint (och_available_window c) else wl)"

text \<open>The write itself: nothing is written without a buffer, and a write never takes
  more than it was asked for.\<close>

definition wrrep_write :: "env \<Rightarrow> HTTP_CONTEXT \<Rightarrow> int \<Rightarrow> write_result" where
  "wrrep_write e ctx written_len =
     (if write_buff ctx = None then Written 0
      else (case sock_write e of
              Written n \<Rightarrow> Written (min n (nat written_len))
            | r \<Rightarrow> r))"

text \<open>
  \<^verbatim>\<open>htparse_wrrep\<close>, the step of a context in the state of writing a reply. The dump
  of the traffic for debugging is left out.
\<close>

definition htparse_wrrep ::
  "config \<Rightarrow> env \<Rightarrow> modules \<Rightarrow> pdu_processor \<Rightarrow> ctx_ptr \<Rightarrow> gstate
     \<Rightarrow> (tproc_status \<times> gstate) option" where
  "htparse_wrrep cfg e md pp p s0 =
     do {
       ctx0 \<leftarrow> g_context_list s0 p;
       (ret, s) \<leftarrow> (if write_buff ctx0 = None then htparse_wrrep_nobuf cfg e md p s0
                    else Some (TPROC_RUNOFF, s0));
       if ret \<noteq> TPROC_RUNOFF then Some (ret, s)
       else
         do {
           ctx \<leftarrow> g_context_list s p;
           opened \<leftarrow> out_opened ctx;
           pchannel_out \<leftarrow> (if opened then map_option Some (out_chan ctx) else Some None);
           if (case pchannel_out of None \<Rightarrow> False
               | Some c \<Rightarrow> och_available_window c < 1024)
           then Some (TPROC_IDLE, s)
           else
             (case wrrep_write e ctx
                     (wrrep_clamp pchannel_out (write_length ctx - write_offset ctx)) of
                Write_error \<Rightarrow> Some (TPROC_RUNOFF, s)
              | Write_eagain \<Rightarrow>
                  if timed_out cfg e ctx then Some (TPROC_RUNOFF, s)
                  else Some (TPROC_POLLING_WRONLY, s)
              | Written written_len \<Rightarrow>
                  if written_len = 0 then Some (TPROC_RUNOFF, s)
                  else
                    do {
                      let ctx1 = ctx\<lparr>last_timestamp := now e,
                                      write_offset := write_offset ctx + int written_len,
                                      bytes_rw := bytes_rw ctx + of_nat written_len\<rparr>;
                      (ctx2, s1) \<leftarrow>
                        (case pchannel_out of
                           None \<Rightarrow> Some (ctx1, s)
                         | Some c \<Rightarrow>
                             (case http_parser_get_vconnection (host ctx1) (port ctx1)
                                     (och_connection_cookie c) s of
                                (r, sa) \<Rightarrow>
                                  do {
                                    c' \<leftarrow> wrrep_account written_len c;
                                    sb \<leftarrow> VCONN_REF_put r sa;
                                    Some (ctx1\<lparr>pchannel := Some (Out_channel c')\<rparr>, sb)
                                  }));
                      if write_offset ctx2 < write_length ctx2
                      then Some (TPROC_CONT, set_ctx p ctx2 s1)
                      else
                        (let ctx3 = ctx2\<lparr>write_offset := 0, write_buff := None,
                                          write_length := 0\<rparr> in
                         if opened then wrrep_next_pdu pp p ctx3 s1
                         else
                           do {
                             (r, c) \<leftarrow> wrrep_next_chunk cfg ctx3;
                             Some (r, set_ctx p c s1)
                           })
                    })
         }
     }"

subsection \<open>Pairing and recycling\<close>

definition set_vconn :: "string \<Rightarrow> VIRTUAL_CONNECTION \<Rightarrow> gstate \<Rightarrow> gstate" where
  "set_vconn k vc s = s\<lparr>g_vconnection_hash := AList.update k vc (g_vconnection_hash s)\<rparr>"

definition add_events :: "event list \<Rightarrow> gstate \<Rightarrow> gstate" where
  "add_events evs s = s\<lparr>trace := trace s @ evs\<rparr>"

text \<open>The key under which \<^verbatim>\<open>try_create_vconnection\<close> enters a new connection.\<close>

definition hash_key :: "string \<Rightarrow> int \<Rightarrow> string \<Rightarrow> string" where
  "hash_key conn_cookie p h =
     HX_strlower (c_str conn_cookie @ '':'' @ show_int p @ '':'' @ c_str h)"

definition fresh_vconn :: VIRTUAL_CONNECTION where
  "fresh_vconn = \<lparr>reference = 0, pprocessor = None, pcontext_in = None,
     pcontext_insucc = None, pcontext_out = None, pcontext_outsucc = None\<rparr>"

text \<open>
  The body of \<^verbatim>\<open>http_context::try_create_vconnection\<close> from the label
  \<^verbatim>\<open>RETRY_QUERY\<close> on. The first argument bounds the number of times the query is
  retried after the key was found to exist at insertion; \<^verbatim>\<open>None\<close> with no retries
  left.
\<close>

fun try_create_vconnection_from ::
  "nat \<Rightarrow> config \<Rightarrow> env \<Rightarrow> pdu_processor \<Rightarrow> ctx_ptr \<Rightarrow> HTTP_CONTEXT \<Rightarrow> string \<Rightarrow> gstate
     \<Rightarrow> (bool \<times> gstate) option" where
  "try_create_vconnection_from 0 cfg e pp p ctx conn_cookie s = None"
| "try_create_vconnection_from (Suc n) cfg e pp p ctx conn_cookie s =
     (case http_parser_get_vconnection (host ctx) (port ctx) conn_cookie s of
        (Some k, s1) \<Rightarrow>
          do {
            vc \<leftarrow> map_of (g_vconnection_hash s1) k;
            if channel_type ctx = CHANNEL_TYPE_OUT then
              do {
                s2 \<leftarrow> VCONN_REF_put (Some k) (set_vconn k (vc\<lparr>pcontext_out := Some p\<rparr>) s1);
                Some (True, s2)
              }
            else
              do {
                let s2 = set_vconn k (vc\<lparr>pcontext_in := Some p\<rparr>) s1;
                let s3 = (case pcontext_out vc of
                            None \<Rightarrow> s2
                          | Some po \<Rightarrow> add_event (Contexts_pool_signal po) s2);
                s4 \<leftarrow> VCONN_REF_put (Some k) s3;
                Some (True, s4)
              }
          }
      | (None, s1) \<Rightarrow>
          (let s2 = add_event Lock_registry s1;
               key = hash_key conn_cookie (port ctx) (host ctx) in
           if g_context_num cfg + 1 \<le> length (g_vconnection_hash s2)
           then Some (False, add_event Unlock_registry s2)
           else if \<not> alloc_ok e then Some (False, add_event Unlock_registry s2)
           else if map_of (g_vconnection_hash s2) key \<noteq> None
           then try_create_vconnection_from n cfg e pp p ctx conn_cookie
                  (add_event Unlock_registry s2)
           else
             (case pdu_processor_create pp (host ctx) (port ctx) of
                None \<Rightarrow>
                  Some (False, add_events [Vconn_destructor key, Unlock_registry] s2)
              | Some pr \<Rightarrow>
                  Some (True,
                    add_event Unlock_registry
                      (set_vconn key
                         (if channel_type ctx = CHANNEL_TYPE_OUT
                          then fresh_vconn\<lparr>pprocessor := Some pr, pcontext_out := Some p\<rparr>
                          else fresh_vconn\<lparr>pprocessor := Some pr, pcontext_in := Some p\<rparr>)
                         s2)))))"

definition try_create_vconnection ::
  "nat \<Rightarrow> config \<Rightarrow> env \<Rightarrow> pdu_processor \<Rightarrow> ctx_ptr \<Rightarrow> gstate \<Rightarrow> (bool \<times> gstate) option" where
  "try_create_vconnection fuel cfg e pp p s =
     do {
       ctx \<leftarrow> g_context_list s p;
       if channel_type ctx = CHANNEL_TYPE_IN then
         do {
           chan \<leftarrow> in_chan ctx;
           try_create_vconnection_from fuel cfg e pp p ctx (ich_connection_cookie chan) s
         }
       else if channel_type ctx = CHANNEL_TYPE_OUT then
         do {
           chan \<leftarrow> out_chan ctx;
           try_create_vconnection_from fuel cfg e pp p ctx (och_connection_cookie chan) s
         }
       else Some (False, s)
     }"

text \<open>The state of the IN channel of a context.\<close>

definition in_channel_stat :: "gstate \<Rightarrow> ctx_ptr \<Rightarrow> hchannel_stat option" where
  "in_channel_stat s p =
     do {
       ctx \<leftarrow> g_context_list s p;
       chan \<leftarrow> in_chan ctx;
       Some (ich_channel_stat chan)
     }"

definition set_in_channel_stat :: "hchannel_stat \<Rightarrow> ctx_ptr \<Rightarrow> gstate \<Rightarrow> gstate option" where
  "set_in_channel_stat st p s =
     do {
       ctx \<leftarrow> g_context_list s p;
       chan \<leftarrow> in_chan ctx;
       Some (set_ctx p (ctx\<lparr>pchannel := Some (In_channel (chan\<lparr>ich_channel_stat := st\<rparr>))\<rparr>) s)
     }"

text \<open>\<^verbatim>\<open>http_context::activate_inrecycling\<close>. The channel cookie compared with
  \<^verbatim>\<open>successor_cookie\<close> is read through \<^verbatim>\<open>pcontext_insucc\<close>, which at that point is
  the context itself.\<close>

definition activate_inrecycling ::
  "ctx_ptr \<Rightarrow> string \<Rightarrow> gstate \<Rightarrow> (bool \<times> gstate) option" where
  "activate_inrecycling p successor_cookie s =
     do {
       ctx \<leftarrow> g_context_list s p;
       if channel_type ctx \<noteq> CHANNEL_TYPE_IN then Some (False, s)
       else
         do {
           hch \<leftarrow> in_chan ctx;
           (case http_parser_get_vconnection (host ctx) (port ctx)
                   (ich_connection_cookie hch) s of
              (None, s1) \<Rightarrow> Some (False, s1)
            | (Some k, s1) \<Rightarrow>
                do {
                  vc \<leftarrow> map_of (g_vconnection_hash s1) k;
                  if pcontext_insucc vc \<noteq> Some p \<or>
                     \<not> strcmp_eq successor_cookie (ich_channel_cookie hch) then
                    do {
                      s2 \<leftarrow> VCONN_REF_put (Some k) s1;
                      Some (False, s2)
                    }
                  else
                    do {
                      s2 \<leftarrow> (case pcontext_in vc of
                               None \<Rightarrow> Some s1
                             | Some pred \<Rightarrow> set_in_channel_stat CHANNEL_STAT_RECYCLED pred s1);
                      s3 \<leftarrow> set_in_channel_stat CHANNEL_STAT_OPENED p
                              (set_vconn k (vc\<lparr>pcontext_in := Some p\<rparr>) s2);
                      vc3 \<leftarrow> map_of (g_vconnection_hash s3) k;
                      s4 \<leftarrow> VCONN_REF_put (Some k)
                              (set_vconn k (vc3\<lparr>pcontext_insucc := None\<rparr>) s3);
                      Some (True, s4)
                    }
                })
         }
     }"

subsection \<open>Example data\<close>

definition example_vconn :: VIRTUAL_CONNECTION where
  "example_vconn = \<lparr>reference = 1, pprocessor = Some 7, pcontext_in = None,
     pcontext_insucc = None, pcontext_out = None, pcontext_outsucc = None\<rparr>"

definition example_registry :: gstate where
  "example_registry = \<lparr>g_vconnection_hash = [(''c:6001:h'', example_vconn)],
     g_context_list = Map.empty, trace = []\<rparr>"

text \<open>A context as \<^verbatim>\<open>http_parser_context_clear\<close> leaves it.\<close>

definition cleared_context :: HTTP_CONTEXT where
  "cleared_context = \<lparr>sched_stat = SCHED_STAT_INITSSL,
     request = \<lparr>req_method = [], f_request_uri = [], version = [], f_content_length = [],
       f_others = Map.empty\<rparr>,
     total_length = 0, bytes_rw = 0, stream_in = stream_init, stream_out = stream_init,
     write_buff = None, write_offset = 0, write_length = 0, b_close = True,
     b_authed = False, auth_times = 0, username = [], password = [], maildir = [],
     lang = [], host = [], port = 0, channel_type = CHANNEL_TYPE_NONE, pchannel = None,
     last_timestamp = 0, hpm_in_charge = False, fcgi_in_charge = False,
     cache_in_charge = False\<rparr>"

text \<open>An IN channel context and an OUT channel context of the connection with cookie
  \<^verbatim>\<open>c\<close> to \<^verbatim>\<open>h:6001\<close>.\<close>

definition example_in_context :: "string \<Rightarrow> hchannel_stat \<Rightarrow> HTTP_CONTEXT" where
  "example_in_context cookie st = cleared_context\<lparr>sched_stat := SCHED_STAT_RDBODY,
     b_authed := True, host := ''h'', port := 6001, channel_type := CHANNEL_TYPE_IN,
     total_length := 0x40000000,
     pchannel := Some (In_channel (new_in_channel\<lparr>ich_channel_cookie := cookie,
       ich_connection_cookie := ''c'', ich_channel_stat := st\<rparr>))\<rparr>"

definition example_out_context :: "string \<Rightarrow> hchannel_stat \<Rightarrow> HTTP_CONTEXT" where
  "example_out_context cookie st = cleared_context\<lparr>sched_stat := SCHED_STAT_WAIT,
     b_authed := True, host := ''h'', port := 6001, channel_type := CHANNEL_TYPE_OUT,
     pchannel := Some (Out_channel (new_out_channel\<lparr>och_channel_cookie := cookie,
       och_connection_cookie := ''c'', och_channel_stat := st\<rparr>))\<rparr>"

text \<open>A connection in the course of recycling its IN channel: context 0 is the IN
  channel in use, context 1 its successor.\<close>

definition recycling_state :: gstate where
  "recycling_state = \<lparr>g_vconnection_hash =
       [(''c:6001:h'', example_vconn\<lparr>reference := 0, pcontext_in := Some 0,
           pcontext_insucc := Some 1\<rparr>)],
     g_context_list = [0 \<mapsto> example_in_context ''old'' CHANNEL_STAT_OPENED,
                       1 \<mapsto> example_in_context ''new'' CHANNEL_STAT_OPENSTART],
     trace = []\<rparr>"

text \<open>The same, with context 1 noted both as the IN channel in use and as its
  successor.\<close>

definition recycling_alias_state :: gstate where
  "recycling_alias_state = \<lparr>g_vconnection_hash =
       [(''c:6001:h'', example_vconn\<lparr>reference := 0, pcontext_in := Some 1,
           pcontext_insucc := Some 1\<rparr>)],
     g_context_list = [1 \<mapsto> example_in_context ''new'' CHANNEL_STAT_OPENSTART],
     trace = []\<rparr>"

text \<open>The virtual connection that the IN channel of a context belongs to.\<close>

definition vconn_of_in :: "gstate \<Rightarrow> ctx_ptr \<Rightarrow> VIRTUAL_CONNECTION option" where
  "vconn_of_in s p =
     do {
       ctx \<leftarrow> g_context_list s p;
       chan \<leftarrow> in_chan ctx;
       map_of (g_vconnection_hash s)
         (vconn_key (host ctx) (port ctx) (ich_connection_cookie chan))
     }"

text \<open>The virtual connection that the channel of a context belongs to, whichever the
  type of the channel.\<close>

definition conn_cookie_of :: "HTTP_CONTEXT \<Rightarrow> string option" where
  "conn_cookie_of ctx =
     (if channel_type ctx = CHANNEL_TYPE_IN
      then map_option ich_connection_cookie (in_chan ctx)
      else if channel_type ctx = CHANNEL_TYPE_OUT
      then map_option och_connection_cookie (out_chan ctx)
      else None)"

definition vconn_of :: "gstate \<Rightarrow> ctx_ptr \<Rightarrow> VIRTUAL_CONNECTION option" where
  "vconn_of s p =
     do {
       ctx \<leftarrow> g_context_list s p;
       c \<leftarrow> conn_cookie_of ctx;
       map_of (g_vconnection_hash s) (vconn_key (host ctx) (port ctx) c)
     }"

text \<open>The contexts that a list of events signals, in order.\<close>

fun signals :: "event list \<Rightarrow> ctx_ptr list" where
  "signals [] = []"
| "signals (Contexts_pool_signal q # es) = q # signals es"
| "signals (e # es) = signals es"

text \<open>The acknowledgements of flow control that a list of events builds, in order.\<close>

fun flow_acks :: "event list \<Rightarrow> (32 word \<times> 32 word \<times> string) list" where
  "flow_acks [] = []"
| "flow_acks (Rts_flowcontrolack_withdestination br aw c # es) = (br, aw, c) # flow_acks es"
| "flow_acks (e # es) = flow_acks es"

text \<open>The queries to the authentication backend in a list of events.\<close>

fun auth_queries :: "event list \<Rightarrow> (string \<times> string) list" where
  "auth_queries [] = []"
| "auth_queries (Auth_login u pw # es) = (u, pw) # auth_queries es"
| "auth_queries (e # es) = auth_queries es"

text \<open>Values for the constants and stand-ins for the outside world, to run the
  definitions on. The offsets in the DCE/RPC header are those the specification
  names.\<close>

definition zero_block :: string where
  "zero_block = replicate 65536 NUL"

definition example_config :: config where
  "example_config = \<lparr>g_context_num = 8, g_timeout = 60000000000, g_max_auth_times = 3,
     g_block_auth_fail = 60, ticks_per_sec = 1000000000, user_default_lang = Some ''en'',
     STREAM_BLOCK_SIZE = 65536, uri_limit = 8192, DCERPC_FRAG_LEN_OFFSET = 10,
     DCERPC_DREP_OFFSET = 8, DCERPC_DREP_LE = 0x10\<rparr>"

definition example_env :: env where
  "example_env = \<lparr>now = 1000000000, dstring = ''Thu, 01 Jan 1970 00:00:01 GMT'',
     sock_read = Read_eagain, sock_write = Write_eagain, alloc_ok = True,
     fresh_block = zero_block, channel_alloc_ok = True\<rparr>"

definition example_services :: services where
  "example_services = \<lparr>judge_user = None,
     auth_login = (\<lambda>u pw. if u = ''user'' \<and> pw = ''pass''
        then Some \<lparr>mres_username = ''user'', mres_maildir = ''/var/mail/user'',
                     mres_lang = ''en''\<rparr>
        else None),
     have_temp_list = True,
     decode64 = (\<lambda>t. if t = ''dXNlcjpwYXNz'' then Some ''user:pass''
                      else if t = ''dXNlcg=='' then Some ''user'' else None),
     mod_rewrite_process = (\<lambda>u. None),
     strtol0 = (\<lambda>t. if t = ''6001'' then 6001 else 0),
     strtoull0 = (\<lambda>t. if t = ''16'' then 16 else if t = ''76'' then 76 else 0)\<rparr>"

definition example_modules :: modules where
  "example_modules = \<lparr>
     hpm_processor_write_request = (\<lambda>c. (True, c)),
     hpm_processor_check_end_of_request = (\<lambda>c. True),
     hpm_processor_proc = (\<lambda>c. (True, c)),
     hpm_processor_retrieve_response = (\<lambda>c. (HPM_RETRIEVE_DONE, c)),
     mod_fastcgi_write_request = (\<lambda>c. (True, c)),
     mod_fastcgi_check_end_of_read = (\<lambda>c. True),
     mod_fastcgi_relay_content = (\<lambda>c. (True, c)),
     mod_fastcgi_check_response = (\<lambda>c. RESPONSE_AVAILABLE),
     mod_fastcgi_check_responded = (\<lambda>c. True),
     mod_fastcgi_read_response = (\<lambda>c. (False, c)),
     mod_cache_write_request = (\<lambda>c. (True, c)),
     mod_cache_check_end_of_read = (\<lambda>c. True),
     mod_cache_read_response = (\<lambda>c. (False, c)),
     mod_cache_check_responded = (\<lambda>c. True)\<rparr>"

definition example_ack :: "32 word \<Rightarrow> 32 word \<Rightarrow> string \<Rightarrow> BLOB_NODE" where
  "example_ack br aw cookie = \<lparr>blob = ''ack:'' @ show_nat (unat br) @ '':'' @
     show_nat (unat aw) @ '':'' @ cookie, b_rts = True\<rparr>"

definition example_pdu_processor :: pdu_processor where
  "example_pdu_processor = \<lparr>
     pdu_processor_rts_echo = ''RTS-ECHO-PDU-20BYTES'',
     pdu_processor_rts_input = (\<lambda>buf p s. (PDU_PROCESSOR_FORWARD, None, s)),
     pdu_processor_input = (\<lambda>pr buf. (PDU_PROCESSOR_INPUT, Some \<lparr>reply_list = []\<rparr>)),
     pdu_processor_rts_flowcontrolack_withdestination =
       (\<lambda>pc br aw cookie. pc\<lparr>reply_list := reply_list pc @ [example_ack br aw cookie]\<rparr>),
     pdu_processor_rts_outr2_a2 = (\<lambda>pc. (True, pc)),
     pdu_processor_create = (\<lambda>h p. Some 1)\<rparr>"

text \<open>A connection with an opened IN channel (context 0) and no OUT channel yet, and a
  context 2 that has just read a CONN/A1 on a new OUT channel of that connection; then
  the same with the roles of IN and OUT exchanged.\<close>

definition out_arrives_state :: gstate where
  "out_arrives_state = \<lparr>g_vconnection_hash =
       [(''c:6001:h'', example_vconn\<lparr>reference := 0, pcontext_in := Some 0\<rparr>)],
     g_context_list = [0 \<mapsto> example_in_context ''in'' CHANNEL_STAT_OPENED,
                       2 \<mapsto> example_out_context ''out'' CHANNEL_STAT_OPENSTART],
     trace = []\<rparr>"

definition in_arrives_state :: gstate where
  "in_arrives_state = \<lparr>g_vconnection_hash =
       [(''c:6001:h'', example_vconn\<lparr>reference := 0, pcontext_out := Some 2\<rparr>)],
     g_context_list = [0 \<mapsto> example_in_context ''in'' CHANNEL_STAT_OPENSTART,
                       2 \<mapsto> example_out_context ''out'' CHANNEL_STAT_WAITINCHANNEL],
     trace = []\<rparr>"

text \<open>A request that has been read up to the end of its head, with an Authorization
  header of the given value.\<close>

definition example_request_context :: "string \<Rightarrow> HTTP_CONTEXT" where
  "example_request_context authorization =
     cleared_context\<lparr>sched_stat := SCHED_STAT_RDHEAD,
       request := \<lparr>req_method = ''RPC_IN_DATA'',
         f_request_uri = ''/rpc/rpcproxy.dll?h:6001'', version = ''1.1'',
         f_content_length = ''76'',
         f_others = [''Authorization'' \<mapsto> authorization]\<rparr>\<rparr>"

text \<open>
  A connection that is kept alive. The first request, of HTTP/1.1, carried good
  credentials: \<^verbatim>\<open>first_request_context\<close> is the context after \<^verbatim>\<open>htp_auth_1\<close>.
  \<^verbatim>\<open>second_request_context\<close> is the context when the reply is written, the context
  is back to reading a head, and the head of a second request has been read whose
  Authorization header carries a Bearer token.
\<close>

definition first_request_context :: HTTP_CONTEXT where
  "first_request_context =
     fst (snd (htp_auth_1 example_config example_env example_services
       ((example_request_context ''Basic dXNlcjpwYXNz'')\<lparr>b_close := False\<rparr>)))"

definition second_request_context :: HTTP_CONTEXT where
  "second_request_context = (back_to_rdhead first_request_context)
     \<lparr>request := request (example_request_context ''Bearer dXNlcjpwYXNz'')\<rparr>"

text \<open>
  The form of the request URI of an RPC request in the words of the specification:
  \<^verbatim>\<open>/rpc/rpcproxy.dll?<host>:<port>\<close> or \<^verbatim>\<open>/rpcwithcert/rpcproxy.dll?<host>:<port>\<close>,
  the host being the text up to the first colon. The answer is the host and the port
  text, or \<^verbatim>\<open>None\<close> when the URI has not that form.
\<close>

definition spec_rpc_uri :: "string \<Rightarrow> (string \<times> string) option" where
  "spec_rpc_uri u =
     (case (if take 18 u = ''/rpc/rpcproxy.dll?'' then Some (drop 18 u)
            else if take 26 u = ''/rpcwithcert/rpcproxy.dll?'' then Some (drop 26 u)
            else None) of
        None \<Rightarrow> None
      | Some t \<Rightarrow>
          (case index_of (CHR '':'') t of
             None \<Rightarrow> None
           | Some i \<Rightarrow> Some (take i t, drop (i + 1) t)))"

text \<open>An authenticated request for an IN channel with the given URI and
  Content-Length.\<close>

definition authed_request_context :: "string \<Rightarrow> string \<Rightarrow> HTTP_CONTEXT" where
  "authed_request_context uri len =
     cleared_context\<lparr>sched_stat := SCHED_STAT_RDHEAD, b_authed := True, b_close := False,
       username := ''user'', maildir := ''/var/mail/user'', lang := ''en'',
       request := \<lparr>req_method = ''RPC_IN_DATA'', f_request_uri = uri, version = ''1.1'',
         f_content_length = len, f_others = Map.empty\<rparr>\<rparr>"

text \<open>An authenticated request whose URI has a port part that is no number, and one
  whose URI is as it should be.\<close>

definition bad_port_request :: HTTP_CONTEXT where
  "bad_port_request = authed_request_context ''/rpc/rpcproxy.dll?h:x'' ''76''"

definition good_request :: HTTP_CONTEXT where
  "good_request = authed_request_context ''/rpc/rpcproxy.dll?h:6001'' ''76''"

text \<open>An authenticated request whose port part is a number beyond 32 bits, and services
  whose \<^verbatim>\<open>strtol\<close> reads it.\<close>

definition wide_port_request :: HTTP_CONTEXT where
  "wide_port_request = authed_request_context ''/rpc/rpcproxy.dll?h:99999999999'' ''76''"

definition wide_port_services :: services where
  "wide_port_services = example_services
     \<lparr>strtol0 := (\<lambda>t. if t = ''99999999999'' then 99999999999 else 0)\<rparr>"

text \<open>A configuration with a URI limit of 16 bytes, and a request line whose URI has
  exactly 16 bytes.\<close>

definition small_uri_config :: config where
  "small_uri_config = example_config\<lparr>uri_limit := 16\<rparr>"

definition line_with_uri_at_limit :: string where
  "line_with_uri_at_limit = ''GET /0123456789abcde HTTP/1.1''"

text \<open>Services whose rewrite module turns every URI into the empty one.\<close>

definition emptying_services :: services where
  "emptying_services = example_services\<lparr>mod_rewrite_process := (\<lambda>u. Some [])\<rparr>"

text \<open>The state in which context 0 has just been through \<^verbatim>\<open>htp_delegate_rpc\<close> with an
  authenticated request of the given Content-Length, of whose body the given number
  of bytes came with the head.\<close>

definition echo_state :: "string \<Rightarrow> nat \<Rightarrow> gstate" where
  "echo_state len w = \<lparr>g_vconnection_hash = [],
     g_context_list = [0 \<mapsto> snd (htp_delegate_rpc example_config example_env example_services
        (authed_request_context ''/rpc/rpcproxy.dll?h:6001'' len) w)],
     trace = []\<rparr>"

text \<open>The outside world a minute and a second later, the socket still silent.\<close>

definition late_env :: env where
  "late_env = example_env\<lparr>now := 62000000000\<rparr>"

text \<open>A PDU of twenty bytes laid out with the offsets of \<^verbatim>\<open>example_config\<close>: byte 8
  carries the little-endian flag, bytes 10 and 11 the length 20.\<close>

definition le_pdu :: string where
  "le_pdu = [CHR 0x05, CHR 0x00, CHR 0x00, CHR 0x03, CHR 0x00, CHR 0x00, CHR 0x00, CHR 0x00,
     CHR 0x10, CHR 0x00, CHR 0x14, CHR 0x00, CHR 0x00, CHR 0x00, CHR 0x00, CHR 0x00,
     CHR 0x00, CHR 0x00, CHR 0x00, CHR 0x00]"

text \<open>An opened IN channel context with \<^verbatim>\<open>data\<close> in its input stream, nothing of it
  read yet.\<close>

definition buffered_in_context :: "string \<Rightarrow> HTTP_CONTEXT" where
  "buffered_in_context data = (example_in_context ''in'' CHANNEL_STAT_OPENED)
     \<lparr>bytes_rw := of_nat (length data), stream_in := \<lparr>st_data = data, st_rd = 0\<rparr>\<rparr>"

text \<open>The offsets of a connection-oriented DCE RPC header: the data representation in
  byte 4, the fragment length in bytes 8 and 9, the authentication length in bytes 10
  and 11; and the start of a header of that layout, with fragment length 20.\<close>

definition dcerpc_config :: config where
  "dcerpc_config = example_config\<lparr>DCERPC_FRAG_LEN_OFFSET := 8, DCERPC_DREP_OFFSET := 4\<rparr>"

definition dcerpc_header :: string where
  "dcerpc_header = [CHR 0x05, CHR 0x00, CHR 0x00, CHR 0x03, CHR 0x10, CHR 0x00, CHR 0x00,
     CHR 0x00, CHR 0x14, CHR 0x00, CHR 0x00, CHR 0x00]"

text \<open>The fragment length that the header at the start of a buffer declares.\<close>

definition header_frag_length :: "config \<Rightarrow> string \<Rightarrow> 16 word" where
  "header_frag_length cfg data =
     (if (of_char (data ! DCERPC_DREP_OFFSET cfg) :: 8 word) AND DCERPC_DREP_LE cfg \<noteq> 0
      then le16p_to_cpu (data ! DCERPC_FRAG_LEN_OFFSET cfg)
             (data ! (DCERPC_FRAG_LEN_OFFSET cfg + 1))
      else be16p_to_cpu (data ! DCERPC_FRAG_LEN_OFFSET cfg)
             (data ! (DCERPC_FRAG_LEN_OFFSET cfg + 1)))"

text \<open>An opened OUT channel with a window of 65536 bytes and the queue \<^verbatim>\<open>q\<close>; its
  context, writing the blob at the head of the queue; and the paired connection with
  that context as number 2.\<close>

definition writing_channel :: "BLOB_NODE list \<Rightarrow> RPC_OUT_CHANNEL" where
  "writing_channel q = new_out_channel\<lparr>och_channel_cookie := ''out'',
     och_connection_cookie := ''c'', och_channel_stat := CHANNEL_STAT_OPENED,
     och_available_window := 65536, och_window_size := 65536,
     och_pcall := Some \<lparr>reply_list = []\<rparr>, och_pdu_list := q\<rparr>"

definition writing_context :: "BLOB_NODE list \<Rightarrow> HTTP_CONTEXT" where
  "writing_context q = cleared_context\<lparr>sched_stat := SCHED_STAT_WRREP, b_authed := True,
     host := ''h'', port := 6001, channel_type := CHANNEL_TYPE_OUT,
     total_length := 0x40000000, write_buff := Some (blob (hd q)),
     write_length := int (length (blob (hd q))),
     pchannel := Some (Out_channel (writing_channel q))\<rparr>"

definition writing_state :: "BLOB_NODE list \<Rightarrow> gstate" where
  "writing_state q = \<lparr>g_vconnection_hash =
       [(''c:6001:h'', example_vconn\<lparr>reference := 0, pcontext_in := Some 0,
           pcontext_out := Some 2\<rparr>)],
     g_context_list = [0 \<mapsto> example_in_context ''in'' CHANNEL_STAT_OPENED,
       2 \<mapsto> writing_context q],
     trace = []\<rparr>"

text \<open>A socket that takes up to a hundred bytes.\<close>

definition writable_env :: env where
  "writable_env = example_env\<lparr>sock_write := Written 100\<rparr>"

text \<open>The same connection when the OUT channel's context has no buffer yet.\<close>

definition idle_writing_state :: "BLOB_NODE list \<Rightarrow> gstate" where
  "idle_writing_state q = set_ctx 2
     ((writing_context q)\<lparr>write_buff := None, write_length := 0\<rparr>) (writing_state q)"

text \<open>
  A paired connection: the opened IN channel of context 0 has the twenty-byte PDU in its
  stream, the fragment length \<^verbatim>\<open>fl\<close> noted, \<^verbatim>\<open>aw\<close> bytes of window left and has
  received the rest of the 65536; the opened OUT channel of context 2 has a window size
  of 65536 and an empty queue.
\<close>

definition flow_in_channel :: "16 word \<Rightarrow> 32 word \<Rightarrow> RPC_IN_CHANNEL" where
  "flow_in_channel fl aw = new_in_channel\<lparr>ich_frag_length := fl, ich_channel_cookie := ''in'',
     ich_connection_cookie := ''c'', ich_available_window := aw,
     ich_bytes_received := 65536 - aw, ich_channel_stat := CHANNEL_STAT_OPENED\<rparr>"

definition flow_in_context :: "16 word \<Rightarrow> 32 word \<Rightarrow> HTTP_CONTEXT" where
  "flow_in_context fl aw =
     (buffered_in_context le_pdu)\<lparr>pchannel := Some (In_channel (flow_in_channel fl aw))\<rparr>"

definition flow_out_context :: HTTP_CONTEXT where
  "flow_out_context = (example_out_context ''out'' CHANNEL_STAT_OPENED)
     \<lparr>pchannel := Some (Out_channel (writing_channel []))\<rparr>"

definition flow_vconn :: VIRTUAL_CONNECTION where
  "flow_vconn = example_vconn\<lparr>reference := 0, pcontext_in := Some 0, pcontext_out := Some 2\<rparr>"

definition flow_state :: "16 word \<Rightarrow> 32 word \<Rightarrow> gstate" where
  "flow_state fl aw = \<lparr>g_vconnection_hash = [(''c:6001:h'', flow_vconn)],
     g_context_list = [0 \<mapsto> flow_in_context fl aw, 2 \<mapsto> flow_out_context],
     trace = []\<rparr>"

text \<open>A PDU processor that takes a fragment in and hands no call back.\<close>

definition silent_pdu_processor :: pdu_processor where
  "silent_pdu_processor = example_pdu_processor
     \<lparr>pdu_processor_input := (\<lambda>pr buf. (PDU_PROCESSOR_INPUT, None))\<rparr>"

section \<open>Properties\<close>

subsection \<open>Auxiliary facts\<close>

lemma show_int_6001: "show_int 6001 = ''6001''"
  by (simp add: show_int_def digit_char_def)

lemma int_of_long_values [simp]:
  "int_of_long 0 = 0" "int_of_long 6001 = 6001" "int_of_long 99999999999 = 1215752191"
  by (simp_all add: int_of_long_def)

lemma int_of_long_in_range:
  "- 2147483648 \<le> x \<Longrightarrow> x < 2147483648 \<Longrightarrow> int_of_long x = x"
  unfolding int_of_long_def by (simp add: signed_of_int signed_take_bit_int_eq_self)

lemma vconn_key_example [simp]: "vconn_key ''h'' 6001 ''c'' = ''c:6001:h''"
  by (simp add: vconn_key_def gx_snprintf_def c_str_def NUL_def HX_strlower_def
      show_int_6001 tolower_c_def)

lemma get_vconnection_Some:
  assumes "http_parser_get_vconnection h pt c s = (Some k, s1)"
  shows "k = vconn_key h pt c"
    and "\<exists>vc. map_of (g_vconnection_hash s) k = Some vc \<and>
           map_of (g_vconnection_hash s1) k = Some (vc\<lparr>reference := reference vc + 1\<rparr>)"
    and "g_context_list s1 = g_context_list s"
    and "\<And>k'. k' \<noteq> k \<Longrightarrow>
           map_of (g_vconnection_hash s1) k' = map_of (g_vconnection_hash s) k'"
    and "trace s1 = trace s @ [Lock_registry, Unlock_registry, Lock_vconn k]"
  using assms
  by (auto simp: http_parser_get_vconnection_def Let_def update_conv' split: option.splits)

lemma get_vconnection_None:
  assumes "http_parser_get_vconnection h pt c s = (None, s1)"
  shows "map_of (g_vconnection_hash s) (vconn_key h pt c) = None"
    and "s1 = s\<lparr>trace := trace s @ [Lock_registry, Unlock_registry]\<rparr>"
  using assms
  by (auto simp: http_parser_get_vconnection_def Let_def update_conv' split: option.splits)

lemma VCONN_REF_put_bound:
  assumes "VCONN_REF_put (Some k) s = Some s'"
    and "map_of (g_vconnection_hash s) k = Some vc"
    and "pcontext_in vc \<noteq> None \<or> pcontext_out vc \<noteq> None"
  shows "map_of (g_vconnection_hash s') k = Some (vc\<lparr>reference := reference vc - 1\<rparr>)"
    and "g_context_list s' = g_context_list s"
    and "\<And>k'. k' \<noteq> k \<Longrightarrow>
           map_of (g_vconnection_hash s') k' = map_of (g_vconnection_hash s) k'"
    and "trace s' = trace s @ [Unlock_vconn k, Lock_registry, Unlock_registry]"
  using assms
  by (auto simp: VCONN_REF_put_def vconn_removable_def Let_def update_conv'
      split: option.splits if_splits)

lemma set_in_channel_stat_Some:
  assumes "set_in_channel_stat st q s = Some s'"
  shows "\<exists>ctx ch. g_context_list s q = Some ctx \<and> in_chan ctx = Some ch \<and>
     s' = set_ctx q (ctx\<lparr>pchannel := Some (In_channel (ch\<lparr>ich_channel_stat := st\<rparr>))\<rparr>) s"
  using assms by (auto simp: set_in_channel_stat_def split: Option.bind_splits)

lemma in_chan_upd [simp]:
  "in_chan (ctx\<lparr>pchannel := Some (In_channel ch)\<rparr>) = Some ch"
  by (simp add: in_chan_def)

lemma out_chan_upd [simp]:
  "out_chan (ctx\<lparr>pchannel := Some (Out_channel ch)\<rparr>) = Some ch"
  by (simp add: out_chan_def)

lemma set_ctx_simps [simp]:
  "g_context_list (set_ctx q c s) = (g_context_list s)(q \<mapsto> c)"
  "g_vconnection_hash (set_ctx q c s) = g_vconnection_hash s"
  "trace (set_ctx q c s) = trace s"
  by (simp_all add: set_ctx_def)

lemma set_vconn_simps [simp]:
  "g_context_list (set_vconn k vc s) = g_context_list s"
  "map_of (g_vconnection_hash (set_vconn k vc s)) = (map_of (g_vconnection_hash s))(k \<mapsto> vc)"
  "trace (set_vconn k vc s) = trace s"
  by (simp_all add: set_vconn_def update_conv')

lemma add_event_simps [simp]:
  "g_context_list (add_event ev s) = g_context_list s"
  "g_vconnection_hash (add_event ev s) = g_vconnection_hash s"
  "trace (add_event ev s) = trace s @ [ev]"
  by (simp_all add: add_event_def)

lemma signals_append [simp]: "signals (xs @ ys) = signals xs @ signals ys"
  by (induction xs rule: signals.induct) auto

lemma new_events_append [simp]: "trace s' = trace s @ evs \<Longrightarrow> new_events s s' = evs"
  by (simp add: new_events_def)

lemma index_of_None_iff: "index_of c xs = None \<longleftrightarrow> c \<notin> set xs"
  by (induction xs) auto

lemma index_of_Some_less: "index_of c xs = Some i \<Longrightarrow> i < length xs \<and> xs ! i = c \<and> c \<notin> set (take i xs)"
  by (induction xs arbitrary: i) (auto split: if_splits)

lemma auth_queries_htp_auth:
  "set (auth_queries (snd (snd (htp_auth cfg e sv ctx)))) \<subseteq> {(username ctx, password ctx)}"
  by (auto simp: htp_auth_def Let_def split: option.splits prod.splits if_splits)

lemmas example_state_defs =
  example_in_context_def example_out_context_def cleared_context_def new_in_channel_def
  new_out_channel_def example_vconn_def stream_init_def

subsection \<open>Releasing a reference to a virtual connection\<close>

text \<open>
  C2. Releasing a reference held on a registry entry counts the reference down and takes
  the entry out of the registry exactly when the count has reached zero and both
  \<^verbatim>\<open>pcontext_in\<close> and \<^verbatim>\<open>pcontext_out\<close> are null; in every other case the entry stays,
  with the count lowered. No other entry and no context changes. The destructor of a
  removed entry (and the destruction of its PDU processor) runs only while the registry
  lock is free, and the lock is free when the function returns.
\<close>

theorem VCONN_REF_put_removes_iff_unreferenced_and_unbound:
  assumes "map_of (g_vconnection_hash s) k = Some vc"
  shows "\<exists>s'. VCONN_REF_put (Some k) s = Some s' \<and>
     (map_of (g_vconnection_hash s') k =
        (if reference vc - 1 = 0 \<and> pcontext_in vc = None \<and> pcontext_out vc = None
         then None else Some (vc\<lparr>reference := reference vc - 1\<rparr>))) \<and>
     (\<forall>k'. k' \<noteq> k \<longrightarrow>
        map_of (g_vconnection_hash s') k' = map_of (g_vconnection_hash s) k') \<and>
     g_context_list s' = g_context_list s \<and>
     take (length (trace s)) (trace s') = trace s \<and>
     (Vconn_destructor k \<in> set (new_events s s') \<longleftrightarrow>
        reference vc - 1 = 0 \<and> pcontext_in vc = None \<and> pcontext_out vc = None) \<and>
     destroyed_unlocked False (new_events s s') \<and>
     \<not> registry_locked False (new_events s s')"
  using assms
  by (auto simp: VCONN_REF_put_def vconn_removable_def Let_def delete_conv' update_conv'
      new_events_def split: option.splits)

theorem VCONN_REF_put_removes_iff_unreferenced_and_unbound_witness:
  "map_of (g_vconnection_hash example_registry) ''c:6001:h'' = Some example_vconn \<and>
   (\<exists>s'. VCONN_REF_put (Some ''c:6001:h'') example_registry = Some s' \<and>
      map_of (g_vconnection_hash s') ''c:6001:h'' = None \<and>
      Vconn_destructor ''c:6001:h'' \<in> set (new_events example_registry s') \<and>
      destroyed_unlocked False (new_events example_registry s'))"
proof -
  have h: "map_of (g_vconnection_hash example_registry) ''c:6001:h'' = Some example_vconn"
    by (simp add: example_registry_def)
  have r: "reference example_vconn - 1 = 0 \<and> pcontext_in example_vconn = None \<and>
      pcontext_out example_vconn = None"
    by (simp add: example_vconn_def)
  from VCONN_REF_put_removes_iff_unreferenced_and_unbound [OF h] r
  obtain s' where "VCONN_REF_put (Some ''c:6001:h'') example_registry = Some s'"
    and "map_of (g_vconnection_hash s') ''c:6001:h'' = None"
    and "Vconn_destructor ''c:6001:h'' \<in> set (new_events example_registry s')"
    and "destroyed_unlocked False (new_events example_registry s')"
    by auto
  with h show ?thesis by blast
qed

subsection \<open>Activation of a recycled IN channel\<close>

lemma activate_inrecycling_steps:
  assumes "activate_inrecycling p successor_cookie s = Some (True, s')"
  shows "\<exists>ctx hch k s1 vc s2 s3 vc3.
     g_context_list s p = Some ctx \<and> in_chan ctx = Some hch \<and>
     http_parser_get_vconnection (host ctx) (port ctx) (ich_connection_cookie hch) s
       = (Some k, s1) \<and>
     map_of (g_vconnection_hash s1) k = Some vc \<and>
     (case pcontext_in vc of None \<Rightarrow> Some s1
      | Some pred \<Rightarrow> set_in_channel_stat CHANNEL_STAT_RECYCLED pred s1) = Some s2 \<and>
     set_in_channel_stat CHANNEL_STAT_OPENED p
       (set_vconn k (vc\<lparr>pcontext_in := Some p\<rparr>) s2) = Some s3 \<and>
     map_of (g_vconnection_hash s3) k = Some vc3 \<and>
     VCONN_REF_put (Some k) (set_vconn k (vc3\<lparr>pcontext_insucc := None\<rparr>) s3) = Some s'"
  using assms
  by (auto simp: activate_inrecycling_def
      split: if_splits prod.splits option.splits Option.bind_splits)

text \<open>
  C3, as amended. When \<^verbatim>\<open>activate_inrecycling\<close> called on the context \<open>p\<close> answers
  TRUE, the virtual connection of \<open>p\<close> has \<open>p\<close> as its IN context and no IN successor,
  the IN channel of \<open>p\<close> is in the state OPENED, and the IN channel of the context that
  was the IN context at the call, if there was one and it was not \<open>p\<close> itself, is in the
  state RECYCLED.
\<close>

theorem activate_inrecycling_promotes_successor:
  assumes "activate_inrecycling p successor_cookie s = Some (True, s')"
  shows "\<exists>vc vc'. vconn_of_in s p = Some vc \<and> vconn_of_in s' p = Some vc' \<and>
     pcontext_in vc' = Some p \<and> pcontext_insucc vc' = None \<and>
     in_channel_stat s' p = Some CHANNEL_STAT_OPENED \<and>
     (\<forall>pred. pcontext_in vc = Some pred \<and> pred \<noteq> p \<longrightarrow>
        in_channel_stat s' pred = Some CHANNEL_STAT_RECYCLED)"
proof -
  from activate_inrecycling_steps [OF assms]
  obtain ctx hch k s1 vc s2 s3 vc3 where
    ctx: "g_context_list s p = Some ctx" and hch: "in_chan ctx = Some hch" and
    get: "http_parser_get_vconnection (host ctx) (port ctx) (ich_connection_cookie hch) s
            = (Some k, s1)" and
    vc: "map_of (g_vconnection_hash s1) k = Some vc" and
    s2: "(case pcontext_in vc of None \<Rightarrow> Some s1
      | Some pred \<Rightarrow> set_in_channel_stat CHANNEL_STAT_RECYCLED pred s1) = Some s2" and
    s3: "set_in_channel_stat CHANNEL_STAT_OPENED p
           (set_vconn k (vc\<lparr>pcontext_in := Some p\<rparr>) s2) = Some s3" and
    vc3: "map_of (g_vconnection_hash s3) k = Some vc3" and
    put: "VCONN_REF_put (Some k) (set_vconn k (vc3\<lparr>pcontext_insucc := None\<rparr>) s3) = Some s'"
    by blast
  note g = get_vconnection_Some [OF get]
  from g(2) vc obtain vc0 where vc0: "map_of (g_vconnection_hash s) k = Some vc0"
    and vc_eq: "vc = vc0\<lparr>reference := reference vc0 + 1\<rparr>" by auto
  from set_in_channel_stat_Some [OF s3] obtain c2 ch2 where
    c2: "g_context_list s2 p = Some c2" and ch2: "in_chan c2 = Some ch2" and
    s3_eq: "s3 = set_ctx p
        (c2\<lparr>pchannel := Some (In_channel (ch2\<lparr>ich_channel_stat := CHANNEL_STAT_OPENED\<rparr>))\<rparr>)
        (set_vconn k (vc\<lparr>pcontext_in := Some p\<rparr>) s2)"
    by auto
  have vc3_eq: "vc3 = vc\<lparr>pcontext_in := Some p\<rparr>"
    using vc3 by (simp add: s3_eq)
  let ?s4 = "set_vconn k (vc3\<lparr>pcontext_insucc := None\<rparr>) s3"
  have m4: "map_of (g_vconnection_hash ?s4) k = Some (vc3\<lparr>pcontext_insucc := None\<rparr>)"
    by simp
  have b4: "pcontext_in (vc3\<lparr>pcontext_insucc := None\<rparr>) \<noteq> None \<or>
      pcontext_out (vc3\<lparr>pcontext_insucc := None\<rparr>) \<noteq> None"
    by (simp add: vc3_eq)
  note pt = VCONN_REF_put_bound [OF put m4 b4]
  have ctx': "g_context_list s' = g_context_list s3" using pt(2) by simp
  have ctxp: "g_context_list s' p = Some
      (c2\<lparr>pchannel := Some (In_channel (ch2\<lparr>ich_channel_stat := CHANNEL_STAT_OPENED\<rparr>))\<rparr>)"
    by (simp add: ctx' s3_eq)
  have same_cookie: "host c2 = host ctx \<and> port c2 = port ctx \<and>
      ich_connection_cookie ch2 = ich_connection_cookie hch"
  proof (cases "pcontext_in vc")
    case None
    with s2 have "s2 = s1" by simp
    with c2 ch2 ctx hch g(3) show ?thesis by simp
  next
    case (Some pred)
    with s2 have "set_in_channel_stat CHANNEL_STAT_RECYCLED pred s1 = Some s2" by simp
    from set_in_channel_stat_Some [OF this] c2 ch2 ctx hch g(3) show ?thesis
      by (auto split: if_splits)
  qed
  have k: "k = vconn_key (host ctx) (port ctx) (ich_connection_cookie hch)" by (rule g(1))
  have 1: "vconn_of_in s p = Some vc0"
    using ctx hch vc0 k by (simp add: vconn_of_in_def)
  have 2: "vconn_of_in s' p =
      Some ((vc3\<lparr>pcontext_insucc := None\<rparr>)\<lparr>reference := reference vc3 - 1\<rparr>)"
    using ctxp pt(1) same_cookie k by (simp add: vconn_of_in_def)
  have 3: "in_channel_stat s' p = Some CHANNEL_STAT_OPENED"
    using ctxp by (simp add: in_channel_stat_def)
  have 4: "in_channel_stat s' pred = Some CHANNEL_STAT_RECYCLED"
    if "pcontext_in vc0 = Some pred" "pred \<noteq> p" for pred
  proof -
    from that vc_eq have "pcontext_in vc = Some pred" by simp
    with s2 have "set_in_channel_stat CHANNEL_STAT_RECYCLED pred s1 = Some s2" by simp
    from set_in_channel_stat_Some [OF this] that(2) show ?thesis
      by (auto simp: in_channel_stat_def ctx' s3_eq)
  qed
  show ?thesis using 1 2 3 4 by (simp add: vc3_eq)
qed

lemma activate_inrecycling_example:
  "map_option fst (activate_inrecycling 1 ''new'' recycling_state) = Some True"
  by (simp add: activate_inrecycling_def recycling_state_def example_state_defs in_chan_def
      http_parser_get_vconnection_def strcmp_eq_def c_str_def NUL_def
      set_in_channel_stat_def set_vconn_def set_ctx_def VCONN_REF_put_def
      vconn_removable_def Let_def)

theorem activate_inrecycling_promotes_successor_witness:
  "\<exists>s'. activate_inrecycling 1 ''new'' recycling_state = Some (True, s') \<and>
     in_channel_stat s' 1 = Some CHANNEL_STAT_OPENED \<and>
     in_channel_stat s' 0 = Some CHANNEL_STAT_RECYCLED \<and>
     map_option pcontext_in (vconn_of_in s' 1) = Some (Some 1) \<and>
     map_option pcontext_insucc (vconn_of_in s' 1) = Some None"
proof -
  from activate_inrecycling_example obtain s' where
    run: "activate_inrecycling 1 ''new'' recycling_state = Some (True, s')"
    by (cases "activate_inrecycling 1 ''new'' recycling_state") auto
  have before: "vconn_of_in recycling_state 1 =
      Some (example_vconn\<lparr>reference := 0, pcontext_in := Some 0, pcontext_insucc := Some 1\<rparr>)"
    by (simp add: vconn_of_in_def recycling_state_def example_state_defs in_chan_def)
  from activate_inrecycling_promotes_successor [OF run] before
  have "in_channel_stat s' 1 = Some CHANNEL_STAT_OPENED"
    and "in_channel_stat s' 0 = Some CHANNEL_STAT_RECYCLED"
    and "map_option pcontext_in (vconn_of_in s' 1) = Some (Some 1)"
    and "map_option pcontext_insucc (vconn_of_in s' 1) = Some None"
    by auto
  with run show ?thesis by blast
qed

text \<open>
  The claim as it stands fails when the context that is activated is also noted as the
  IN context of the connection: the call answers TRUE, and the channel of that
  predecessor, being the channel of the successor, ends in the state OPENED.
\<close>

theorem activate_inrecycling_alias_counterexample:
  "map_option fst (activate_inrecycling 1 ''new'' recycling_alias_state) = Some True \<and>
   map_option pcontext_in (vconn_of_in recycling_alias_state 1) = Some (Some 1) \<and>
   (case activate_inrecycling 1 ''new'' recycling_alias_state of
      None \<Rightarrow> None | Some (b, s') \<Rightarrow> in_channel_stat s' 1) = Some CHANNEL_STAT_OPENED"
  by (simp add: activate_inrecycling_def recycling_alias_state_def example_state_defs
      in_chan_def http_parser_get_vconnection_def strcmp_eq_def c_str_def NUL_def
      set_in_channel_stat_def set_vconn_def set_ctx_def VCONN_REF_put_def
      vconn_removable_def Let_def vconn_of_in_def in_channel_stat_def)

subsection \<open>Pairing the two halves of a virtual connection\<close>

text \<open>
  C4, as amended. When \<^verbatim>\<open>try_create_vconnection\<close> finds the virtual connection of the
  context in the registry, it answers TRUE and notes the context in the slot of its
  channel type. For an IN channel context the context in \<^verbatim>\<open>pcontext_out\<close>, if there
  is one, is signalled, once, and nothing else is; for an OUT channel context nothing
  is signalled, whether \<^verbatim>\<open>pcontext_in\<close> is set or not.
\<close>

theorem try_create_vconnection_signals_waiting_out_context:
  assumes ctx: "g_context_list s p = Some ctx"
    and vc: "vconn_of s p = Some vc"
  shows "\<exists>s' vc'. try_create_vconnection (Suc n) cfg e pp p s = Some (True, s') \<and>
     vconn_of s' p = Some vc' \<and> g_context_list s' = g_context_list s \<and>
     (if channel_type ctx = CHANNEL_TYPE_IN
      then pcontext_in vc' = Some p \<and> pcontext_out vc' = pcontext_out vc \<and>
           signals (new_events s s') =
             (case pcontext_out vc of None \<Rightarrow> [] | Some po \<Rightarrow> [po])
      else pcontext_out vc' = Some p \<and> pcontext_in vc' = pcontext_in vc \<and>
           signals (new_events s s') = [])"
proof -
  from vc ctx obtain c where c: "conn_cookie_of ctx = Some c"
    and m: "map_of (g_vconnection_hash s) (vconn_key (host ctx) (port ctx) c) = Some vc"
    by (auto simp: vconn_of_def split: Option.bind_splits)
  let ?k = "vconn_key (host ctx) (port ctx) c"
  let ?vc1 = "vc\<lparr>reference := reference vc + 1\<rparr>"
  let ?s1 = "s\<lparr>g_vconnection_hash := AList.update ?k ?vc1 (g_vconnection_hash s),
               trace := trace s @ [Lock_registry, Unlock_registry, Lock_vconn ?k]\<rparr>"
  have get: "http_parser_get_vconnection (host ctx) (port ctx) c s = (Some ?k, ?s1)"
    using m by (simp add: http_parser_get_vconnection_def Let_def)
  have m1: "map_of (g_vconnection_hash ?s1) ?k = Some ?vc1"
    by (simp add: update_conv')
  show ?thesis
  proof (cases "channel_type ctx = CHANNEL_TYPE_IN")
    case True
    with c obtain chan where chan: "in_chan ctx = Some chan" "ich_connection_cookie chan = c"
      by (auto simp: conn_cookie_of_def)
    let ?s2 = "set_vconn ?k (?vc1\<lparr>pcontext_in := Some p\<rparr>) ?s1"
    let ?s3 = "(case pcontext_out ?vc1 of None \<Rightarrow> ?s2
               | Some po \<Rightarrow> add_event (Contexts_pool_signal po) ?s2)"
    have m3: "map_of (g_vconnection_hash ?s3) ?k = Some (?vc1\<lparr>pcontext_in := Some p\<rparr>)"
      by (simp split: option.splits)
    have "vconn_removable ((?vc1\<lparr>pcontext_in := Some p\<rparr>)\<lparr>reference := reference (?vc1\<lparr>pcontext_in := Some p\<rparr>) - 1\<rparr>) = False"
      by (simp add: vconn_removable_def)
    with m3 obtain s4 where put: "VCONN_REF_put (Some ?k) ?s3 = Some s4"
      by (simp add: VCONN_REF_put_def Let_def)
    have b: "pcontext_in (?vc1\<lparr>pcontext_in := Some p\<rparr>) \<noteq> None \<or> pcontext_out (?vc1\<lparr>pcontext_in := Some p\<rparr>) \<noteq> None"
      by simp
    note pt = VCONN_REF_put_bound [OF put m3 b]
    have run: "try_create_vconnection (Suc n) cfg e pp p s = Some (True, s4)"
      using ctx True chan get m1 put
      by (simp add: try_create_vconnection_def Let_def)
    have tr: "trace s4 = trace s @ ([Lock_registry, Unlock_registry, Lock_vconn ?k] @
        (case pcontext_out vc of None \<Rightarrow> [] | Some po \<Rightarrow> [Contexts_pool_signal po]) @
        [Unlock_vconn ?k, Lock_registry, Unlock_registry])"
      using pt(4) by (simp split: option.splits)
    have cl: "g_context_list s4 = g_context_list s"
      using pt(2) by (simp split: option.splits)
    have "vconn_of s4 p = Some ((?vc1\<lparr>pcontext_in := Some p\<rparr>)\<lparr>reference := reference (?vc1\<lparr>pcontext_in := Some p\<rparr>) - 1\<rparr>)"
      using cl ctx c pt(1) by (simp add: vconn_of_def)
    moreover have "signals (new_events s s4) = (case pcontext_out vc of None \<Rightarrow> [] | Some po \<Rightarrow> [po])"
      by (simp add: new_events_append [OF tr] split: option.splits)
    ultimately show ?thesis using run cl True by simp
  next
    case False
    with c have out: "channel_type ctx = CHANNEL_TYPE_OUT"
      by (auto simp: conn_cookie_of_def split: if_splits)
    with c obtain chan where chan: "out_chan ctx = Some chan" "och_connection_cookie chan = c"
      by (auto simp: conn_cookie_of_def)
    let ?s2 = "set_vconn ?k (?vc1\<lparr>pcontext_out := Some p\<rparr>) ?s1"
    have m2: "map_of (g_vconnection_hash ?s2) ?k = Some (?vc1\<lparr>pcontext_out := Some p\<rparr>)"
      by simp
    have "vconn_removable ((?vc1\<lparr>pcontext_out := Some p\<rparr>)\<lparr>reference := reference (?vc1\<lparr>pcontext_out := Some p\<rparr>) - 1\<rparr>) = False"
      by (simp add: vconn_removable_def)
    with m2 obtain s4 where put: "VCONN_REF_put (Some ?k) ?s2 = Some s4"
      by (simp add: VCONN_REF_put_def Let_def)
    have b: "pcontext_in (?vc1\<lparr>pcontext_out := Some p\<rparr>) \<noteq> None \<or> pcontext_out (?vc1\<lparr>pcontext_out := Some p\<rparr>) \<noteq> None"
      by simp
    note pt = VCONN_REF_put_bound [OF put m2 b]
    have run: "try_create_vconnection (Suc n) cfg e pp p s = Some (True, s4)"
      using ctx out chan get m1 put
      by (simp add: try_create_vconnection_def Let_def)
    have tr: "trace s4 = trace s @ ([Lock_registry, Unlock_registry, Lock_vconn ?k] @
        [Unlock_vconn ?k, Lock_registry, Unlock_registry])"
      using pt(4) by simp
    have cl: "g_context_list s4 = g_context_list s"
      using pt(2) by simp
    have "vconn_of s4 p = Some ((?vc1\<lparr>pcontext_out := Some p\<rparr>)\<lparr>reference := reference (?vc1\<lparr>pcontext_out := Some p\<rparr>) - 1\<rparr>)"
      using cl ctx c pt(1) by (simp add: vconn_of_def)
    moreover have "signals (new_events s s4) = []"
      by (simp add: new_events_append [OF tr])
    ultimately show ?thesis using run cl False by simp
  qed
qed

theorem try_create_vconnection_signals_waiting_out_context_witness:
  "\<exists>s'. try_create_vconnection (Suc 0) example_config example_env example_pdu_processor 0
            in_arrives_state = Some (True, s') \<and>
     map_option pcontext_in (vconn_of s' 0) = Some (Some 0) \<and>
     map_option pcontext_out (vconn_of s' 0) = Some (Some 2) \<and>
     signals (new_events in_arrives_state s') = [2]"
proof -
  have ctx: "g_context_list in_arrives_state 0 =
      Some (example_in_context ''in'' CHANNEL_STAT_OPENSTART)"
    by (simp add: in_arrives_state_def)
  have vc: "vconn_of in_arrives_state 0 =
      Some (example_vconn\<lparr>reference := 0, pcontext_out := Some 2\<rparr>)"
    by (simp add: vconn_of_def in_arrives_state_def conn_cookie_of_def in_chan_def
        example_state_defs)
  have ty: "channel_type (example_in_context ''in'' CHANNEL_STAT_OPENSTART) = CHANNEL_TYPE_IN"
    by (simp add: example_state_defs)
  from try_create_vconnection_signals_waiting_out_context
    [OF ctx vc, of 0 example_config example_env example_pdu_processor]
  show ?thesis by (auto simp: ty)
qed

text \<open>
  The claim as it stands fails for an OUT channel context that arrives while
  \<^verbatim>\<open>pcontext_in\<close> is set: the call answers TRUE and signals no context.
\<close>

theorem try_create_vconnection_out_arrival_counterexample:
  "map_option fst (try_create_vconnection (Suc 0) example_config example_env
      example_pdu_processor 2 out_arrives_state) = Some True \<and>
   map_option pcontext_in (vconn_of out_arrives_state 2) = Some (Some 0) \<and>
   (case try_create_vconnection (Suc 0) example_config example_env
      example_pdu_processor 2 out_arrives_state of
      None \<Rightarrow> None
    | Some (b, s') \<Rightarrow> Some (signals (new_events out_arrives_state s'))) = Some []"
  by (simp add: try_create_vconnection_def out_arrives_state_def example_state_defs
      out_chan_def in_chan_def conn_cookie_of_def vconn_of_def
      http_parser_get_vconnection_def set_vconn_def VCONN_REF_put_def vconn_removable_def
      new_events_def Let_def)

subsection \<open>The Authorization header\<close>

text \<open>
  C10, as amended. When the request has an Authorization header whose scheme is not
  Basic, or whose payload \<^verbatim>\<open>decode64\<close> rejects, or whose decoded text has no colon,
  \<^verbatim>\<open>htp_auth_1\<close> answers that header processing goes on and leaves the context as it
  was: the flag \<^verbatim>\<open>b_authed\<close> keeps the value it had (the request stays unauthenticated
  on a connection that was not authenticated, and stays authenticated on one that
  was), nothing is written to the output stream, and no service is called. Whenever
  the authentication backend is queried, the header was a Basic one that decoded to a
  text with a colon, and the query carries the text before the first colon as the user
  and the text after it as the password.
\<close>

theorem htp_auth_1_passes_over_malformed_authorization:
  "(f_others (request ctx) ''Authorization'' = Some v \<and>
      (\<not> strncasecmp_eq (c_str v) ''Basic '' 6 \<or>
       decode64 sv (drop 6 (c_str v)) = None \<or>
       (\<exists>d. decode64 sv (drop 6 (c_str v)) = Some d \<and> CHR '':'' \<notin> set (c_str d)))
    \<longrightarrow> htp_auth_1 cfg e sv ctx = (TPROC_RUNOFF, ctx, []) \<and>
        b_authed (fst (snd (htp_auth_1 cfg e sv ctx))) = b_authed ctx \<and>
        stream_out (fst (snd (htp_auth_1 cfg e sv ctx))) = stream_out ctx \<and>
        sched_stat (fst (snd (htp_auth_1 cfg e sv ctx))) = sched_stat ctx \<and>
        auth_queries (snd (snd (htp_auth_1 cfg e sv ctx))) = []) \<and>
   (\<forall>u pw. (u, pw) \<in> set (auth_queries (snd (snd (htp_auth_1 cfg e sv ctx)))) \<longrightarrow>
      (\<exists>v d i. f_others (request ctx) ''Authorization'' = Some v \<and>
         strncasecmp_eq (c_str v) ''Basic '' 6 \<and>
         decode64 sv (drop 6 (c_str v)) = Some d \<and>
         i < length (c_str d) \<and> c_str d ! i = CHR '':'' \<and>
         CHR '':'' \<notin> set (take i (c_str d)) \<and>
         u = gx_strlcpy 256 (take i d) \<and> pw = gx_strlcpy 128 (drop (i + 1) d)))"
proof (intro conjI impI allI)
  assume h: "f_others (request ctx) ''Authorization'' = Some v \<and>
      (\<not> strncasecmp_eq (c_str v) ''Basic '' 6 \<or>
       decode64 sv (drop 6 (c_str v)) = None \<or>
       (\<exists>d. decode64 sv (drop 6 (c_str v)) = Some d \<and> CHR '':'' \<notin> set (c_str d)))"
  then have r: "htp_auth_1 cfg e sv ctx = (TPROC_RUNOFF, ctx, [])"
    by (auto simp: htp_auth_1_def Let_def strchr_def index_of_None_iff [symmetric]
        split: option.splits)
  show "htp_auth_1 cfg e sv ctx = (TPROC_RUNOFF, ctx, [])" by (rule r)
  show "b_authed (fst (snd (htp_auth_1 cfg e sv ctx))) = b_authed ctx" by (simp add: r)
  show "stream_out (fst (snd (htp_auth_1 cfg e sv ctx))) = stream_out ctx" by (simp add: r)
  show "sched_stat (fst (snd (htp_auth_1 cfg e sv ctx))) = sched_stat ctx" by (simp add: r)
  show "auth_queries (snd (snd (htp_auth_1 cfg e sv ctx))) = []" by (simp add: r)
next
  fix u pw
  assume q: "(u, pw) \<in> set (auth_queries (snd (snd (htp_auth_1 cfg e sv ctx))))"
  then obtain v where v: "f_others (request ctx) ''Authorization'' = Some v"
    by (cases "f_others (request ctx) ''Authorization''") (auto simp: htp_auth_1_def)
  from q v have b: "strncasecmp_eq (c_str v) ''Basic '' 6"
    by (auto simp: htp_auth_1_def Let_def split: if_splits)
  from q v b obtain d where d: "decode64 sv (drop 6 (c_str v)) = Some d"
    by (cases "decode64 sv (drop 6 (c_str v))") (auto simp: htp_auth_1_def Let_def)
  from q v b d obtain i where i: "strchr d (CHR '':'') = Some i"
    by (cases "strchr d (CHR '':'')") (auto simp: htp_auth_1_def Let_def)
  from q v b d i have "(u, pw) \<in> set (auth_queries (snd (snd (htp_auth cfg e sv
      (ctx\<lparr>username := gx_strlcpy 256 (take i d), password := gx_strlcpy 128 (drop (i + 1) d)\<rparr>)))))"
    by (simp add: htp_auth_1_def Let_def)
  with auth_queries_htp_auth have "u = gx_strlcpy 256 (take i d) \<and> pw = gx_strlcpy 128 (drop (i + 1) d)"
    by fastforce
  moreover from i have "i < length (c_str d) \<and> c_str d ! i = CHR '':'' \<and> CHR '':'' \<notin> set (take i (c_str d))"
    by (auto simp: strchr_def dest: index_of_Some_less)
  ultimately show "\<exists>v d i. f_others (request ctx) ''Authorization'' = Some v \<and>
         strncasecmp_eq (c_str v) ''Basic '' 6 \<and>
         decode64 sv (drop 6 (c_str v)) = Some d \<and>
         i < length (c_str d) \<and> c_str d ! i = CHR '':'' \<and>
         CHR '':'' \<notin> set (take i (c_str d)) \<and>
         u = gx_strlcpy 256 (take i d) \<and> pw = gx_strlcpy 128 (drop (i + 1) d)"
    using v b d by blast
qed

text \<open>The theorem at work on a connection that is not authenticated: a Bearer token
  and a Basic payload without a colon are passed over and the request stays
  unauthenticated; a Basic pair of user and password is what the backend is asked
  about.\<close>

theorem htp_auth_1_passes_over_malformed_authorization_witness:
  "htp_auth_1 example_config example_env example_services
     (example_request_context ''Bearer dXNlcjpwYXNz'') =
     (TPROC_RUNOFF, example_request_context ''Bearer dXNlcjpwYXNz'', []) \<and>
   \<not> b_authed (fst (snd (htp_auth_1 example_config example_env example_services
     (example_request_context ''Bearer dXNlcjpwYXNz'')))) \<and>
   htp_auth_1 example_config example_env example_services
     (example_request_context ''Basic dXNlcg=='') =
     (TPROC_RUNOFF, example_request_context ''Basic dXNlcg=='', []) \<and>
   \<not> b_authed (fst (snd (htp_auth_1 example_config example_env example_services
     (example_request_context ''Basic dXNlcg=='')))) \<and>
   auth_queries (snd (snd (htp_auth_1 example_config example_env example_services
     (example_request_context ''Basic dXNlcjpwYXNz'')))) = [(''user'', ''pass'')]"
proof -
  have 1: "f_others (request (example_request_context ''Bearer dXNlcjpwYXNz'')) ''Authorization''
      = Some ''Bearer dXNlcjpwYXNz'' \<and>
      \<not> strncasecmp_eq (c_str ''Bearer dXNlcjpwYXNz'') ''Basic '' 6"
    by (simp add: example_request_context_def strncasecmp_eq_def c_str_def NUL_def
        tolower_c_def)
  have 2: "f_others (request (example_request_context ''Basic dXNlcg=='')) ''Authorization''
      = Some ''Basic dXNlcg=='' \<and>
      decode64 example_services (drop 6 (c_str ''Basic dXNlcg=='')) = Some ''user'' \<and>
      CHR '':'' \<notin> set (c_str ''user'')"
    by (simp add: example_request_context_def example_services_def c_str_def NUL_def)
  have 3: "auth_queries (snd (snd (htp_auth_1 example_config example_env example_services
     (example_request_context ''Basic dXNlcjpwYXNz'')))) = [(''user'', ''pass'')]"
    by (simp add: htp_auth_1_def htp_auth_def example_request_context_def example_services_def
      c_str_def NUL_def strncasecmp_eq_def tolower_c_def strchr_def gx_strlcpy_def Let_def
      cleared_context_def)
  have 4: "\<not> b_authed (example_request_context x)" for x
    by (simp add: example_request_context_def cleared_context_def)
  from htp_auth_1_passes_over_malformed_authorization
    [of "example_request_context ''Bearer dXNlcjpwYXNz''" "''Bearer dXNlcjpwYXNz''"
      example_services example_config example_env] 1
  have a: "htp_auth_1 example_config example_env example_services
     (example_request_context ''Bearer dXNlcjpwYXNz'') =
     (TPROC_RUNOFF, example_request_context ''Bearer dXNlcjpwYXNz'', []) \<and>
     b_authed (fst (snd (htp_auth_1 example_config example_env example_services
       (example_request_context ''Bearer dXNlcjpwYXNz'')))) =
     b_authed (example_request_context ''Bearer dXNlcjpwYXNz'')"
    by blast
  from htp_auth_1_passes_over_malformed_authorization
    [of "example_request_context ''Basic dXNlcg==''" "''Basic dXNlcg==''"
      example_services example_config example_env] 2
  have b: "htp_auth_1 example_config example_env example_services
     (example_request_context ''Basic dXNlcg=='') =
     (TPROC_RUNOFF, example_request_context ''Basic dXNlcg=='', []) \<and>
     b_authed (fst (snd (htp_auth_1 example_config example_env example_services
       (example_request_context ''Basic dXNlcg=='')))) =
     b_authed (example_request_context ''Basic dXNlcg=='')"
    by blast
  from a b 3 4 show ?thesis by simp
qed

text \<open>
  The claim as it stands fails on a connection that is kept alive after a request
  with good credentials: the reply written, the context goes back to reading a head
  with \<^verbatim>\<open>b_authed\<close> still set, and a second request whose Authorization header is a
  Bearer token goes on authenticated.
\<close>

theorem htp_auth_1_keeps_authenticated_counterexample:
  "b_authed first_request_context \<and>
   wrrep_next_chunk example_config first_request_context =
     Some (TPROC_CONT, back_to_rdhead first_request_context) \<and>
   f_others (request second_request_context) ''Authorization'' =
     Some ''Bearer dXNlcjpwYXNz'' \<and>
   \<not> strncasecmp_eq (c_str ''Bearer dXNlcjpwYXNz'') ''Basic '' 6 \<and>
   fst (htp_auth_1 example_config example_env example_services second_request_context) =
     TPROC_RUNOFF \<and>
   b_authed (fst (snd (htp_auth_1 example_config example_env example_services
     second_request_context)))"
proof -
  have f: "first_request_context =
      (example_request_context ''Basic dXNlcjpwYXNz'')\<lparr>b_close := False,
         username := ''user'', password := ''pass'', maildir := ''/var/mail/user'',
         lang := ''en'', b_authed := True\<rparr>"
    by (simp add: first_request_context_def htp_auth_1_def htp_auth_def
      example_request_context_def example_services_def
      c_str_def NUL_def strncasecmp_eq_def tolower_c_def strchr_def gx_strlcpy_def Let_def
      cleared_context_def)
  have 1: "b_authed first_request_context" by (simp add: f)
  have 2: "wrrep_next_chunk example_config first_request_context =
     Some (TPROC_CONT, back_to_rdhead first_request_context)"
    by (simp add: f wrrep_next_chunk_def load_write_buff_def stream_get_read_buf_def
        example_request_context_def cleared_context_def stream_init_def back_to_rdhead_def
        example_config_def Let_def)
  have 3: "f_others (request second_request_context) ''Authorization'' =
     Some ''Bearer dXNlcjpwYXNz''"
    by (simp add: second_request_context_def example_request_context_def)
  have 4: "\<not> strncasecmp_eq (c_str ''Bearer dXNlcjpwYXNz'') ''Basic '' 6"
    by (simp add: strncasecmp_eq_def c_str_def NUL_def tolower_c_def)
  have 5: "htp_auth_1 example_config example_env example_services second_request_context =
      (TPROC_RUNOFF, second_request_context, [])"
    using 3 4 by (simp add: htp_auth_1_def Let_def)
  have 6: "b_authed second_request_context"
    by (simp add: second_request_context_def back_to_rdhead_def 1)
  from 1 2 3 4 5 6 show ?thesis by simp
qed

subsection \<open>The request URI of an RPC request\<close>

lemma NUL_notin_c_str [simp]: "NUL \<notin> set (c_str s)"
  unfolding c_str_def by (induction s) auto

lemma c_str_no_NUL: "NUL \<notin> set s \<Longrightarrow> c_str s = s"
  unfolding c_str_def by (induction s) auto

lemma c_str_idem [simp]: "c_str (c_str s) = c_str s"
  by (simp add: c_str_no_NUL)

lemma length_c_str_le: "length (c_str s) \<le> length s"
  unfolding c_str_def by (rule length_takeWhile_le)

lemma c_str_cut: "NUL \<notin> set a \<Longrightarrow> c_str (a @ NUL # b) = a"
  unfolding c_str_def by (induction a) auto

lemma index_of_append_notin:
  "c \<notin> set p \<Longrightarrow> index_of c (p @ t) = map_option (\<lambda>i. length p + i) (index_of c t)"
  by (induction p) (auto simp: option.map_comp comp_def option.map_ident cong: option.map_cong)

lemma rpcproxy_prefix_eval:
  assumes "NUL \<notin> set u"
  shows "rpcproxy_prefix u =
     (if take 18 u = ''/rpc/rpcproxy.dll?'' then Some 18
      else if take 26 u = ''/rpcwithcert/rpcproxy.dll?'' then Some 26 else None)"
  using assms
  by (simp add: rpcproxy_prefix_def strncmp_eq_def c_str_no_NUL) (simp add: c_str_def NUL_def)

lemma host_port_of_parts:
  assumes u: "NUL \<notin> set u" and pre: "take n u = P" and n: "length P = n" and
    P: "CHR '':'' \<notin> set P" and i: "index_of (CHR '':'') (drop n u) = Some i"
  shows "strchr u (CHR '':'') = Some (n + i)"
    and "gx_strlcpy 128 (drop n (u[n + i := NUL])) = take 127 (take i (drop n u))"
    and "drop (n + i + 1) u = drop (i + 1) (drop n u)"
    and "length (take i (drop n u)) = i"
proof -
  have ueq: "u = P @ drop n u" using pre by (metis append_take_drop_id)
  have "index_of (CHR '':'') u = map_option (\<lambda>j. length P + j) (index_of (CHR '':'') (drop n u))"
    using index_of_append_notin [OF P, of "drop n u"] ueq by simp
  then show "strchr u (CHR '':'') = Some (n + i)"
    using i n u by (simp add: strchr_def c_str_no_NUL)
  from index_of_Some_less [OF i] have il: "i < length (drop n u)" by simp
  let ?t = "drop n u"
  have "drop n (u[n + i := NUL]) = ?t[i := NUL]"
    by (simp add: drop_update_swap)
  also have "\<dots> = take i ?t @ NUL # drop (i + 1) ?t"
    using il by (simp add: upd_conv_take_nth_drop)
  finally have "drop n (u[n + i := NUL]) = take i ?t @ NUL # drop (i + 1) ?t" .
  moreover have "NUL \<notin> set (take i ?t)"
    using u by (meson in_set_dropD in_set_takeD)
  ultimately show "gx_strlcpy 128 (drop n (u[n + i := NUL])) = take 127 (take i (drop n u))"
    by (simp add: gx_strlcpy_def c_str_cut)
  show "drop (n + i + 1) u = drop (i + 1) (drop n u)"
    by (simp add: add.commute add.left_commute)
  show "length (take i (drop n u)) = i"
    using il by simp
qed

lemma htp_delegate_rpc_eval:
  assumes len: "f_request_uri (request ctx) \<noteq> []" "length (f_request_uri (request ctx)) < 1024"
  shows "htp_delegate_rpc cfg e sv ctx w =
     (case spec_rpc_uri (c_str (f_request_uri (request ctx))) of
        None \<Rightarrow> http_done e ctx 400
      | Some (h, pt) \<Rightarrow>
          if 128 < length h then http_done e ctx 400
          else rpc_open_channel cfg e sv (ctx\<lparr>host := take 127 h, port := int_of_long (strtol0 sv pt)\<rparr>) w)"
proof -
  let ?u = "c_str (f_request_uri (request ctx))"
  have lu: "length ?u < 1024" using len(2) length_c_str_le [of "f_request_uri (request ctx)"] by simp
  have tb: "gx_strlcpy 2048 (f_request_uri (request ctx)) = ?u"
    using lu by (simp add: gx_strlcpy_def)
  have nu: "NUL \<notin> set ?u" by simp
  note pe = rpcproxy_prefix_eval [OF nu]
  show ?thesis
  proof (cases "take 18 ?u = ''/rpc/rpcproxy.dll?''")
    case True
    show ?thesis
    proof (cases "index_of (CHR '':'') (drop 18 ?u)")
      case None
      have "index_of (CHR '':'') (take 18 ?u @ drop 18 ?u) = None"
        unfolding True using None by (simp add: index_of_append_notin)
      then have "index_of (CHR '':'') ?u = None" by simp
      then show ?thesis using True None len tb pe
        by (simp add: htp_delegate_rpc_def spec_rpc_uri_def Let_def strchr_def)
    next
      case (Some i)
      note hp = host_port_of_parts [OF nu True _ _ Some]
      show ?thesis using True Some len tb pe hp(1,2,3)
        by (simp add: htp_delegate_rpc_def spec_rpc_uri_def Let_def hp(4) del: length_take)
    qed
  next
    case False
    note F1 = False
    show ?thesis
    proof (cases "take 26 ?u = ''/rpcwithcert/rpcproxy.dll?''")
      case True
      show ?thesis
      proof (cases "index_of (CHR '':'') (drop 26 ?u)")
        case None
        have "index_of (CHR '':'') (take 26 ?u @ drop 26 ?u) = None"
          unfolding True using None by (simp add: index_of_append_notin)
        then have "index_of (CHR '':'') ?u = None" by simp
        then show ?thesis using True F1 None len tb pe
          by (simp add: htp_delegate_rpc_def spec_rpc_uri_def Let_def strchr_def)
      next
        case (Some i)
        note hp = host_port_of_parts [OF nu True _ _ Some]
        show ?thesis using True F1 Some len tb pe hp(1,2,3)
          by (simp add: htp_delegate_rpc_def spec_rpc_uri_def Let_def hp(4) del: length_take)
      qed
    next
      case False
      then show ?thesis using F1 len tb pe
        by (simp add: htp_delegate_rpc_def spec_rpc_uri_def Let_def)
    qed
  qed
qed

lemma put_module_context_fields [simp]:
  "stream_out (put_module_context c) = stream_out c"
  "b_close (put_module_context c) = b_close c"
  "host (put_module_context c) = host c"
  "port (put_module_context c) = port c"
  "b_authed (put_module_context c) = b_authed c"
  "channel_type (put_module_context c) = channel_type c"
  "pchannel (put_module_context c) = pchannel c"
  by (simp_all add: put_module_context_def)

lemma http_done_fields:
  "fst (http_done e c code) = TPROC_LOOP"
  "sched_stat (snd (http_done e c code)) = SCHED_STAT_WRREP"
  "st_data (stream_out (snd (http_done e c code))) =
     st_data (stream_out c) @ error_page e (nat \<bar>code\<bar>) True"
  "host (snd (http_done e c code)) = host c"
  "port (snd (http_done e c code)) = port c"
  "channel_type (snd (http_done e c code)) = channel_type c"
  "pchannel (snd (http_done e c code)) = pchannel c"
  by (simp_all add: http_done_def Let_def stream_write_def abs_if)

lemma take_gx_snprintf: "n \<le> 1023 \<Longrightarrow> take n (gx_snprintf 1024 xs) = take n xs"
  by (simp add: gx_snprintf_def)

lemma error_page_head:
  "take 12 (error_page e 400 b) = ''HTTP/1.1 400''"
  "take 12 (error_page e 5032 b) = ''HTTP/1.1 503''"
  "take 12 (error_page e 414 b) = ''HTTP/1.1 414''"
  "take 12 (error_page e 408 b) = ''HTTP/1.1 408''"
  "take 12 (error_page e 405 b) = ''HTTP/1.1 405''"
  by (simp_all add: error_page_def Let_def status_text_def digit_char_def take_gx_snprintf)

lemma rpc_open_channel_fields:
  "host (snd (rpc_open_channel cfg e sv c w)) = host c"
  "port (snd (rpc_open_channel cfg e sv c w)) = port c"
  by (simp_all add: rpc_open_channel_def Let_def http_done_fields reply_unauthorized_def)

lemma rpc_open_channel_not_400:
  assumes "b_authed c" and "stream_out c = stream_out ctx"
  shows "rpc_open_channel cfg e sv c w \<noteq> http_done e ctx 400"
proof
  assume eq: "rpc_open_channel cfg e sv c w = http_done e ctx 400"
  let ?r = "rpc_open_channel cfg e sv c w"
  have ss: "sched_stat (snd ?r) = SCHED_STAT_WRREP"
    using eq by (simp add: http_done_fields)
  have sd: "st_data (stream_out (snd ?r)) = st_data (stream_out ctx) @ error_page e 400 True"
    using eq by (simp add: http_done_fields)
  from ss assms(1) have "st_data (stream_out (snd ?r)) =
      st_data (stream_out c) @ error_page e 5032 True"
    by (auto simp: rpc_open_channel_def Let_def http_done_fields split: if_splits)
  with sd assms(2) have "error_page e 5032 True = error_page e 400 True" by simp
  then have "take 12 (error_page e 5032 True) = take 12 (error_page e 400 True)" by simp
  then show False by (simp add: error_page_head)
qed

text \<open>
  C5, as amended. For an authenticated request, \<^verbatim>\<open>htp_delegate_rpc\<close> answers with the
  error page 400 exactly when the request URI is empty or has 1024 bytes or more, or,
  read as a C string, has not the form \<^verbatim>\<open>/rpc/rpcproxy.dll?<host>:<port>\<close> or
  \<^verbatim>\<open>/rpcwithcert/rpcproxy.dll?<host>:<port>\<close>, or has a host part longer than 127
  bytes. The port part is not examined. When the form is right and the host part has at
  most 127 bytes, the host is stored on the context and the port stored is what
  \<^verbatim>\<open>strtol\<close> with base 0 makes of the port part, narrowed from \<^verbatim>\<open>long\<close> to the
  \<^verbatim>\<open>int\<close> of the field (the low 32 bits, signed). Host parts of exactly 128 bytes are
  left aside.
\<close>

theorem htp_delegate_rpc_bad_request_iff_malformed_uri:
  assumes "b_authed ctx"
    and "\<forall>h pt. spec_rpc_uri (c_str (f_request_uri (request ctx))) = Some (h, pt)
           \<longrightarrow> length h \<noteq> 128"
  shows "(htp_delegate_rpc cfg e sv ctx w = http_done e ctx 400 \<longleftrightarrow>
            f_request_uri (request ctx) = [] \<or>
            1024 \<le> length (f_request_uri (request ctx)) \<or>
            (case spec_rpc_uri (c_str (f_request_uri (request ctx))) of
               None \<Rightarrow> True | Some (h, pt) \<Rightarrow> 127 < length h)) \<and>
         (\<forall>h pt. f_request_uri (request ctx) \<noteq> [] \<and>
            length (f_request_uri (request ctx)) < 1024 \<and>
            spec_rpc_uri (c_str (f_request_uri (request ctx))) = Some (h, pt) \<and>
            length h \<le> 127 \<longrightarrow>
            host (snd (htp_delegate_rpc cfg e sv ctx w)) = h \<and>
            port (snd (htp_delegate_rpc cfg e sv ctx w)) = int_of_long (strtol0 sv pt))"
proof (cases "f_request_uri (request ctx) = [] \<or> 1024 \<le> length (f_request_uri (request ctx))")
  case True
  then show ?thesis by (auto simp: htp_delegate_rpc_def Let_def)
next
  case False
  then have len: "f_request_uri (request ctx) \<noteq> []" "length (f_request_uri (request ctx)) < 1024"
    by auto
  note ev = htp_delegate_rpc_eval [OF len, of cfg e sv w]
  show ?thesis
  proof (cases "spec_rpc_uri (c_str (f_request_uri (request ctx)))")
    case None
    then show ?thesis using ev len by simp
  next
    case (Some hp)
    obtain h pt where hp: "hp = (h, pt)" by (cases hp)
    from assms(2) Some hp have n128: "length h \<noteq> 128" by simp
    show ?thesis
    proof (cases "127 < length h")
      case True
      with n128 have "128 < length h" by simp
      with ev Some hp len True show ?thesis by simp
    next
      case False
      let ?c = "ctx\<lparr>host := take 127 h, port := int_of_long (strtol0 sv pt)\<rparr>"
      from False have ev': "htp_delegate_rpc cfg e sv ctx w = rpc_open_channel cfg e sv ?c w"
        using ev Some hp by simp
      have "rpc_open_channel cfg e sv ?c w \<noteq> http_done e ctx 400"
        by (rule rpc_open_channel_not_400) (simp_all add: assms(1))
      with ev' Some hp len False show ?thesis
        by (simp add: rpc_open_channel_fields)
    qed
  qed
qed

lemma bad_port_run:
  "htp_delegate_rpc example_config example_env example_services bad_port_request 0 =
     (TPROC_LOOP, bad_port_request\<lparr>host := ''h'', port := 0, total_length := 76,
        channel_type := CHANNEL_TYPE_IN, pchannel := Some (In_channel new_in_channel),
        bytes_rw := 0, sched_stat := SCHED_STAT_RDBODY\<rparr>)"
  by (simp add: htp_delegate_rpc_def bad_port_request_def authed_request_context_def
      cleared_context_def gx_strlcpy_def c_str_def NUL_def rpcproxy_prefix_def strncmp_eq_def
      strchr_def rpc_open_channel_def example_services_def example_env_def strcmp_eq_def
      Let_def)

text \<open>
  The claim as it stands fails for a port part that is not a decimal number: the
  request is not answered with 400, nothing is written, and the context turns to
  reading the body.
\<close>

theorem htp_delegate_rpc_port_not_checked_counterexample:
  "b_authed bad_port_request \<and>
   spec_rpc_uri (f_request_uri (request bad_port_request)) = Some (''h'', ''x'') \<and>
   htp_delegate_rpc example_config example_env example_services bad_port_request 0 \<noteq>
     http_done example_env bad_port_request 400 \<and>
   sched_stat (snd (htp_delegate_rpc example_config example_env example_services
     bad_port_request 0)) = SCHED_STAT_RDBODY \<and>
   st_data (stream_out (snd (htp_delegate_rpc example_config example_env example_services
     bad_port_request 0))) = []"
proof -
  let ?r = "htp_delegate_rpc example_config example_env example_services bad_port_request 0"
  have ne: "?r \<noteq> http_done example_env bad_port_request 400"
  proof
    assume "?r = http_done example_env bad_port_request 400"
    then have "sched_stat (snd ?r) = sched_stat (snd (http_done example_env bad_port_request 400))"
      by simp
    then show False unfolding bad_port_run by (simp add: http_done_fields)
  qed
  have "spec_rpc_uri (f_request_uri (request bad_port_request)) = Some (''h'', ''x'')"
    by (simp add: spec_rpc_uri_def bad_port_request_def authed_request_context_def)
  moreover have "b_authed bad_port_request"
    by (simp add: bad_port_request_def authed_request_context_def)
  moreover have "st_data (stream_out bad_port_request) = []"
    by (simp add: bad_port_request_def authed_request_context_def cleared_context_def
        stream_init_def)
  moreover have "sched_stat (snd ?r) = SCHED_STAT_RDBODY"
    unfolding bad_port_run by simp
  moreover have "st_data (stream_out (snd ?r)) = st_data (stream_out bad_port_request)"
    unfolding bad_port_run by simp
  ultimately show ?thesis using ne by simp
qed

theorem htp_delegate_rpc_bad_request_iff_malformed_uri_witness:
  "b_authed good_request \<and>
   spec_rpc_uri (c_str (f_request_uri (request good_request))) = Some (''h'', ''6001'') \<and>
   htp_delegate_rpc example_config example_env example_services good_request 0 \<noteq>
     http_done example_env good_request 400 \<and>
   host (snd (htp_delegate_rpc example_config example_env example_services good_request 0))
     = ''h'' \<and>
   port (snd (htp_delegate_rpc example_config example_env example_services good_request 0))
     = 6001 \<and>
   b_authed wide_port_request \<and>
   spec_rpc_uri (c_str (f_request_uri (request wide_port_request))) =
     Some (''h'', ''99999999999'') \<and>
   strtol0 wide_port_services ''99999999999'' = 99999999999 \<and>
   htp_delegate_rpc example_config example_env wide_port_services wide_port_request 0 \<noteq>
     http_done example_env wide_port_request 400 \<and>
   port (snd (htp_delegate_rpc example_config example_env wide_port_services
     wide_port_request 0)) = 1215752191"
proof -
  have a: "b_authed good_request"
    by (simp add: good_request_def authed_request_context_def)
  have u: "f_request_uri (request good_request) = ''/rpc/rpcproxy.dll?h:6001''"
    by (simp add: good_request_def authed_request_context_def)
  have p: "spec_rpc_uri (c_str (f_request_uri (request good_request))) = Some (''h'', ''6001'')"
    by (simp add: u spec_rpc_uri_def c_str_def NUL_def)
  have b: "\<forall>h pt. spec_rpc_uri (c_str (f_request_uri (request good_request))) = Some (h, pt)
      \<longrightarrow> length h \<noteq> 128"
    by (simp add: p)
  have s: "strtol0 example_services ''6001'' = 6001"
    by (simp add: example_services_def)
  from htp_delegate_rpc_bad_request_iff_malformed_uri
    [OF a b, of example_config example_env example_services 0] p s
  have 1: "htp_delegate_rpc example_config example_env example_services good_request 0 \<noteq>
     http_done example_env good_request 400 \<and>
   host (snd (htp_delegate_rpc example_config example_env example_services good_request 0))
     = ''h'' \<and>
   port (snd (htp_delegate_rpc example_config example_env example_services good_request 0))
     = 6001"
    by (simp add: u)
  have a': "b_authed wide_port_request"
    by (simp add: wide_port_request_def authed_request_context_def)
  have u': "f_request_uri (request wide_port_request) = ''/rpc/rpcproxy.dll?h:99999999999''"
    by (simp add: wide_port_request_def authed_request_context_def)
  have p': "spec_rpc_uri (c_str (f_request_uri (request wide_port_request))) =
      Some (''h'', ''99999999999'')"
    by (simp add: u' spec_rpc_uri_def c_str_def NUL_def)
  have b': "\<forall>h pt. spec_rpc_uri (c_str (f_request_uri (request wide_port_request))) =
      Some (h, pt) \<longrightarrow> length h \<noteq> 128"
    by (simp add: p')
  have s': "strtol0 wide_port_services ''99999999999'' = 99999999999"
    by (simp add: wide_port_services_def)
  from htp_delegate_rpc_bad_request_iff_malformed_uri
    [OF a' b', of example_config example_env wide_port_services 0] p' s'
  have 2: "htp_delegate_rpc example_config example_env wide_port_services wide_port_request 0 \<noteq>
     http_done example_env wide_port_request 400 \<and>
   port (snd (htp_delegate_rpc example_config example_env wide_port_services
     wide_port_request 0)) = 1215752191"
    by (simp add: u')
  from a p 1 a' p' s' 2 show ?thesis by blast
qed

subsection \<open>The request line\<close>

lemma index_of_first: "c \<notin> set a \<Longrightarrow> index_of c (a @ c # b) = Some (length a)"
  by (induction a) auto

lemma memchr_first:
  "c \<notin> set a \<Longrightarrow> length a < n \<Longrightarrow> memchr (a @ c # b) c n = Some (length a)"
proof -
  assume a: "c \<notin> set a" and n: "length a < n"
  then obtain k where k: "n = length a + Suc k" by (metis less_iff_Suc_add add_Suc_right)
  have "take n (a @ c # b) = a @ c # take k b" by (simp add: k)
  then show ?thesis using a by (simp add: memchr_def index_of_first)
qed

lemma version_is_11:
  "version_is (p @ CHR '' '' # ''HTTP/1.1'' @ CR # rest) (length p) ''HTTP/1.1'' = Some True"
  by (simp add: version_is_def strncasecmp_at_def byte_at_def nth_append Let_def)

text \<open>
  C6, as amended. For a request line made of a method without blanks and shorter than 32
  bytes, a URI without blanks that is not empty, and the version HTTP/1.1, followed in
  the buffer by the line end: when the URI is shorter than \<^verbatim>\<open>uri_limit\<close> the parser
  stores the method, the URI (rewritten, if the rewrite module rewrites it) and the
  version and goes on with the next line, unless the rewrite module has turned the URI
  into an empty one, which is answered with the error page 400; when the URI has
  \<^verbatim>\<open>uri_limit\<close> bytes or more, the answer is the error page 414 and the URI is not
  stored.
\<close>

theorem htparse_rdhead_no_accepts_uri_below_limit:
  assumes m: "CHR '' '' \<notin> set m" "length m < 32"
    and u: "CHR '' '' \<notin> set u" "u \<noteq> []"
  shows "htparse_rdhead_no cfg e sv ctx (m @ '' '' @ u @ '' HTTP/1.1'') (CRLF @ rest) =
     Some (if uri_limit cfg \<le> length u
           then http_done e
                  (ctx\<lparr>request := (request ctx)\<lparr>req_method := m\<rparr>,
                       b_close := False\<rparr>) (- 414)
           else if mod_rewrite_process sv u = Some []
           then http_done e
                  (ctx\<lparr>b_close := False,
                       request := (request ctx)\<lparr>req_method := m, f_request_uri := []\<rparr>\<rparr>)
                  (- 400)
           else (TPROC_RUNOFF,
                 ctx\<lparr>b_close := False,
                     request := (request ctx)\<lparr>req_method := m,
                       f_request_uri := (case mod_rewrite_process sv u of
                                           None \<Rightarrow> u | Some u' \<Rightarrow> u'),
                       version := ''1.1''\<rparr>\<rparr>))"
proof -
  let ?line = "m @ '' '' @ u @ '' HTTP/1.1''"
  let ?buf = "?line @ CRLF @ rest"
  let ?L = "length ?line"
  have b1: "?buf = m @ CHR '' '' # (u @ '' HTTP/1.1'' @ CRLF @ rest)" by simp
  have mc1: "memchr ?buf (CHR '' '') ?L = Some (length m)"
    unfolding b1 by (rule memchr_first) (use m in simp_all)
  have d1: "drop (length m + 1) ?buf = u @ CHR '' '' # (''HTTP/1.1'' @ CRLF @ rest)"
    by simp
  have mc2: "memchr (drop (length m + 1) ?buf) (CHR '' '') (?L - length m - 1) = Some (length u)"
    unfolding d1 by (rule memchr_first) (use u in simp_all)
  have b2: "?buf = (m @ '' '' @ u) @ CHR '' '' # ''HTTP/1.1'' @ CR # (LF # rest)"
    by (simp add: CRLF_def)
  have v: "version_is ?buf (length m + 1 + length u) ''HTTP/1.1'' = Some True"
    using version_is_11 [of "m @ '' '' @ u" "LF # rest"] unfolding b2 by simp
  have t: "take (length m) ?buf = m" by simp
  have tu: "take (length u) (drop (length m + 1) ?buf) = u" by simp
  let ?a = "m @ '' '' @ u @ '' HTTP/''"
  have e: "?buf = ?a @ (''1.1'' @ CRLF @ rest)" by simp
  have la: "length ?a = length m + 1 + length u + 6" by simp
  have "drop (length ?a) ?buf = ''1.1'' @ CRLF @ rest"
    by (metis e append_eq_conv_conj)
  then have dr: "drop (length m + 1 + length u + 6) ?buf = ''1.1'' @ CRLF @ rest"
    unfolding la .
  have ver: "take (?L - (length m + 1 + length u + 6)) (drop (length m + 1 + length u + 6) ?buf) = ''1.1''"
    unfolding dr by simp
  have ll: "\<not> (?L < length m + 1 + length u + 6 \<or> 7 < ?L - (length m + 1 + length u + 6))"
    by simp
  show ?thesis
    unfolding htparse_rdhead_no_def Let_def mc1 mc2 option.case v
    using m(2) u(2) ll ver t tu
    by (auto split: option.splits)
qed

text \<open>The theorem at work with a limit of 16 bytes: a URI of 15 bytes is stored, and
  the same URI is answered with 400 when the rewrite module empties it.\<close>

theorem htparse_rdhead_no_accepts_uri_below_limit_witness:
  "htparse_rdhead_no small_uri_config example_env example_services cleared_context
     (''GET'' @ '' '' @ ''/0123456789abcd'' @ '' HTTP/1.1'') (CRLF @ []) =
     Some (TPROC_RUNOFF,
           cleared_context\<lparr>b_close := False,
             request := (request cleared_context)\<lparr>req_method := ''GET'',
               f_request_uri := ''/0123456789abcd'', version := ''1.1''\<rparr>\<rparr>) \<and>
   length ''/0123456789abcd'' = uri_limit small_uri_config - 1 \<and>
   htparse_rdhead_no small_uri_config example_env emptying_services cleared_context
     (''GET'' @ '' '' @ ''/0123456789abcd'' @ '' HTTP/1.1'') (CRLF @ []) =
     Some (http_done example_env
       (cleared_context\<lparr>b_close := False,
          request := (request cleared_context)\<lparr>req_method := ''GET'',
            f_request_uri := []\<rparr>\<rparr>) (- 400))"
proof -
  have rw: "mod_rewrite_process example_services ''/0123456789abcd'' = None"
    by (simp add: example_services_def)
  have rw': "mod_rewrite_process emptying_services ''/0123456789abcd'' = Some []"
    by (simp add: emptying_services_def)
  have h: "CHR '' '' \<notin> set ''GET''" "length ''GET'' < 32"
    "CHR '' '' \<notin> set ''/0123456789abcd''" "''/0123456789abcd'' \<noteq> []"
    by simp_all
  from htparse_rdhead_no_accepts_uri_below_limit [OF h,
      of small_uri_config example_env example_services cleared_context "[]"]
  have 1: "htparse_rdhead_no small_uri_config example_env example_services cleared_context
     (''GET'' @ '' '' @ ''/0123456789abcd'' @ '' HTTP/1.1'') (CRLF @ []) =
     Some (TPROC_RUNOFF,
           cleared_context\<lparr>b_close := False,
             request := (request cleared_context)\<lparr>req_method := ''GET'',
               f_request_uri := ''/0123456789abcd'', version := ''1.1''\<rparr>\<rparr>)"
    by (simp add: rw small_uri_config_def example_config_def)
  from htparse_rdhead_no_accepts_uri_below_limit [OF h,
      of small_uri_config example_env emptying_services cleared_context "[]"]
  have 2: "htparse_rdhead_no small_uri_config example_env emptying_services cleared_context
     (''GET'' @ '' '' @ ''/0123456789abcd'' @ '' HTTP/1.1'') (CRLF @ []) =
     Some (http_done example_env
       (cleared_context\<lparr>b_close := False,
          request := (request cleared_context)\<lparr>req_method := ''GET'',
            f_request_uri := []\<rparr>\<rparr>) (- 400))"
    by (simp add: rw' small_uri_config_def example_config_def)
  have 3: "length ''/0123456789abcd'' = uri_limit small_uri_config - 1"
    by (simp add: small_uri_config_def example_config_def)
  from 1 2 3 show ?thesis by blast
qed

text \<open>
  The claim as it stands fails at the limit itself: a URI of exactly \<^verbatim>\<open>uri_limit\<close>
  bytes is answered with the error page 414 and is not stored.
\<close>

theorem htparse_rdhead_no_uri_at_limit_counterexample:
  "length ''/0123456789abcde'' = uri_limit small_uri_config \<and>
   map_option (\<lambda>r. take 12 (st_data (stream_out (snd r))))
     (htparse_rdhead_no small_uri_config example_env example_services cleared_context
        line_with_uri_at_limit CRLF) = Some ''HTTP/1.1 414'' \<and>
   map_option (\<lambda>r. f_request_uri (request (snd r)))
     (htparse_rdhead_no small_uri_config example_env example_services cleared_context
        line_with_uri_at_limit CRLF) = Some []"
proof -
  have run: "htparse_rdhead_no small_uri_config example_env example_services cleared_context
        line_with_uri_at_limit CRLF =
      Some (http_done example_env
        (cleared_context\<lparr>request := (request cleared_context)\<lparr>req_method := ''GET''\<rparr>,
           b_close := False\<rparr>) (- 414))"
    by (simp add: htparse_rdhead_no_def line_with_uri_at_limit_def memchr_def version_is_def
        strncasecmp_at_def byte_at_def tolower_c_def CRLF_def small_uri_config_def
        example_config_def Let_def)
  show ?thesis
    unfolding run
    by (simp add: http_done_fields error_page_head small_uri_config_def example_config_def
        cleared_context_def stream_init_def http_done_def Let_def put_module_context_def
        stream_write_def)
qed

subsection \<open>Echo requests\<close>

declare reconstruct_loop.simps [simp del]

lemma stream_get_read_buf_progress:
  assumes "stream_get_read_buf bs bs src = (Some chunk, src')" "0 < bs"
  shows "st_rd src < st_rd src'"
proof -
  have "0 < bs - st_rd src mod bs" using assms(2) by simp
  with assms show ?thesis
    by (auto simp: stream_get_read_buf_def Let_def split: if_splits)
qed

lemma reconstruct_loop_ok:
  "ok \<Longrightarrow> 0 < bs \<Longrightarrow> fst (reconstruct_loop bs ok fresh dn cur used chunk src) \<noteq> None"
proof (induction bs ok fresh dn cur used chunk src rule: reconstruct_loop.induct)
  case (1 bs ok fresh dn cur used chunk src)
  show ?case
  proof (cases "stream_get_read_buf bs bs src")
    case (Pair b src')
    show ?thesis
    proof (cases b)
      case None
      with Pair "1.prems" show ?thesis
        by (subst reconstruct_loop.simps) (simp add: Let_def)
    next
      case (Some chunk')
      with Pair have pr: "st_rd src < st_rd src'"
        using stream_get_read_buf_progress "1.prems" by blast
      have gb: "(Some chunk', src') = stream_get_read_buf bs bs src"
        using Pair Some by simp
      show ?thesis
      proof (cases "length chunk \<le> bs - used")
        case True
        from "1.IH"(1) [OF True refl refl gb refl pr "1.prems"]
        have "fst (reconstruct_loop bs ok fresh dn (chunk @ drop (length chunk) cur)
                (used + length chunk) chunk' src') \<noteq> None" .
        with True Pair Some pr show ?thesis
          by (subst reconstruct_loop.simps) (simp add: Let_def)
      next
        case False
        have nok: "\<not> \<not> ok" using "1.prems" by simp
        from "1.IH"(2) [OF False refl refl nok refl refl gb refl pr "1.prems"]
        have "fst (reconstruct_loop bs ok fresh
                (dn @ take used cur @ take (bs - used) chunk)
                (drop (bs - used) chunk @ drop (length chunk - (bs - used)) fresh)
                (length chunk - (bs - used)) chunk' src') \<noteq> None" .
        with False Pair Some pr "1.prems" show ?thesis
          by (subst reconstruct_loop.simps) (simp add: Let_def)
      qed
    qed
  qed
qed

lemma http_parser_reconstruct_stream_ok:
  assumes "alloc_ok e" "0 < STREAM_BLOCK_SIZE cfg"
  shows "\<not> fst (http_parser_reconstruct_stream cfg e st) < 0"
proof (cases "stream_get_read_buf (STREAM_BLOCK_SIZE cfg) (STREAM_BLOCK_SIZE cfg) st")
  case (Pair b src')
  show ?thesis
  proof (cases b)
    case None
    with Pair show ?thesis by (simp add: http_parser_reconstruct_stream_def)
  next
    case (Some chunk)
    obtain r src'' where r: "reconstruct_loop (STREAM_BLOCK_SIZE cfg) (alloc_ok e)
        (fresh_block e) [] (fresh_block e) 0 chunk src' = (r, src'')"
      by (cases "reconstruct_loop (STREAM_BLOCK_SIZE cfg) (alloc_ok e)
        (fresh_block e) [] (fresh_block e) 0 chunk src'")
    from reconstruct_loop_ok [OF assms, of "fresh_block e" "[]" "fresh_block e" 0 chunk src'] r
    obtain d where "r = Some d" by auto
    with Pair Some r show ?thesis
      by (simp add: http_parser_reconstruct_stream_def)
  qed
qed

lemma nochan_echo_reply:
  assumes meth: "strcasecmp_eq (req_method (request ctx)) ''RPC_IN_DATA'' \<or>
      strcasecmp_eq (req_method (request ctx)) ''RPC_OUT_DATA''"
    and env: "alloc_ok e" "0 < STREAM_BLOCK_SIZE cfg"
    and fin: "total_length ctx \<noteq> 0" "\<not> bytes_rw ctx < total_length ctx"
  shows "htparse_rdbody_nochan cfg e md pp ctx =
     (TPROC_CONT,
      ctx\<lparr>stream_out := stream_write (echo_response pp) (stream_out ctx),
          total_length := of_nat (length (echo_response pp)),
          bytes_rw := 0,
          sched_stat := SCHED_STAT_WRREP,
          stream_in := snd (http_parser_reconstruct_stream cfg e (stream_in ctx))\<rparr>)"
  using meth fin http_parser_reconstruct_stream_ok [OF env, of "stream_in ctx"]
  by (auto simp: htparse_rdbody_nochan_def Let_def split: prod.splits)

lemma nochan_echo_reply_after_read:
  assumes meth: "strcasecmp_eq (req_method (request ctx)) ''RPC_IN_DATA'' \<or>
      strcasecmp_eq (req_method (request ctx)) ''RPC_OUT_DATA''"
    and env: "alloc_ok e" "0 < STREAM_BLOCK_SIZE cfg"
    and mods: "\<not> hpm_in_charge ctx" "\<not> fcgi_in_charge ctx" "\<not> cache_in_charge ctx"
    and need: "total_length ctx = 0 \<or> bytes_rw ctx < total_length ctx"
    and rd: "sock_read e = Read_data d"
      "received e (STREAM_BLOCK_SIZE cfg - length (st_data (stream_in ctx)) mod STREAM_BLOCK_SIZE cfg) = got"
      "got \<noteq> []"
    and enough: "\<not> bytes_rw ctx + of_nat (length got) < total_length ctx"
  shows "htparse_rdbody_nochan cfg e md pp ctx =
     (TPROC_CONT,
      ctx\<lparr>stream_out := stream_write (echo_response pp) (stream_out ctx),
          total_length := of_nat (length (echo_response pp)),
          bytes_rw := 0,
          sched_stat := SCHED_STAT_WRREP,
          last_timestamp := now e,
          stream_in := snd (http_parser_reconstruct_stream cfg e
            (stream_fwd_write got (stream_in ctx)))\<rparr>)"
proof -
  have n2: "htparse_rdbody_nochan2 cfg e md ctx =
      (TPROC_RUNOFF, ctx\<lparr>last_timestamp := now e,
         stream_in := stream_fwd_write got (stream_in ctx),
         bytes_rw := bytes_rw ctx + of_nat (length got)\<rparr>)"
    using env(1) mods rd enough
    by (simp add: htparse_rdbody_nochan2_def stream_get_write_buf_def Let_def)
  show ?thesis
    using meth need http_parser_reconstruct_stream_ok [OF env, of "stream_fwd_write got (stream_in ctx)"]
    by (auto simp: htparse_rdbody_nochan_def n2 Let_def split: prod.splits)
qed

lemma rpc_open_channel_echo:
  assumes "b_authed c" "strtoull0 sv (c_str (f_content_length (request c))) \<le> 0x10"
  shows "rpc_open_channel cfg e sv c w =
     (TPROC_LOOP, c\<lparr>total_length := strtoull0 sv (c_str (f_content_length (request c))),
        bytes_rw := of_nat w, sched_stat := SCHED_STAT_RDBODY\<rparr>)"
  using assms by (simp add: rpc_open_channel_def Let_def not_less [symmetric])

lemma htparse_rdbody_nochan_lift:
  assumes "g_context_list s p = Some c" "pchannel c = None"
  shows "htparse_rdbody cfg e md pp p s =
     Some (fst (htparse_rdbody_nochan cfg e md pp c),
           set_ctx p (snd (htparse_rdbody_nochan cfg e md pp c)) s)"
  using assms by (simp add: htparse_rdbody_def split: prod.splits)

text \<open>
  C9, as amended. An authenticated RPC\_IN\_DATA or RPC\_OUT\_DATA request with a URI of
  the right form whose Content-Length, as \<^verbatim>\<open>strtoull\<close> with base 0 reads it, is at most
  16 gets no channel: \<^verbatim>\<open>htp_delegate_rpc\<close> leaves \<^verbatim>\<open>channel_type\<close> at NONE and
  \<^verbatim>\<open>pchannel\<close> null and turns the context to reading the body. In the next step of the
  body reader, when the body is complete (it came with the head and the declared length
  is not 0, or the read of this step brings its last bytes, which for a declared length
  of 0 are any bytes at all) and the block pool is not exhausted, the reply written to the
  output stream is the fixed \<^verbatim>\<open>HTTP/1.1 200 Success\<close> head with the echo PDU of the PDU
  processor as its 20 bytes of body, the context turns to writing, and still no
  channel is allocated.
\<close>

theorem echo_request_is_answered_without_channel:
  assumes authed: "b_authed ctx"
    and none: "channel_type ctx = CHANNEL_TYPE_NONE" "pchannel ctx = None"
    and uri: "f_request_uri (request ctx) \<noteq> []" "length (f_request_uri (request ctx)) < 1024"
      "spec_rpc_uri (c_str (f_request_uri (request ctx))) = Some (h, pt)" "length h \<le> 128"
    and len: "strtoull0 sv (c_str (f_content_length (request ctx))) = n" "n \<le> 0x10"
    and meth: "strcasecmp_eq (req_method (request ctx)) ''RPC_IN_DATA'' \<or>
      strcasecmp_eq (req_method (request ctx)) ''RPC_OUT_DATA''"
    and env: "alloc_ok e" "0 < STREAM_BLOCK_SIZE cfg"
    and body: "(n \<noteq> 0 \<and> \<not> of_nat w < n) \<or>
      ((n = 0 \<or> of_nat w < n) \<and>
       \<not> hpm_in_charge ctx \<and> \<not> fcgi_in_charge ctx \<and> \<not> cache_in_charge ctx \<and>
       (\<exists>d. sock_read e = Read_data d) \<and>
       received e (STREAM_BLOCK_SIZE cfg - length (st_data (stream_in ctx)) mod
          STREAM_BLOCK_SIZE cfg) \<noteq> [] \<and>
       \<not> of_nat w + of_nat (length (received e (STREAM_BLOCK_SIZE cfg -
            length (st_data (stream_in ctx)) mod STREAM_BLOCK_SIZE cfg))) < n)"
    and st: "g_context_list s p = Some (snd (htp_delegate_rpc cfg e0 sv ctx w))"
  shows "fst (htp_delegate_rpc cfg e0 sv ctx w) = TPROC_LOOP \<and>
     sched_stat (snd (htp_delegate_rpc cfg e0 sv ctx w)) = SCHED_STAT_RDBODY \<and>
     channel_type (snd (htp_delegate_rpc cfg e0 sv ctx w)) = CHANNEL_TYPE_NONE \<and>
     pchannel (snd (htp_delegate_rpc cfg e0 sv ctx w)) = None \<and>
     (\<exists>s' c'. htparse_rdbody cfg e md pp p s = Some (TPROC_CONT, s') \<and>
        g_context_list s' p = Some c' \<and>
        channel_type c' = CHANNEL_TYPE_NONE \<and> pchannel c' = None \<and>
        sched_stat c' = SCHED_STAT_WRREP \<and>
        st_data (stream_out c') = st_data (stream_out ctx) @ echo_response pp \<and>
        total_length c' = of_nat (length (echo_response pp)))"
proof -
  let ?c0 = "ctx\<lparr>host := take 127 h, port := int_of_long (strtol0 sv pt)\<rparr>"
  let ?c1 = "?c0\<lparr>total_length := n, bytes_rw := of_nat w, sched_stat := SCHED_STAT_RDBODY\<rparr>"
  have run: "htp_delegate_rpc cfg e0 sv ctx w = (TPROC_LOOP, ?c1)"
    using htp_delegate_rpc_eval [where cfg=cfg and e=e0 and sv=sv and w=w, OF uri(1,2)] uri(3,4)
      rpc_open_channel_echo [where c="?c0" and sv=sv and cfg=cfg and e=e0 and w=w] authed len
    by simp
  have c1: "g_context_list s p = Some ?c1" using st run by simp
  have p1: "pchannel ?c1 = None" using none by simp
  note lift = htparse_rdbody_nochan_lift [where cfg=cfg and e=e and md=md and pp=pp, OF c1 p1]
  have meth1: "strcasecmp_eq (req_method (request ?c1)) ''RPC_IN_DATA'' \<or>
      strcasecmp_eq (req_method (request ?c1)) ''RPC_OUT_DATA''"
    using meth by simp
  from body show ?thesis
  proof
    assume "n \<noteq> 0 \<and> \<not> of_nat w < n"
    then have "total_length ?c1 \<noteq> 0" "\<not> bytes_rw ?c1 < total_length ?c1" by simp_all
    from nochan_echo_reply [where md=md and pp=pp, OF meth1 env this] lift run none
    show ?thesis by (simp add: stream_write_def)
  next
    assume b: "(n = 0 \<or> of_nat w < n) \<and>
       \<not> hpm_in_charge ctx \<and> \<not> fcgi_in_charge ctx \<and> \<not> cache_in_charge ctx \<and>
       (\<exists>d. sock_read e = Read_data d) \<and>
       received e (STREAM_BLOCK_SIZE cfg - length (st_data (stream_in ctx)) mod
          STREAM_BLOCK_SIZE cfg) \<noteq> [] \<and>
       \<not> of_nat w + of_nat (length (received e (STREAM_BLOCK_SIZE cfg -
            length (st_data (stream_in ctx)) mod STREAM_BLOCK_SIZE cfg))) < n"
    then obtain d where d: "sock_read e = Read_data d" by blast
    let ?got = "received e (STREAM_BLOCK_SIZE cfg - length (st_data (stream_in ?c1)) mod
          STREAM_BLOCK_SIZE cfg)"
    have "\<not> hpm_in_charge ?c1" "\<not> fcgi_in_charge ?c1" "\<not> cache_in_charge ?c1"
      "total_length ?c1 = 0 \<or> bytes_rw ?c1 < total_length ?c1"
      using b by simp_all
    moreover have "?got = ?got" "?got \<noteq> []" "\<not> bytes_rw ?c1 + of_nat (length ?got) < total_length ?c1"
      using b by simp_all
    ultimately have "htparse_rdbody_nochan cfg e md pp ?c1 =
      (TPROC_CONT,
       ?c1\<lparr>stream_out := stream_write (echo_response pp) (stream_out ?c1),
          total_length := of_nat (length (echo_response pp)),
          bytes_rw := 0,
          sched_stat := SCHED_STAT_WRREP,
          last_timestamp := now e,
          stream_in := snd (http_parser_reconstruct_stream cfg e
            (stream_fwd_write ?got (stream_in ?c1)))\<rparr>)"
      using nochan_echo_reply_after_read [where md=md and pp=pp and got="?got", OF meth1 env _ _ _ _ d]
      by blast
    with lift run none show ?thesis by (simp add: stream_write_def)
  qed
qed

theorem echo_request_is_answered_without_channel_witness:
  "\<exists>s' c'. htparse_rdbody example_config example_env example_modules example_pdu_processor 0
       (echo_state ''16'' 16) = Some (TPROC_CONT, s') \<and>
     g_context_list s' 0 = Some c' \<and>
     channel_type c' = CHANNEL_TYPE_NONE \<and> pchannel c' = None \<and>
     sched_stat c' = SCHED_STAT_WRREP \<and>
     st_data (stream_out c') = echo_response example_pdu_processor"
proof -
  let ?ctx = "authed_request_context ''/rpc/rpcproxy.dll?h:6001'' ''16''"
  have 1: "b_authed ?ctx" "channel_type ?ctx = CHANNEL_TYPE_NONE" "pchannel ?ctx = None"
    "f_request_uri (request ?ctx) \<noteq> []" "length (f_request_uri (request ?ctx)) < 1024"
    by (simp_all add: authed_request_context_def cleared_context_def)
  have 2: "spec_rpc_uri (c_str (f_request_uri (request ?ctx))) = Some (''h'', ''6001'')"
    by (simp add: authed_request_context_def spec_rpc_uri_def c_str_def NUL_def)
  have 3: "length ''h'' \<le> 128" by simp
  have 4: "strtoull0 example_services (c_str (f_content_length (request ?ctx))) = 16"
    "(16 :: 64 word) \<le> 0x10"
    by (simp_all add: authed_request_context_def example_services_def c_str_def NUL_def)
  have 5: "strcasecmp_eq (req_method (request ?ctx)) ''RPC_IN_DATA'' \<or>
      strcasecmp_eq (req_method (request ?ctx)) ''RPC_OUT_DATA''"
    by (simp add: authed_request_context_def strcasecmp_eq_def)
  have 6: "alloc_ok example_env" "0 < STREAM_BLOCK_SIZE example_config"
    by (simp_all add: example_env_def example_config_def)
  have 7: "((16 :: 64 word) \<noteq> 0 \<and> \<not> of_nat 16 < (16 :: 64 word)) \<or>
      (((16 :: 64 word) = 0 \<or> of_nat 16 < (16 :: 64 word)) \<and>
       \<not> hpm_in_charge ?ctx \<and> \<not> fcgi_in_charge ?ctx \<and> \<not> cache_in_charge ?ctx \<and>
       (\<exists>d. sock_read example_env = Read_data d) \<and>
       received example_env (STREAM_BLOCK_SIZE example_config -
          length (st_data (stream_in ?ctx)) mod STREAM_BLOCK_SIZE example_config) \<noteq> [] \<and>
       \<not> of_nat 16 + of_nat (length (received example_env (STREAM_BLOCK_SIZE example_config -
            length (st_data (stream_in ?ctx)) mod STREAM_BLOCK_SIZE example_config)))
          < (16 :: 64 word))"
    by simp
  have 8: "g_context_list (echo_state ''16'' 16) 0 = Some (snd (htp_delegate_rpc example_config
      example_env example_services ?ctx 16))"
    by (simp add: echo_state_def)
  have 9: "st_data (stream_out ?ctx) = []"
    by (simp add: authed_request_context_def cleared_context_def stream_init_def)
  from echo_request_is_answered_without_channel
    [where md=example_modules and pp=example_pdu_processor,
      OF 1(1) 1(2) 1(3) 1(4) 1(5) 2 3 4(1) 4(2) 5 6(1) 6(2) 7 8]
  show ?thesis by (auto simp: 9)
qed

lemma echo_zero_delegate:
  "htp_delegate_rpc example_config example_env example_services
     (authed_request_context ''/rpc/rpcproxy.dll?h:6001'' ''0'') 0 =
   (TPROC_LOOP, (authed_request_context ''/rpc/rpcproxy.dll?h:6001'' ''0'')
      \<lparr>host := ''h'', port := 6001, total_length := 0, bytes_rw := 0,
       sched_stat := SCHED_STAT_RDBODY\<rparr>)"
  by (simp add: htp_delegate_rpc_def authed_request_context_def
      cleared_context_def gx_strlcpy_def c_str_def NUL_def rpcproxy_prefix_def strncmp_eq_def
      strchr_def rpc_open_channel_def example_services_def example_env_def strcmp_eq_def
      Let_def)

text \<open>
  The claim as it stands fails for a declared length of 0: the body is complete with
  the head, yet the body reader first reads from the socket; while that read would
  block the context polls and writes nothing, and at the timeout the answer is the
  error page 408.
\<close>

theorem echo_request_of_length_zero_counterexample:
  "strtoull0 example_services (c_str ''0'') = 0 \<and>
   map_option fst (htparse_rdbody example_config example_env example_modules
      example_pdu_processor 0 (echo_state ''0'' 0)) = Some TPROC_POLLING_RDONLY \<and>
   (case htparse_rdbody example_config example_env example_modules
      example_pdu_processor 0 (echo_state ''0'' 0) of
      None \<Rightarrow> None
    | Some (r, s') \<Rightarrow> map_option (\<lambda>c. st_data (stream_out c)) (g_context_list s' 0)) = Some [] \<and>
   (case htparse_rdbody example_config late_env example_modules
      example_pdu_processor 0 (echo_state ''0'' 0) of
      None \<Rightarrow> None
    | Some (r, s') \<Rightarrow> map_option (\<lambda>c. take 12 (st_data (stream_out c))) (g_context_list s' 0))
     = Some ''HTTP/1.1 408''"
proof -
  let ?c = "(authed_request_context ''/rpc/rpcproxy.dll?h:6001'' ''0'')
      \<lparr>host := ''h'', port := 6001, total_length := 0, bytes_rw := 0,
       sched_stat := SCHED_STAT_RDBODY\<rparr>"
  have c: "g_context_list (echo_state ''0'' 0) 0 = Some ?c"
    by (simp add: echo_state_def echo_zero_delegate)
  have p: "pchannel ?c = None"
    by (simp add: authed_request_context_def cleared_context_def)
  have n1: "htparse_rdbody_nochan example_config example_env example_modules
      example_pdu_processor ?c = (TPROC_POLLING_RDONLY, ?c)"
    by (simp add: htparse_rdbody_nochan_def htparse_rdbody_nochan2_def
        stream_get_write_buf_def example_env_def example_config_def timed_out_def
        authed_request_context_def cleared_context_def Let_def)
  have n2: "htparse_rdbody_nochan example_config late_env example_modules
      example_pdu_processor ?c = http_done late_env ?c 408"
    by (simp add: htparse_rdbody_nochan_def htparse_rdbody_nochan2_def
        stream_get_write_buf_def example_env_def example_config_def timed_out_def
        authed_request_context_def cleared_context_def Let_def late_env_def
        http_done_fields)
  show ?thesis
    unfolding htparse_rdbody_nochan_lift [OF c p] n1 n2
    by (simp add: example_services_def c_str_def NUL_def http_done_fields error_page_head
        authed_request_context_def cleared_context_def stream_init_def)
qed

subsection \<open>The fragment header\<close>

lemma stream_get_read_buf_front:
  assumes "st_rd st = 0" "st_data st = data" "data \<noteq> []" "length data \<le> bs"
  shows "stream_get_read_buf bs bs st = (Some data, st\<lparr>st_rd := length data\<rparr>)"
  using assms by (auto simp: stream_get_read_buf_def Let_def min_def)

lemma stream_rewind_front:
  "st_rd st = 0 \<Longrightarrow> stream_rewind_read_ptr n (st\<lparr>st_rd := n\<rparr>) = st"
  by (simp add: stream_rewind_read_ptr_def)

lemma read_frag_length_eq:
  assumes "DCERPC_FRAG_LEN_OFFSET cfg + 2 \<le> length data"
    "DCERPC_DREP_OFFSET cfg < length data"
  shows "read_frag_length cfg data = Some (header_frag_length cfg data)"
  using assms by (simp add: read_frag_length_def header_frag_length_def byte_at_def)

lemma set_chan_frag_length_Some:
  "chan_frag_length ctx = Some x \<Longrightarrow> \<exists>ctx'. set_chan_frag_length fl ctx = Some ctx'"
  by (auto simp: chan_frag_length_def set_chan_frag_length_def split: if_splits)

lemma chan_frag_length_stream_in [simp]:
  "chan_frag_length (ctx\<lparr>stream_in := st\<rparr>) = chan_frag_length ctx"
  "chan_frag_length (ctx\<lparr>bytes_rw := b\<rparr>) = chan_frag_length ctx"
  "chan_frag_length (ctx\<lparr>last_timestamp := t\<rparr>) = chan_frag_length ctx"
  "set_chan_frag_length fl (ctx\<lparr>stream_in := st\<rparr>) =
     map_option (\<lambda>c. c\<lparr>stream_in := st\<rparr>) (set_chan_frag_length fl ctx)"
  by (auto simp: chan_frag_length_def set_chan_frag_length_def in_chan_def out_chan_def
      split: option.splits channel.splits)

text \<open>
  C7, as amended. In \<^verbatim>\<open>htparse_rdbody\<close> on an IN or OUT channel whose channel has no
  fragment length yet, with the bytes \<^verbatim>\<open>data\<close> of the body buffered in the first
  block of the input stream: as soon as \<^verbatim>\<open>DCERPC_FRAG_LEN_OFFSET + 2\<close> bytes are
  buffered (the whole 16-bit length field, twelve bytes for the offset 10) the socket is
  left alone and the fragment length is read and noted in the channel, little-endian
  when the byte at \<^verbatim>\<open>DCERPC_DREP_OFFSET\<close> has the flag \<^verbatim>\<open>DCERPC_DREP_LE\<close>, big-endian
  otherwise; the step goes on with the PDU when all its bytes are there and returns
  \<^verbatim>\<open>cont\<close> when not. With fewer bytes buffered the header is not interpreted: the
  parser reads from the socket, appends what it got to the stream, polls when the
  socket has nothing, and a step over the short buffer returns without a fragment
  length.
\<close>

theorem rdbody_frag_length_needs_whole_length_field:
  assumes chan: "chan_frag_length ctx = Some 0"
    and front: "st_rd (stream_in ctx) = 0" "st_data (stream_in ctx) = data"
      "length data \<le> STREAM_BLOCK_SIZE cfg"
    and drep: "DCERPC_DREP_OFFSET cfg < DCERPC_FRAG_LEN_OFFSET cfg + 2"
  shows "(DCERPC_FRAG_LEN_OFFSET cfg + 2 \<le> length data \<longrightarrow>
            rdbody_read cfg e 0 ctx = Inr ctx \<and>
            (\<exists>ctx'. set_chan_frag_length (header_frag_length cfg data) ctx = Some ctx' \<and>
               chan_frag_length ctx' = Some (header_frag_length cfg data) \<and>
               rdbody_frag cfg 0 ctx =
                 Some (if length data < unat (header_frag_length cfg data)
                       then Inl (TPROC_CONT, ctx')
                       else Inr (ctx', data, header_frag_length cfg data)))) \<and>
         (length data < DCERPC_FRAG_LEN_OFFSET cfg + 2 \<longrightarrow>
            (data \<noteq> [] \<longrightarrow> rdbody_frag cfg 0 ctx = Some (Inl (TPROC_CONT, ctx))) \<and>
            (data = [] \<longrightarrow> rdbody_frag cfg 0 ctx = Some (Inl (TPROC_POLLING_RDONLY, ctx))) \<and>
            (alloc_ok e \<and> sock_read e = Read_eagain \<and> \<not> timed_out cfg e ctx \<longrightarrow>
               rdbody_read cfg e 0 ctx = Inl (TPROC_POLLING_RDONLY, ctx)) \<and>
            (\<forall>d. alloc_ok e \<and> sock_read e = Read_data d \<and>
               take (STREAM_BLOCK_SIZE cfg - length data mod STREAM_BLOCK_SIZE cfg) d \<noteq> [] \<and>
               \<not> total_length ctx < bytes_rw ctx + of_nat (length
                    (take (STREAM_BLOCK_SIZE cfg - length data mod STREAM_BLOCK_SIZE cfg) d)) \<longrightarrow>
               (\<exists>ctx'. rdbody_read cfg e 0 ctx = Inr ctx' \<and>
                  chan_frag_length ctx' = Some 0 \<and>
                  st_data (stream_in ctx') =
                    data @ take (STREAM_BLOCK_SIZE cfg - length data mod STREAM_BLOCK_SIZE cfg) d)))"
proof (intro conjI impI allI)
  assume len: "DCERPC_FRAG_LEN_OFFSET cfg + 2 \<le> length data"
  show "rdbody_read cfg e 0 ctx = Inr ctx"
    using len front by (simp add: rdbody_read_def stream_get_total_length_def)
  from len have ne: "data \<noteq> []" by auto
  from set_chan_frag_length_Some [OF chan] obtain ctx' where
    c': "set_chan_frag_length (header_frag_length cfg data) ctx = Some ctx'" by blast
  have cf: "chan_frag_length ctx' = Some (header_frag_length cfg data)"
    using c' chan
    by (auto simp: chan_frag_length_def set_chan_frag_length_def split: if_splits)
  have rf: "read_frag_length cfg data = Some (header_frag_length cfg data)"
    using len drep by (intro read_frag_length_eq) simp_all
  have si: "stream_in ctx' = stream_in ctx"
    using c' by (auto simp: set_chan_frag_length_def split: if_splits)
  have keep: "ctx'\<lparr>stream_in := stream_in ctx\<rparr> = ctx'"
    using si by (metis HTTP_CONTEXT.surjective HTTP_CONTEXT.update_convs(5))
  have "rdbody_frag cfg 0 ctx =
      Some (if length data < unat (header_frag_length cfg data)
            then Inl (TPROC_CONT, ctx')
            else Inr (ctx', data, header_frag_length cfg data))"
    using len ne front c' rf keep
    by (simp add: rdbody_frag_def stream_get_read_buf_front [OF front(1,2) ne front(3)]
        stream_rewind_front [OF front(1)] Let_def)
  with c' cf show "\<exists>ctx'. set_chan_frag_length (header_frag_length cfg data) ctx = Some ctx' \<and>
               chan_frag_length ctx' = Some (header_frag_length cfg data) \<and>
               rdbody_frag cfg 0 ctx =
                 Some (if length data < unat (header_frag_length cfg data)
                       then Inl (TPROC_CONT, ctx')
                       else Inr (ctx', data, header_frag_length cfg data))"
    by blast
next
  assume len: "length data < DCERPC_FRAG_LEN_OFFSET cfg + 2" and ne: "data \<noteq> []"
  have keep: "ctx\<lparr>stream_in := stream_in ctx\<rparr> = ctx" by simp
  show "rdbody_frag cfg 0 ctx = Some (Inl (TPROC_CONT, ctx))"
    using len ne
    by (simp add: rdbody_frag_def stream_get_read_buf_front [OF front(1,2) ne front(3)]
        stream_rewind_front [OF front(1)] Let_def)
next
  assume len: "length data < DCERPC_FRAG_LEN_OFFSET cfg + 2" and e: "data = []"
  show "rdbody_frag cfg 0 ctx = Some (Inl (TPROC_POLLING_RDONLY, ctx))"
    using e front by (simp add: rdbody_frag_def stream_get_read_buf_def Let_def)
next
  assume len: "length data < DCERPC_FRAG_LEN_OFFSET cfg + 2"
    and "alloc_ok e \<and> sock_read e = Read_eagain \<and> \<not> timed_out cfg e ctx"
  then show "rdbody_read cfg e 0 ctx = Inl (TPROC_POLLING_RDONLY, ctx)"
    using front by (simp add: rdbody_read_def stream_get_total_length_def
        stream_get_write_buf_def)
next
  fix d :: string
  let ?got = "take (STREAM_BLOCK_SIZE cfg - length data mod STREAM_BLOCK_SIZE cfg) d"
  assume len: "length data < DCERPC_FRAG_LEN_OFFSET cfg + 2"
    and r: "alloc_ok e \<and> sock_read e = Read_data d \<and> ?got \<noteq> [] \<and>
       \<not> total_length ctx < bytes_rw ctx + of_nat (length ?got)"
  then have "rdbody_read cfg e 0 ctx =
      Inr (ctx\<lparr>bytes_rw := bytes_rw ctx + of_nat (length ?got), last_timestamp := now e,
           stream_in := stream_fwd_write ?got (stream_in ctx)\<rparr>)"
    using front by (simp add: rdbody_read_def stream_get_total_length_def
        stream_get_write_buf_def received_def Let_def)
  then show "\<exists>ctx'. rdbody_read cfg e 0 ctx = Inr ctx' \<and>
                  chan_frag_length ctx' = Some 0 \<and>
                  st_data (stream_in ctx') = data @ ?got"
    using chan front by (simp add: stream_fwd_write_def)
qed

text \<open>The theorem at work on the twenty-byte PDU, whole in the buffer and with only
  its first five bytes there.\<close>

theorem rdbody_frag_length_needs_whole_length_field_witness:
  "rdbody_frag example_config 0 (buffered_in_context le_pdu) =
     Some (Inr ((buffered_in_context le_pdu)\<lparr>pchannel := Some (In_channel
        (new_in_channel\<lparr>ich_channel_cookie := ''in'', ich_connection_cookie := ''c'',
           ich_channel_stat := CHANNEL_STAT_OPENED, ich_frag_length := 20\<rparr>))\<rparr>, le_pdu, 20)) \<and>
   rdbody_read example_config example_env 0 (buffered_in_context le_pdu) =
     Inr (buffered_in_context le_pdu) \<and>
   rdbody_frag example_config 0 (buffered_in_context (take 5 le_pdu)) =
     Some (Inl (TPROC_CONT, buffered_in_context (take 5 le_pdu))) \<and>
   (\<exists>ctx'. rdbody_read example_config (example_env\<lparr>sock_read := Read_data (drop 5 le_pdu)\<rparr>) 0
        (buffered_in_context (take 5 le_pdu)) = Inr ctx' \<and>
      st_data (stream_in ctx') = le_pdu)"
proof -
  have h: "header_frag_length example_config le_pdu = 20"
    by (simp add: header_frag_length_def example_config_def le_pdu_def le16p_to_cpu_def)
  have c: "chan_frag_length (buffered_in_context d) = Some 0" for d
    by (simp add: buffered_in_context_def chan_frag_length_def in_chan_def
        example_state_defs)
  have s: "set_chan_frag_length fl (buffered_in_context d) =
      Some ((buffered_in_context d)\<lparr>pchannel := Some (In_channel
        (new_in_channel\<lparr>ich_channel_cookie := ''in'', ich_connection_cookie := ''c'',
           ich_channel_stat := CHANNEL_STAT_OPENED, ich_frag_length := fl\<rparr>))\<rparr>)" for fl d
    by (simp add: buffered_in_context_def set_chan_frag_length_def in_chan_def
        example_state_defs)
  have f: "st_rd (stream_in (buffered_in_context d)) = 0"
    "st_data (stream_in (buffered_in_context d)) = d" for d
    by (simp_all add: buffered_in_context_def)
  have l: "length le_pdu \<le> STREAM_BLOCK_SIZE example_config"
    "length (take 5 le_pdu) \<le> STREAM_BLOCK_SIZE example_config"
    "DCERPC_DREP_OFFSET example_config < DCERPC_FRAG_LEN_OFFSET example_config + 2"
    "DCERPC_FRAG_LEN_OFFSET example_config + 2 \<le> length le_pdu"
    "length (take 5 le_pdu) < DCERPC_FRAG_LEN_OFFSET example_config + 2"
    "take 5 le_pdu \<noteq> []"
    by (simp_all add: example_config_def le_pdu_def)
  note long = rdbody_frag_length_needs_whole_length_field
    [where cfg = example_config and e = example_env and data = le_pdu, OF c f l(1,3)]
  note short = rdbody_frag_length_needs_whole_length_field
    [where cfg = example_config and data = "take 5 le_pdu"
      and e = "example_env\<lparr>sock_read := Read_data (drop 5 le_pdu)\<rparr>", OF c f l(2,3)]
  have r: "alloc_ok (example_env\<lparr>sock_read := Read_data (drop 5 le_pdu)\<rparr>)"
    "take (STREAM_BLOCK_SIZE example_config -
       length (take 5 le_pdu) mod STREAM_BLOCK_SIZE example_config) (drop 5 le_pdu) =
     drop 5 le_pdu"
    "drop 5 le_pdu \<noteq> []"
    "\<not> total_length (buffered_in_context (take 5 le_pdu)) <
       bytes_rw (buffered_in_context (take 5 le_pdu)) + of_nat (length (drop 5 le_pdu))"
    by (simp_all add: example_env_def example_config_def le_pdu_def buffered_in_context_def
        example_state_defs)
  from long l(4) h s have 1: "rdbody_frag example_config 0 (buffered_in_context le_pdu) =
     Some (Inr ((buffered_in_context le_pdu)\<lparr>pchannel := Some (In_channel
        (new_in_channel\<lparr>ich_channel_cookie := ''in'', ich_connection_cookie := ''c'',
           ich_channel_stat := CHANNEL_STAT_OPENED, ich_frag_length := 20\<rparr>))\<rparr>, le_pdu, 20))"
    by (simp add: le_pdu_def)
  from long l(4) have 2: "rdbody_read example_config example_env 0
      (buffered_in_context le_pdu) = Inr (buffered_in_context le_pdu)"
    by blast
  from short l(5,6) have 3: "rdbody_frag example_config 0 (buffered_in_context (take 5 le_pdu)) =
     Some (Inl (TPROC_CONT, buffered_in_context (take 5 le_pdu)))"
    by blast
  from short l(5) r have "\<exists>ctx'. rdbody_read example_config
        (example_env\<lparr>sock_read := Read_data (drop 5 le_pdu)\<rparr>) 0
        (buffered_in_context (take 5 le_pdu)) = Inr ctx' \<and>
      chan_frag_length ctx' = Some 0 \<and>
      st_data (stream_in ctx') = take 5 le_pdu @ drop 5 le_pdu"
    by simp
  then have 4: "\<exists>ctx'. rdbody_read example_config
        (example_env\<lparr>sock_read := Read_data (drop 5 le_pdu)\<rparr>) 0
        (buffered_in_context (take 5 le_pdu)) = Inr ctx' \<and>
      st_data (stream_in ctx') = le_pdu"
    by auto
  from 1 2 3 4 show ?thesis by blast
qed

text \<open>
  Ten buffered bytes are not enough. With the length at offset 10 the parser looks for
  twelve bytes: on ten (and on eleven) it goes to the socket again, and the step after a
  read that brought nothing new leaves the channel without a fragment length. With the
  layout of a DCE RPC header, where ten bytes do hold the length, the length is read
  from offset 8, and the bytes at offset 10 are another field.
\<close>

theorem rdbody_frag_length_ten_bytes_counterexample:
  "length (take 10 le_pdu) = 10 \<and>
   rdbody_read example_config example_env 0 (buffered_in_context (take 10 le_pdu)) =
     Inl (TPROC_POLLING_RDONLY, buffered_in_context (take 10 le_pdu)) \<and>
   rdbody_frag example_config 0 (buffered_in_context (take 10 le_pdu)) =
     Some (Inl (TPROC_CONT, buffered_in_context (take 10 le_pdu))) \<and>
   rdbody_frag example_config 0 (buffered_in_context (take 11 le_pdu)) =
     Some (Inl (TPROC_CONT, buffered_in_context (take 11 le_pdu))) \<and>
   chan_frag_length (buffered_in_context (take 10 le_pdu)) = Some 0 \<and>
   length dcerpc_header = 12 \<and>
   read_frag_length dcerpc_config dcerpc_header = Some 20 \<and>
   le16p_to_cpu (dcerpc_header ! 10) (dcerpc_header ! 11) = 0"
proof -
  have a: "rdbody_read example_config example_env 0 (buffered_in_context (take 10 le_pdu)) =
     Inl (TPROC_POLLING_RDONLY, buffered_in_context (take 10 le_pdu))"
    by (simp add: rdbody_read_def buffered_in_context_def stream_get_total_length_def
        stream_get_write_buf_def example_config_def example_env_def timed_out_def
        le_pdu_def example_state_defs Let_def)
  have b: "rdbody_frag example_config 0 (buffered_in_context (take 10 le_pdu)) =
     Some (Inl (TPROC_CONT, buffered_in_context (take 10 le_pdu)))"
    by (simp add: rdbody_frag_def buffered_in_context_def stream_get_read_buf_def
        stream_rewind_read_ptr_def example_config_def le_pdu_def Let_def)
  have c: "rdbody_frag example_config 0 (buffered_in_context (take 11 le_pdu)) =
     Some (Inl (TPROC_CONT, buffered_in_context (take 11 le_pdu)))"
    by (simp add: rdbody_frag_def buffered_in_context_def stream_get_read_buf_def
        stream_rewind_read_ptr_def example_config_def le_pdu_def Let_def)
  have d: "chan_frag_length (buffered_in_context (take 10 le_pdu)) = Some 0"
    by (simp add: buffered_in_context_def chan_frag_length_def in_chan_def
        example_state_defs)
  have e: "read_frag_length dcerpc_config dcerpc_header = Some 20"
    by (simp add: read_frag_length_def dcerpc_config_def example_config_def
        dcerpc_header_def byte_at_def le16p_to_cpu_def)
  have f: "le16p_to_cpu (dcerpc_header ! 10) (dcerpc_header ! 11) = 0"
    by (simp add: dcerpc_header_def le16p_to_cpu_def)
  from a b c d e f show ?thesis by (simp add: le_pdu_def dcerpc_header_def)
qed

subsection \<open>Accounting of the bytes written\<close>

lemma get_put_vconnection:
  assumes "http_parser_get_vconnection h pt c s = (r, sa)"
  shows "\<exists>sb. VCONN_REF_put r sa = Some sb \<and> g_context_list sb = g_context_list s"
  using assms
  by (auto simp: http_parser_get_vconnection_def VCONN_REF_put_def Let_def update_conv'
      split: option.splits if_splits)

lemma wrrep_next_pdu_keeps_account:
  assumes "pchannel ctx = Some (Out_channel hch)" "och_pcall hch \<noteq> None"
  shows "\<exists>r s' ctx' c'. wrrep_next_pdu pp p ctx s = Some (r, s') \<and>
           g_context_list s' p = Some ctx' \<and> pchannel ctx' = Some (Out_channel c') \<and>
           bytes_rw ctx' = bytes_rw ctx \<and>
           och_available_window c' = och_available_window hch \<and>
           och_bytes_sent c' = och_bytes_sent hch"
proof -
  obtain pc where pc: "och_pcall hch = Some pc" using assms(2) by blast
  have oc: "out_chan ctx = Some hch" using assms(1) by (simp add: out_chan_def)
  obtain r s1 where g: "http_parser_get_vconnection (host ctx) (port ctx)
      (och_connection_cookie hch) (set_ctx p ctx s) = (r, s1)"
    by (cases "http_parser_get_vconnection (host ctx) (port ctx)
      (och_connection_cookie hch) (set_ctx p ctx s)") blast
  show ?thesis
  proof (cases r)
    case None
    with g have "s1 = (set_ctx p ctx s)\<lparr>trace := trace (set_ctx p ctx s) @
        [Lock_registry, Unlock_registry]\<rparr>"
      using get_vconnection_None(2) by blast
    then have "g_context_list s1 p = Some ctx" by simp
    moreover have "wrrep_next_pdu pp p ctx s = Some (TPROC_RUNOFF, s1)"
      using g None oc by (simp add: wrrep_next_pdu_def)
    ultimately show ?thesis using assms(1) by blast
  next
    case (Some k)
    have put: "\<exists>sb. VCONN_REF_put (Some k) (set_ctx p c1 s1) = Some sb \<and>
        g_context_list sb p = Some c1" for c1
    proof -
      from g Some obtain vc where "map_of (g_vconnection_hash s1) k = Some vc"
        using get_vconnection_Some(2) by blast
      then show ?thesis
        by (auto simp: VCONN_REF_put_def Let_def split: option.splits)
    qed
    have "\<exists>c1. (case och_pdu_list (hch\<lparr>och_pdu_list := tl (och_pdu_list hch)\<rparr>) of
                   pnode # rest \<Rightarrow>
                     Some (ctx\<lparr>pchannel := Some (Out_channel (hch\<lparr>och_pdu_list := tl (och_pdu_list hch)\<rparr>)),
                              write_buff := Some (blob pnode),
                              write_length := int (length (blob pnode))\<rparr>)
                 | [] \<Rightarrow>
                     if 0 < total_length ctx \<and>
                        total_length ctx - bytes_rw ctx \<le> MAX_RECLYING_REMAINING \<and>
                        \<not> och_b_obsolete (hch\<lparr>och_pdu_list := tl (och_pdu_list hch)\<rparr>) then
                       do {
                         pc \<leftarrow> och_pcall (hch\<lparr>och_pdu_list := tl (och_pdu_list hch)\<rparr>);
                         (case pdu_processor_rts_outr2_a2 pp pc of
                            (True, pc') \<Rightarrow>
                              Some (ctx\<lparr>pchannel := Some (Out_channel
                                ((hch\<lparr>och_pdu_list := tl (och_pdu_list hch)\<rparr>)\<lparr>och_pcall := Some (pc'\<lparr>reply_list := []\<rparr>),
                                      och_pdu_list := pdu_processor_output_pdu pc' (och_pdu_list (hch\<lparr>och_pdu_list := tl (och_pdu_list hch)\<rparr>)),
                                      och_b_obsolete := True\<rparr>))\<rparr>)
                          | (False, pc') \<Rightarrow>
                              Some (ctx\<lparr>pchannel := Some (Out_channel
                                ((hch\<lparr>och_pdu_list := tl (och_pdu_list hch)\<rparr>)\<lparr>och_pcall := Some pc'\<rparr>))\<rparr>))
                       }
                     else Some (ctx\<lparr>pchannel := Some (Out_channel (hch\<lparr>och_pdu_list := tl (och_pdu_list hch)\<rparr>)),
                                  sched_stat := SCHED_STAT_WAIT\<rparr>)) = Some c1 \<and>
        (\<exists>c'. pchannel c1 = Some (Out_channel c') \<and> bytes_rw c1 = bytes_rw ctx \<and>
           och_available_window c' = och_available_window hch \<and>
           och_bytes_sent c' = och_bytes_sent hch)"
    proof (cases "tl (och_pdu_list hch)")
      case Nil
      obtain b pc' where "pdu_processor_rts_outr2_a2 pp pc = (b, pc')"
        by (cases "pdu_processor_rts_outr2_a2 pp pc") blast
      then show ?thesis using Nil pc by (cases b) simp_all
    next
      case (Cons a list)
      then show ?thesis by simp
    qed
    then obtain c1 where c1: "(case och_pdu_list (hch\<lparr>och_pdu_list := tl (och_pdu_list hch)\<rparr>) of
                   pnode # rest \<Rightarrow>
                     Some (ctx\<lparr>pchannel := Some (Out_channel (hch\<lparr>och_pdu_list := tl (och_pdu_list hch)\<rparr>)),
                              write_buff := Some (blob pnode),
                              write_length := int (length (blob pnode))\<rparr>)
                 | [] \<Rightarrow>
                     if 0 < total_length ctx \<and>
                        total_length ctx - bytes_rw ctx \<le> MAX_RECLYING_REMAINING \<and>
                        \<not> och_b_obsolete (hch\<lparr>och_pdu_list := tl (och_pdu_list hch)\<rparr>) then
                       do {
                         pc \<leftarrow> och_pcall (hch\<lparr>och_pdu_list := tl (och_pdu_list hch)\<rparr>);
                         (case pdu_processor_rts_outr2_a2 pp pc of
                            (True, pc') \<Rightarrow>
                              Some (ctx\<lparr>pchannel := Some (Out_channel
                                ((hch\<lparr>och_pdu_list := tl (och_pdu_list hch)\<rparr>)\<lparr>och_pcall := Some (pc'\<lparr>reply_list := []\<rparr>),
                                      och_pdu_list := pdu_processor_output_pdu pc' (och_pdu_list (hch\<lparr>och_pdu_list := tl (och_pdu_list hch)\<rparr>)),
                                      och_b_obsolete := True\<rparr>))\<rparr>)
                          | (False, pc') \<Rightarrow>
                              Some (ctx\<lparr>pchannel := Some (Out_channel
                                ((hch\<lparr>och_pdu_list := tl (och_pdu_list hch)\<rparr>)\<lparr>och_pcall := Some pc'\<rparr>))\<rparr>))
                       }
                     else Some (ctx\<lparr>pchannel := Some (Out_channel (hch\<lparr>och_pdu_list := tl (och_pdu_list hch)\<rparr>)),
                                  sched_stat := SCHED_STAT_WAIT\<rparr>)) = Some c1"
      and c1p: "\<exists>c'. pchannel c1 = Some (Out_channel c') \<and> bytes_rw c1 = bytes_rw ctx \<and>
           och_available_window c' = och_available_window hch \<and>
           och_bytes_sent c' = och_bytes_sent hch"
      by blast
    from put [of c1] obtain sb where sb: "VCONN_REF_put (Some k) (set_ctx p c1 s1) = Some sb"
      "g_context_list sb p = Some c1" by blast
    have "wrrep_next_pdu pp p ctx s = Some (TPROC_CONT, sb)"
      using g Some oc c1 sb(1) by (simp add: wrrep_next_pdu_def Let_def)
    with sb(2) c1p show ?thesis by blast
  qed
qed

lemma word32_of_nat_neq_0:
  assumes "0 < n" "n \<le> unat (w :: 32 word)"
  shows "(of_nat n :: 32 word) \<noteq> 0" "unat (w - of_nat n) = unat w - n"
proof -
  have "unat w < 2 ^ 32" using unsigned_less [of w] by simp
  with assms have lt: "n < 2 ^ 32" by simp
  then have u: "unat (of_nat n :: 32 word) = n" by (simp add: unat_of_nat take_bit_nat_eq_self)
  with assms(1) show "(of_nat n :: 32 word) \<noteq> 0" by (metis less_numeral_extra(3) unat_0)
  from u assms(2) have "(of_nat n :: 32 word) \<le> w" by (simp add: word_le_nat_alt)
  then show "unat (w - of_nat n) = unat w - n" using u by (simp add: unat_sub)
qed

text \<open>The account of a write from a context that has its buffer.\<close>

lemma wrrep_counts_with_buffer:
  assumes ctx: "g_context_list s p = Some ctx"
    and buf: "write_buff ctx \<noteq> None"
    and out: "channel_type ctx = CHANNEL_TYPE_OUT" "pchannel ctx = Some (Out_channel c)"
      "och_channel_stat c = CHANNEL_STAT_OPENED"
    and head: "och_pdu_list c = pnode # rest"
    and pcall: "och_pcall c \<noteq> None"
    and window: "\<not> och_available_window c < 1024"
    and wr: "sock_write e = Written m"
    and n: "n = min m (nat (min (write_length ctx - write_offset ctx)
                (uint (och_available_window c))))" "0 < n"
  shows "\<exists>r s' ctx' c'. htparse_wrrep cfg e md pp p s = Some (r, s') \<and>
      g_context_list s' p = Some ctx' \<and> pchannel ctx' = Some (Out_channel c') \<and>
      bytes_rw ctx' = bytes_rw ctx + of_nat n \<and>
      ((och_available_window c' = och_available_window c - of_nat n \<and>
        och_bytes_sent c' = och_bytes_sent c + of_nat n) \<longleftrightarrow> \<not> b_rts pnode) \<and>
      (\<not> b_rts pnode \<longrightarrow> unat (och_available_window c') = unat (och_available_window c) - n) \<and>
      (b_rts pnode \<longrightarrow> och_available_window c' = och_available_window c \<and>
        och_bytes_sent c' = och_bytes_sent c)"
proof -
  define c1 where "c1 = (if \<not> b_rts pnode
      then c\<lparr>och_available_window := och_available_window c - of_nat n,
             och_bytes_sent := och_bytes_sent c + of_nat n\<rparr> else c)"
  define ctx1 where "ctx1 = ctx\<lparr>last_timestamp := now e,
      write_offset := write_offset ctx + int n, bytes_rw := bytes_rw ctx + of_nat n\<rparr>"
  define ctx2 where "ctx2 = ctx1\<lparr>pchannel := Some (Out_channel c1)\<rparr>"
  have oc: "out_chan ctx = Some c" using out(2) by (simp add: out_chan_def)
  have op: "out_opened ctx = Some True" using out oc by (simp add: out_opened_def)
  have "n \<le> nat (min (write_length ctx - write_offset ctx) (uint (och_available_window c)))"
    unfolding n(1) by (rule min.cobounded2)
  also have "\<dots> \<le> nat (uint (och_available_window c))"
    by (rule nat_mono) (rule min.cobounded2)
  finally have nle: "n \<le> unat (och_available_window c)" by simp
  note w32 = word32_of_nat_neq_0 [OF n(2) nle]
  have acc: "wrrep_account n c = Some c1"
    using head by (simp add: wrrep_account_def c1_def)
  have wl1: "wrrep_clamp (Some c) (write_length ctx - write_offset ctx) =
      min (write_length ctx - write_offset ctx) (uint (och_available_window c))"
  proof (cases "0 \<le> write_length ctx - write_offset ctx")
    case True
    then show ?thesis by (simp add: wrrep_clamp_def min_def)
  next
    case False
    have "0 \<le> uint (och_available_window c)" by simp
    with False have "write_length ctx - write_offset ctx \<le> uint (och_available_window c)"
      by linarith
    with False show ?thesis by (simp add: wrrep_clamp_def min_def)
  qed
  obtain b where b: "write_buff ctx = Some b" using buf by blast
  have res: "wrrep_write e ctx (wrrep_clamp (Some c) (write_length ctx - write_offset ctx)) =
      Written n"
    unfolding wl1 n(1) using b wr by (simp add: wrrep_write_def)
  have n0: "n \<noteq> 0" using n(2) by simp
  obtain r sa where g: "http_parser_get_vconnection (host ctx1) (port ctx1)
      (och_connection_cookie c) s = (r, sa)"
    by (cases "http_parser_get_vconnection (host ctx1) (port ctx1)
      (och_connection_cookie c) s") blast
  from get_put_vconnection [OF g] obtain sb where
    sb: "VCONN_REF_put r sa = Some sb" "g_context_list sb = g_context_list s" by blast
  have c1w: "((och_available_window c1 = och_available_window c - of_nat n \<and>
        och_bytes_sent c1 = och_bytes_sent c + of_nat n) \<longleftrightarrow> \<not> b_rts pnode) \<and>
      (\<not> b_rts pnode \<longrightarrow> unat (och_available_window c1) = unat (och_available_window c) - n) \<and>
      (b_rts pnode \<longrightarrow> och_available_window c1 = och_available_window c \<and>
        och_bytes_sent c1 = och_bytes_sent c)"
    using w32 by (simp add: c1_def)
  have c1p: "och_pcall c1 \<noteq> None" using pcall by (simp add: c1_def)
  have step: "htparse_wrrep cfg e md pp p s =
      (if write_offset ctx2 < write_length ctx2 then Some (TPROC_CONT, set_ctx p ctx2 sb)
       else wrrep_next_pdu pp p
              (ctx2\<lparr>write_offset := 0, write_buff := None, write_length := 0\<rparr>) sb)"
    using ctx b op oc window res n0 g acc sb(1)
    by (simp add: htparse_wrrep_def Let_def ctx1_def [symmetric] ctx2_def [symmetric])
  show ?thesis
  proof (cases "write_offset ctx2 < write_length ctx2")
    case True
    with step have "htparse_wrrep cfg e md pp p s = Some (TPROC_CONT, set_ctx p ctx2 sb)"
      by simp
    moreover have "g_context_list (set_ctx p ctx2 sb) p = Some ctx2" by simp
    moreover have "pchannel ctx2 = Some (Out_channel c1)"
      "bytes_rw ctx2 = bytes_rw ctx + of_nat n"
      by (simp_all add: ctx2_def ctx1_def)
    ultimately show ?thesis using c1w by blast
  next
    case False
    let ?ctx3 = "ctx2\<lparr>write_offset := 0, write_buff := None, write_length := 0\<rparr>"
    have p3: "pchannel ?ctx3 = Some (Out_channel c1)" by (simp add: ctx2_def)
    from wrrep_next_pdu_keeps_account [OF p3 c1p, of pp p sb]
    obtain r' s' ctx' c' where k: "wrrep_next_pdu pp p ?ctx3 sb = Some (r', s')"
      "g_context_list s' p = Some ctx'" "pchannel ctx' = Some (Out_channel c')"
      "bytes_rw ctx' = bytes_rw ?ctx3"
      "och_available_window c' = och_available_window c1"
      "och_bytes_sent c' = och_bytes_sent c1"
      by blast
    from step False k(1) have "htparse_wrrep cfg e md pp p s = Some (r', s')" by simp
    moreover have "bytes_rw ctx' = bytes_rw ctx + of_nat n"
      using k(4) by (simp add: ctx2_def ctx1_def)
    ultimately show ?thesis using k(2,3,5,6) c1w by (metis (no_types, lifting))
  qed
qed

lemma wrrep_nobuf_loads_head:
  assumes ctx0: "g_context_list s p = Some ctx0"
    and md: "wrrep_nobuf_modules e md ctx0 = Inr cm"
    and out: "channel_type cm = CHANNEL_TYPE_OUT" "pchannel cm = Some (Out_channel c)"
      "och_channel_stat c = CHANNEL_STAT_OPENED"
    and head: "och_pdu_list c = pnode # rest"
    and vc: "map_of (g_vconnection_hash s)
        (vconn_key (host cm) (port cm) (och_connection_cookie c)) \<noteq> None"
  shows "\<exists>s2. htparse_wrrep_nobuf cfg e md p s = Some (TPROC_RUNOFF, s2) \<and>
      g_context_list s2 = (g_context_list s)(p \<mapsto> cm\<lparr>write_offset := 0,
        write_buff := Some (blob pnode), write_length := int (length (blob pnode))\<rparr>)"
proof -
  let ?cn = "cm\<lparr>write_offset := 0\<rparr>"
  let ?k = "vconn_key (host cm) (port cm) (och_connection_cookie c)"
  from vc obtain v where v: "map_of (g_vconnection_hash s) ?k = Some v" by blast
  have oc: "out_chan ?cn = Some c" using out(2) by (simp add: out_chan_def)
  have op: "out_opened ?cn = Some True" using out oc by (simp add: out_opened_def)
  obtain s1 where g: "http_parser_get_vconnection (host ?cn) (port ?cn)
      (och_connection_cookie c) (set_ctx p ?cn s) = (Some ?k, s1)"
    and s1: "g_context_list s1 = g_context_list (set_ctx p ?cn s)"
      "map_of (g_vconnection_hash s1) ?k = Some (v\<lparr>reference := reference v + 1\<rparr>)"
    using v by (simp add: http_parser_get_vconnection_def Let_def update_conv')
  let ?cl = "?cn\<lparr>write_buff := Some (blob pnode), write_length := int (length (blob pnode))\<rparr>"
  have "\<exists>s2. VCONN_REF_put (Some ?k) (set_ctx p ?cl s1) = Some s2 \<and>
      g_context_list s2 = g_context_list (set_ctx p ?cl s1)"
    using s1(2) by (auto simp: VCONN_REF_put_def Let_def)
  then obtain s2 where p2: "VCONN_REF_put (Some ?k) (set_ctx p ?cl s1) = Some s2"
    and c2: "g_context_list s2 = g_context_list (set_ctx p ?cl s1)" by blast
  have "htparse_wrrep_nobuf cfg e md p s = Some (TPROC_RUNOFF, s2)"
    using ctx0 md op oc g head p2 by (simp add: htparse_wrrep_nobuf_def Let_def)
  moreover have "g_context_list s2 = (g_context_list s)(p \<mapsto> ?cl)"
    using c2 s1(1) by simp
  ultimately show ?thesis by simp
qed

lemma htparse_wrrep_after_nobuf:
  assumes "g_context_list s p = Some ctx0" "write_buff ctx0 = None"
    and "htparse_wrrep_nobuf cfg e md p s = Some (TPROC_RUNOFF, s2)"
    and "g_context_list s2 p = Some ctx" "write_buff ctx = Some b"
  shows "htparse_wrrep cfg e md pp p s = htparse_wrrep cfg e md pp p s2"
  by (simp add: htparse_wrrep_def assms)

text \<open>
  C8. In \<^verbatim>\<open>htparse_wrrep\<close> on an OUT channel in the state OPENED (which has the call
  it was opened with), with a window of at least 1024 bytes and a PDU at the head of
  the queue, the write is made from the context \<^verbatim>\<open>ctx\<close>: the context as the step
  finds it when it has a buffer, and otherwise the context after
  \<^verbatim>\<open>htparse_wrrep_nobuf\<close> has made the blob at the head of the queue the buffer (the
  module in charge, if any, having let the step pass, and the connection being in the
  registry). A write that the socket accepts for \<^verbatim>\<open>n > 0\<close> bytes (never more than what
  is left of the buffer, nor more than the window) ends with the bytes counted for the
  context, and the channel's \<^verbatim>\<open>available_window\<close> is decreased by \<^verbatim>\<open>n\<close> and its
  \<^verbatim>\<open>bytes_sent\<close> increased by \<^verbatim>\<open>n\<close> (in 32 bits) if, and only if, the node at the head
  of the queue is not marked \<^verbatim>\<open>b_rts\<close>; when it is marked, both counters keep their
  values. What the step does next to the queue does not touch the counters.
\<close>

theorem htparse_wrrep_counts_bytes_unless_rts:
  assumes ctx0: "g_context_list s p = Some ctx0"
    and start: "write_buff ctx0 \<noteq> None \<and> ctx = ctx0 \<or>
       write_buff ctx0 = None \<and>
       (\<exists>cm. wrrep_nobuf_modules e md ctx0 = Inr cm \<and>
          ctx = cm\<lparr>write_offset := 0, write_buff := Some (blob pnode),
                   write_length := int (length (blob pnode))\<rparr>) \<and>
       map_of (g_vconnection_hash s)
         (vconn_key (host ctx) (port ctx) (och_connection_cookie c)) \<noteq> None"
    and out: "channel_type ctx = CHANNEL_TYPE_OUT" "pchannel ctx = Some (Out_channel c)"
      "och_channel_stat c = CHANNEL_STAT_OPENED"
    and head: "och_pdu_list c = pnode # rest"
    and pcall: "och_pcall c \<noteq> None"
    and window: "\<not> och_available_window c < 1024"
    and wr: "sock_write e = Written m"
    and n: "n = min m (nat (min (write_length ctx - write_offset ctx)
                (uint (och_available_window c))))" "0 < n"
  shows "\<exists>r s' ctx' c'. htparse_wrrep cfg e md pp p s = Some (r, s') \<and>
      g_context_list s' p = Some ctx' \<and> pchannel ctx' = Some (Out_channel c') \<and>
      bytes_rw ctx' = bytes_rw ctx + of_nat n \<and>
      ((och_available_window c' = och_available_window c - of_nat n \<and>
        och_bytes_sent c' = och_bytes_sent c + of_nat n) \<longleftrightarrow> \<not> b_rts pnode) \<and>
      (\<not> b_rts pnode \<longrightarrow> unat (och_available_window c') = unat (och_available_window c) - n) \<and>
      (b_rts pnode \<longrightarrow> och_available_window c' = och_available_window c \<and>
        och_bytes_sent c' = och_bytes_sent c)"
proof (cases "write_buff ctx0 = None")
  case False
  with start have e: "ctx = ctx0" by blast
  from False e have buf: "write_buff ctx \<noteq> None" by simp
  from wrrep_counts_with_buffer
    [OF ctx0 [folded e] buf out head pcall window wr n]
  show ?thesis .
next
  case True
  with start obtain cm where md: "wrrep_nobuf_modules e md ctx0 = Inr cm"
    and c: "ctx = cm\<lparr>write_offset := 0, write_buff := Some (blob pnode),
                   write_length := int (length (blob pnode))\<rparr>"
    and vc: "map_of (g_vconnection_hash s)
         (vconn_key (host ctx) (port ctx) (och_connection_cookie c)) \<noteq> None"
    by blast
  have o: "channel_type cm = CHANNEL_TYPE_OUT" "pchannel cm = Some (Out_channel c)"
    using out(1,2) by (simp_all add: c)
  have vc': "map_of (g_vconnection_hash s)
        (vconn_key (host cm) (port cm) (och_connection_cookie c)) \<noteq> None"
    using vc by (simp add: c)
  from wrrep_nobuf_loads_head [OF ctx0 md o out(3) head vc', of cfg]
  obtain s2 where nb: "htparse_wrrep_nobuf cfg e md p s = Some (TPROC_RUNOFF, s2)"
    and c2: "g_context_list s2 = (g_context_list s)(p \<mapsto> ctx)"
    unfolding c by blast
  from c2 have c2': "g_context_list s2 p = Some ctx" by simp
  have buf': "write_buff ctx = Some (blob pnode)" by (simp add: c)
  then have buf: "write_buff ctx \<noteq> None" by simp
  have eq: "htparse_wrrep cfg e md pp p s = htparse_wrrep cfg e md pp p s2"
    by (rule htparse_wrrep_after_nobuf [OF ctx0 True nb c2' buf'])
  from wrrep_counts_with_buffer
    [OF c2' buf out head pcall window wr n, of cfg md pp]
  show ?thesis unfolding eq .
qed

text \<open>The theorem at work on a queue whose only node is the twenty-byte PDU, as data
  and as RTS, from a context that has its buffer and from one that has to load it.\<close>

theorem htparse_wrrep_counts_bytes_unless_rts_witness:
  "(\<exists>r s' ctx' c'.
      htparse_wrrep example_config writable_env example_modules example_pdu_processor 2
        (writing_state [\<lparr>blob = le_pdu, b_rts = False\<rparr>]) = Some (r, s') \<and>
      g_context_list s' 2 = Some ctx' \<and> pchannel ctx' = Some (Out_channel c') \<and>
      och_available_window c' = 65516 \<and> och_bytes_sent c' = 20) \<and>
   (\<exists>r s' ctx' c'.
      htparse_wrrep example_config writable_env example_modules example_pdu_processor 2
        (writing_state [\<lparr>blob = le_pdu, b_rts = True\<rparr>]) = Some (r, s') \<and>
      g_context_list s' 2 = Some ctx' \<and> pchannel ctx' = Some (Out_channel c') \<and>
      och_available_window c' = 65536 \<and> och_bytes_sent c' = 0) \<and>
   (\<exists>r s' ctx' c'.
      htparse_wrrep example_config writable_env example_modules example_pdu_processor 2
        (idle_writing_state [\<lparr>blob = le_pdu, b_rts = False\<rparr>]) = Some (r, s') \<and>
      g_context_list s' 2 = Some ctx' \<and> pchannel ctx' = Some (Out_channel c') \<and>
      och_available_window c' = 65516 \<and> och_bytes_sent c' = 20) \<and>
   (\<exists>r s' ctx' c'.
      htparse_wrrep example_config writable_env example_modules example_pdu_processor 2
        (idle_writing_state [\<lparr>blob = le_pdu, b_rts = True\<rparr>]) = Some (r, s') \<and>
      g_context_list s' 2 = Some ctx' \<and> pchannel ctx' = Some (Out_channel c') \<and>
      och_available_window c' = 65536 \<and> och_bytes_sent c' = 0)"
proof -
  let ?idle = "\<lambda>q. (writing_context q)\<lparr>write_buff := None, write_length := 0\<rparr>"
  let ?load = "\<lambda>f. (?idle [\<lparr>blob = le_pdu, b_rts = f\<rparr>])\<lparr>write_offset := 0,
      write_buff := Some (blob \<lparr>blob = le_pdu, b_rts = f\<rparr>),
      write_length := int (length (blob \<lparr>blob = le_pdu, b_rts = f\<rparr>))\<rparr>"
  have pre: "g_context_list (writing_state q) 2 = Some (writing_context q)"
    "g_context_list (idle_writing_state q) 2 = Some (?idle q)"
    "och_channel_stat (writing_channel q) = CHANNEL_STAT_OPENED"
    "och_pcall (writing_channel q) \<noteq> None"
    "\<not> och_available_window (writing_channel q) < 1024"
    "sock_write writable_env = Written 100"
    "och_pdu_list (writing_channel q) = q"
    "och_available_window (writing_channel q) = 65536"
    "och_bytes_sent (writing_channel q) = 0" for q
    by (simp_all add: writing_state_def idle_writing_state_def writing_context_def
        writing_channel_def writable_env_def example_state_defs)
  have h: "och_pdu_list (writing_channel [\<lparr>blob = le_pdu, b_rts = f\<rparr>]) =
      \<lparr>blob = le_pdu, b_rts = f\<rparr> # []" for f
    by (simp add: pre(7))
  have st: "write_buff (writing_context [\<lparr>blob = le_pdu, b_rts = f\<rparr>]) \<noteq> None \<and>
      writing_context [\<lparr>blob = le_pdu, b_rts = f\<rparr>] =
        writing_context [\<lparr>blob = le_pdu, b_rts = f\<rparr>] \<or>
      write_buff (writing_context [\<lparr>blob = le_pdu, b_rts = f\<rparr>]) = None \<and>
      (\<exists>cm. wrrep_nobuf_modules writable_env example_modules
           (writing_context [\<lparr>blob = le_pdu, b_rts = f\<rparr>]) = Inr cm \<and>
         writing_context [\<lparr>blob = le_pdu, b_rts = f\<rparr>] =
           cm\<lparr>write_offset := 0, write_buff := Some (blob \<lparr>blob = le_pdu, b_rts = f\<rparr>),
              write_length := int (length (blob \<lparr>blob = le_pdu, b_rts = f\<rparr>))\<rparr>) \<and>
      map_of (g_vconnection_hash (writing_state [\<lparr>blob = le_pdu, b_rts = f\<rparr>]))
        (vconn_key (host (writing_context [\<lparr>blob = le_pdu, b_rts = f\<rparr>]))
           (port (writing_context [\<lparr>blob = le_pdu, b_rts = f\<rparr>]))
           (och_connection_cookie (writing_channel [\<lparr>blob = le_pdu, b_rts = f\<rparr>]))) \<noteq> None" for f
    by (simp add: writing_context_def)
  have md: "wrrep_nobuf_modules writable_env example_modules
      (?idle [\<lparr>blob = le_pdu, b_rts = f\<rparr>]) = Inr (?idle [\<lparr>blob = le_pdu, b_rts = f\<rparr>])" for f
    by (simp add: wrrep_nobuf_modules_def writing_context_def cleared_context_def)
  have vk: "map_of (g_vconnection_hash (idle_writing_state [\<lparr>blob = le_pdu, b_rts = f\<rparr>]))
        (vconn_key (host (?load f)) (port (?load f))
           (och_connection_cookie (writing_channel [\<lparr>blob = le_pdu, b_rts = f\<rparr>]))) \<noteq> None" for f
    by (simp add: idle_writing_state_def writing_state_def writing_context_def
        writing_channel_def example_state_defs)
  have st': "write_buff (?idle [\<lparr>blob = le_pdu, b_rts = f\<rparr>]) \<noteq> None \<and>
      ?load f = ?idle [\<lparr>blob = le_pdu, b_rts = f\<rparr>] \<or>
      write_buff (?idle [\<lparr>blob = le_pdu, b_rts = f\<rparr>]) = None \<and>
      (\<exists>cm. wrrep_nobuf_modules writable_env example_modules
           (?idle [\<lparr>blob = le_pdu, b_rts = f\<rparr>]) = Inr cm \<and>
         ?load f =
           cm\<lparr>write_offset := 0, write_buff := Some (blob \<lparr>blob = le_pdu, b_rts = f\<rparr>),
              write_length := int (length (blob \<lparr>blob = le_pdu, b_rts = f\<rparr>))\<rparr>) \<and>
      map_of (g_vconnection_hash (idle_writing_state [\<lparr>blob = le_pdu, b_rts = f\<rparr>]))
        (vconn_key (host (?load f)) (port (?load f))
           (och_connection_cookie (writing_channel [\<lparr>blob = le_pdu, b_rts = f\<rparr>]))) \<noteq> None" for f
    using md [of f] vk [of f] by simp
  have o: "channel_type (writing_context q) = CHANNEL_TYPE_OUT"
    "pchannel (writing_context q) = Some (Out_channel (writing_channel q))" for q
    by (simp_all add: writing_context_def)
  have o': "channel_type (?load f) = CHANNEL_TYPE_OUT"
    "pchannel (?load f) =
       Some (Out_channel (writing_channel [\<lparr>blob = le_pdu, b_rts = f\<rparr>]))" for f
    by (simp_all add: writing_context_def)
  have n: "(20::nat) = min 100 (nat (min (write_length (writing_context [\<lparr>blob = le_pdu, b_rts = f\<rparr>]) -
      write_offset (writing_context [\<lparr>blob = le_pdu, b_rts = f\<rparr>]))
      (uint (och_available_window (writing_channel [\<lparr>blob = le_pdu, b_rts = f\<rparr>])))))" for f
    by (simp add: writing_context_def writing_channel_def example_state_defs le_pdu_def)
  have n': "(20::nat) = min 100 (nat (min (write_length (?load f) - write_offset (?load f))
      (uint (och_available_window (writing_channel [\<lparr>blob = le_pdu, b_rts = f\<rparr>])))))" for f
    by (simp add: writing_channel_def example_state_defs le_pdu_def)
  have z: "(0::nat) < 20" by simp
  have a: "\<exists>r s' ctx' c'.
      htparse_wrrep example_config writable_env example_modules example_pdu_processor 2
        (writing_state [\<lparr>blob = le_pdu, b_rts = False\<rparr>]) = Some (r, s') \<and>
      g_context_list s' 2 = Some ctx' \<and> pchannel ctx' = Some (Out_channel c') \<and>
      och_available_window c' = 65516 \<and> och_bytes_sent c' = 20"
  proof -
    from htparse_wrrep_counts_bytes_unless_rts
      [where cfg = example_config and e = writable_env and md = example_modules
         and pp = example_pdu_processor and p = 2 and m = 100 and n = 20,
       OF pre(1) st [of False] o pre(3) h pre(4-6) n [of False] z]
    obtain r s' ctx' c' where
      "htparse_wrrep example_config writable_env example_modules example_pdu_processor 2
        (writing_state [\<lparr>blob = le_pdu, b_rts = False\<rparr>]) = Some (r, s')"
      "g_context_list s' 2 = Some ctx'" "pchannel ctx' = Some (Out_channel c')"
      "och_available_window c' = 65516 \<and> och_bytes_sent c' = 20"
      by (auto simp: pre(8,9))
    then show ?thesis by blast
  qed
  have b: "\<exists>r s' ctx' c'.
      htparse_wrrep example_config writable_env example_modules example_pdu_processor 2
        (writing_state [\<lparr>blob = le_pdu, b_rts = True\<rparr>]) = Some (r, s') \<and>
      g_context_list s' 2 = Some ctx' \<and> pchannel ctx' = Some (Out_channel c') \<and>
      och_available_window c' = 65536 \<and> och_bytes_sent c' = 0"
  proof -
    from htparse_wrrep_counts_bytes_unless_rts
      [where cfg = example_config and e = writable_env and md = example_modules
         and pp = example_pdu_processor and p = 2 and m = 100 and n = 20,
       OF pre(1) st [of True] o pre(3) h pre(4-6) n [of True] z]
    obtain r s' ctx' c' where
      "htparse_wrrep example_config writable_env example_modules example_pdu_processor 2
        (writing_state [\<lparr>blob = le_pdu, b_rts = True\<rparr>]) = Some (r, s')"
      "g_context_list s' 2 = Some ctx'" "pchannel ctx' = Some (Out_channel c')"
      "och_available_window c' = 65536 \<and> och_bytes_sent c' = 0"
      by (auto simp: pre(8,9))
    then show ?thesis by blast
  qed
  have c: "\<exists>r s' ctx' c'.
      htparse_wrrep example_config writable_env example_modules example_pdu_processor 2
        (idle_writing_state [\<lparr>blob = le_pdu, b_rts = False\<rparr>]) = Some (r, s') \<and>
      g_context_list s' 2 = Some ctx' \<and> pchannel ctx' = Some (Out_channel c') \<and>
      och_available_window c' = 65516 \<and> och_bytes_sent c' = 20"
  proof -
    from htparse_wrrep_counts_bytes_unless_rts
      [where cfg = example_config and e = writable_env and md = example_modules
         and pp = example_pdu_processor and p = 2 and m = 100 and n = 20,
       OF pre(2) st' [of False] o' pre(3) h pre(4-6) n' [of False] z]
    obtain r s' ctx' c' where
      "htparse_wrrep example_config writable_env example_modules example_pdu_processor 2
        (idle_writing_state [\<lparr>blob = le_pdu, b_rts = False\<rparr>]) = Some (r, s')"
      "g_context_list s' 2 = Some ctx'" "pchannel ctx' = Some (Out_channel c')"
      "och_available_window c' = 65516 \<and> och_bytes_sent c' = 20"
      by (auto simp: pre(8,9))
    then show ?thesis by blast
  qed
  have d: "\<exists>r s' ctx' c'.
      htparse_wrrep example_config writable_env example_modules example_pdu_processor 2
        (idle_writing_state [\<lparr>blob = le_pdu, b_rts = True\<rparr>]) = Some (r, s') \<and>
      g_context_list s' 2 = Some ctx' \<and> pchannel ctx' = Some (Out_channel c') \<and>
      och_available_window c' = 65536 \<and> och_bytes_sent c' = 0"
  proof -
    from htparse_wrrep_counts_bytes_unless_rts
      [where cfg = example_config and e = writable_env and md = example_modules
         and pp = example_pdu_processor and p = 2 and m = 100 and n = 20,
       OF pre(2) st' [of True] o' pre(3) h pre(4-6) n' [of True] z]
    obtain r s' ctx' c' where
      "htparse_wrrep example_config writable_env example_modules example_pdu_processor 2
        (idle_writing_state [\<lparr>blob = le_pdu, b_rts = True\<rparr>]) = Some (r, s')"
      "g_context_list s' 2 = Some ctx'" "pchannel ctx' = Some (Out_channel c')"
      "och_available_window c' = 65536 \<and> och_bytes_sent c' = 0"
      by (auto simp: pre(8,9))
    then show ?thesis by blast
  qed
  from a b c d show ?thesis by blast
qed

subsection \<open>Flow control on the IN channel\<close>

lemma flow_acks_append [simp]: "flow_acks (xs @ ys) = flow_acks xs @ flow_acks ys"
  by (induction xs rule: flow_acks.induct) auto

lemma VCONN_REF_put_in_use:
  assumes "map_of (g_vconnection_hash t) k = Some vc" "pcontext_in vc \<noteq> None"
  shows "VCONN_REF_put (Some k) t =
     Some (t\<lparr>g_vconnection_hash :=
                AList.update k (vc\<lparr>reference := reference vc - 1\<rparr>) (g_vconnection_hash t),
             trace := trace t @ [Unlock_vconn k, Lock_registry, Unlock_registry]\<rparr>)"
  using assms by (auto simp: VCONN_REF_put_def vconn_removable_def Let_def)

text \<open>
  C1, as amended. On the opened IN channel of a connection that has a processor and an
  OUT channel (another context), a PDU of \<^verbatim>\<open>frag_length\<close> bytes that is forwarded to the
  PDU processor is counted: \<^verbatim>\<open>bytes_received\<close> grows by \<^verbatim>\<open>frag_length\<close> and the window
  shrinks by it (in 32 bits). When the processor has handed back a call and the window
  has fallen below half of the OUT channel's \<^verbatim>\<open>window_size\<close>, the window is set back to
  \<^verbatim>\<open>window_size\<close> and exactly one FlowControlAckWithDestination is built, with
  \<^verbatim>\<open>bytes_received\<close>, \<^verbatim>\<open>window_size\<close> and the channel cookie; it is queued on the OUT
  channel at once, the OUT context set to writing and signalled, when the processor's
  verdict is \<^verbatim>\<open>PDU_PROCESSOR_INPUT\<close>, and stays with the call otherwise. When the
  processor has handed back no call, or the window is still at least half of the
  window size, no acknowledgement is built, nothing is signalled, the OUT context is
  untouched, and the window is the old one less \<^verbatim>\<open>frag_length\<close>.
\<close>

theorem rdbody_forward_acknowledges_below_half_window:
  assumes ctx: "g_context_list s p = Some ctx" "pchannel ctx = Some (In_channel ich)"
    and vc: "map_of (g_vconnection_hash s)
        (vconn_key (host ctx) (port ctx) (ich_connection_cookie ich)) = Some vc"
      "pcontext_in vc = Some p" "pprocessor vc = Some pr"
    and out: "pcontext_out vc = Some po" "po \<noteq> p" "g_context_list s po = Some octx"
      "pchannel octx = Some (Out_channel och)"
    and inp: "pdu_processor_input pp pr (take (unat fl) pbuff) = (result, pcall)"
    and w: "w = ich_available_window ich - ucast fl"
    and br: "br = ich_bytes_received ich + ucast fl"
  shows "\<exists>pcall' s' ctx' ich' octx' och'.
      rdbody_forward pp p pbuff fl s = Some (Inr (result, pcall', s')) \<and>
      g_context_list s' p = Some ctx' \<and> pchannel ctx' = Some (In_channel ich') \<and>
      g_context_list s' po = Some octx' \<and> pchannel octx' = Some (Out_channel och') \<and>
      ich_bytes_received ich' = br \<and>
      (if pcall \<noteq> None \<and> w < och_window_size och div 2
       then ich_available_window ich' = och_window_size och \<and>
            flow_acks (new_events s s') = [(br, och_window_size och, ich_channel_cookie ich)] \<and>
            (\<forall>pc. pcall = Some pc \<longrightarrow>
               (if result = PDU_PROCESSOR_INPUT
                then och_pdu_list och' = och_pdu_list och @ reply_list
                       (pdu_processor_rts_flowcontrolack_withdestination pp pc br
                          (och_window_size och) (ich_channel_cookie ich)) \<and>
                     sched_stat octx' = SCHED_STAT_WRREP \<and>
                     signals (new_events s s') = [po]
                else pcall' = Some (pdu_processor_rts_flowcontrolack_withdestination pp pc br
                          (och_window_size och) (ich_channel_cookie ich)) \<and>
                     octx' = octx \<and> signals (new_events s s') = []))
       else ich_available_window ich' = w \<and> flow_acks (new_events s s') = [] \<and>
            signals (new_events s s') = [] \<and> pcall' = pcall \<and> octx' = octx)"
proof -
  let ?k = "vconn_key (host ctx) (port ctx) (ich_connection_cookie ich)"
  define s1 where "s1 = s\<lparr>g_vconnection_hash :=
      AList.update ?k (vc\<lparr>reference := reference vc + 1\<rparr>) (g_vconnection_hash s),
      trace := trace s @ [Lock_registry, Unlock_registry, Lock_vconn ?k]\<rparr>"
  have g: "http_parser_get_vconnection (host ctx) (port ctx) (ich_connection_cookie ich) s =
      (Some ?k, s1)"
    using vc(1) by (simp add: http_parser_get_vconnection_def Let_def s1_def)
  have s1f: "g_context_list s1 = g_context_list s"
    "map_of (g_vconnection_hash s1) ?k = Some (vc\<lparr>reference := reference vc + 1\<rparr>)"
    "trace s1 = trace s @ [Lock_registry, Unlock_registry, Lock_vconn ?k]"
    by (simp_all add: s1_def update_conv')
  have put: "VCONN_REF_put (Some ?k) t =
     Some (t\<lparr>g_vconnection_hash := AList.update ?k vc (g_vconnection_hash t),
             trace := trace t @ [Unlock_vconn ?k, Lock_registry, Unlock_registry]\<rparr>)"
    if "g_vconnection_hash t = g_vconnection_hash s1" for t
    using VCONN_REF_put_in_use [of t ?k "vc\<lparr>reference := reference vc + 1\<rparr>"] that s1f(2) vc(2)
    by simp
  have ic: "in_chan ctx = Some ich" using ctx(2) by (simp add: in_chan_def)
  have oc: "out_chan octx = Some och" using out(4) by (simp add: out_chan_def)
  have ev: "new_events s t = evs" if "trace t = trace s @ evs" for t evs
    using that by (simp add: new_events_def)
  show ?thesis
  proof (cases pcall)
    case None
    show ?thesis
      using ctx ic g s1f vc out oc inp None w br
      by (simp add: rdbody_forward_def Let_def put ev)
  next
    case (Some pc)
    show ?thesis
    proof (cases "w < och_window_size och div 2")
      case False
      show ?thesis
        using ctx ic g s1f vc out oc inp Some w br False
        by (simp add: rdbody_forward_def Let_def put ev)
    next
      case True
      show ?thesis
      proof (cases "result = PDU_PROCESSOR_INPUT")
        case r: True
        show ?thesis
          using ctx ic g s1f vc out oc inp Some w br True r
          by (simp add: rdbody_forward_def Let_def put ev pdu_processor_output_pdu_def)
      next
        case r: False
        show ?thesis
          using ctx ic g s1f vc out oc inp Some w br True r
          by (simp add: rdbody_forward_def Let_def put ev)
      qed
    qed
  qed
qed

lemma flow_state_facts:
  "g_context_list (flow_state fl aw) 0 = Some (flow_in_context fl aw)"
  "pchannel (flow_in_context fl aw) = Some (In_channel (flow_in_channel fl aw))"
  "map_of (g_vconnection_hash (flow_state fl aw))
     (vconn_key (host (flow_in_context fl aw)) (port (flow_in_context fl aw))
        (ich_connection_cookie (flow_in_channel fl aw))) = Some flow_vconn"
  "pcontext_in flow_vconn = Some 0" "pprocessor flow_vconn = Some 7"
  "pcontext_out flow_vconn = Some 2"
  "g_context_list (flow_state fl aw) 2 = Some flow_out_context"
  "pchannel flow_out_context = Some (Out_channel (writing_channel []))"
  "och_window_size (writing_channel []) = 65536"
  "och_pdu_list (writing_channel []) = []"
  "ich_available_window (flow_in_channel fl aw) = aw"
  "ich_bytes_received (flow_in_channel fl aw) = 65536 - aw"
  "ich_channel_cookie (flow_in_channel fl aw) = ''in''"
  by (simp_all add: flow_state_def flow_in_context_def flow_in_channel_def
      flow_out_context_def flow_vconn_def writing_channel_def buffered_in_context_def
      example_state_defs)

text \<open>The theorem at work: the window falls from 32780 to 32760 and is acknowledged;
  it falls from 40000 to 39980 and is not.\<close>

theorem rdbody_forward_acknowledges_below_half_window_witness:
  "(\<exists>pcall' s' ctx' ich' octx' och'.
      rdbody_forward example_pdu_processor 0 le_pdu 20 (flow_state 20 32780) =
        Some (Inr (PDU_PROCESSOR_INPUT, pcall', s')) \<and>
      g_context_list s' 0 = Some ctx' \<and> pchannel ctx' = Some (In_channel ich') \<and>
      g_context_list s' 2 = Some octx' \<and> pchannel octx' = Some (Out_channel och') \<and>
      ich_bytes_received ich' = 32776 \<and> ich_available_window ich' = 65536 \<and>
      flow_acks (new_events (flow_state 20 32780) s') = [(32776, 65536, ''in'')] \<and>
      och_pdu_list och' = [example_ack 32776 65536 ''in''] \<and>
      sched_stat octx' = SCHED_STAT_WRREP \<and>
      signals (new_events (flow_state 20 32780) s') = [2]) \<and>
   (\<exists>pcall' s' ctx' ich'.
      rdbody_forward example_pdu_processor 0 le_pdu 20 (flow_state 20 40000) =
        Some (Inr (PDU_PROCESSOR_INPUT, pcall', s')) \<and>
      g_context_list s' 0 = Some ctx' \<and> pchannel ctx' = Some (In_channel ich') \<and>
      g_context_list s' 2 = Some flow_out_context \<and>
      ich_bytes_received ich' = 25556 \<and> ich_available_window ich' = 39980 \<and>
      flow_acks (new_events (flow_state 20 40000) s') = [] \<and>
      signals (new_events (flow_state 20 40000) s') = [])"
proof -
  have i: "pdu_processor_input example_pdu_processor 7 (take (unat (20 :: 16 word)) le_pdu) =
      (PDU_PROCESSOR_INPUT, Some \<lparr>reply_list = []\<rparr>)"
    by (simp add: example_pdu_processor_def)
  have k: "reply_list (pdu_processor_rts_flowcontrolack_withdestination example_pdu_processor
      \<lparr>reply_list = []\<rparr> br aw c) = [example_ack br aw c]" for br aw c
    by (simp add: example_pdu_processor_def)
  have n: "(2 :: nat) \<noteq> 0" by simp
  have f: "g_context_list (flow_state 20 aw) 0 = Some (flow_in_context 20 aw)"
    "pchannel (flow_in_context 20 aw) = Some (In_channel (flow_in_channel 20 aw))"
    "map_of (g_vconnection_hash (flow_state 20 aw))
       (vconn_key (host (flow_in_context 20 aw)) (port (flow_in_context 20 aw))
          (ich_connection_cookie (flow_in_channel 20 aw))) = Some flow_vconn"
    "g_context_list (flow_state 20 aw) 2 = Some flow_out_context" for aw
    by (simp_all only: flow_state_facts)
  from rdbody_forward_acknowledges_below_half_window
    [where pp = example_pdu_processor and p = 0 and pbuff = le_pdu and fl = 20
       and po = 2 and pr = 7 and vc = flow_vconn and octx = flow_out_context
       and och = "writing_channel []" and result = PDU_PROCESSOR_INPUT
       and pcall = "Some \<lparr>reply_list = []\<rparr>",
     OF f(1-3) [of 32780] flow_state_facts(4-6) n f(4) [of 32780] flow_state_facts(8) i refl refl]
  obtain pcall' s' ctx' ich' octx' och' where
    "rdbody_forward example_pdu_processor 0 le_pdu 20 (flow_state 20 32780) =
        Some (Inr (PDU_PROCESSOR_INPUT, pcall', s'))"
    "g_context_list s' 0 = Some ctx'" "pchannel ctx' = Some (In_channel ich')"
    "g_context_list s' 2 = Some octx'" "pchannel octx' = Some (Out_channel och')"
    "ich_bytes_received ich' = 32776 \<and> ich_available_window ich' = 65536 \<and>
      flow_acks (new_events (flow_state 20 32780) s') = [(32776, 65536, ''in'')] \<and>
      och_pdu_list och' = [example_ack 32776 65536 ''in''] \<and>
      sched_stat octx' = SCHED_STAT_WRREP \<and>
      signals (new_events (flow_state 20 32780) s') = [2]"
    by (auto simp: flow_state_facts(9-13) k)
  then have a: "\<exists>pcall' s' ctx' ich' octx' och'.
      rdbody_forward example_pdu_processor 0 le_pdu 20 (flow_state 20 32780) =
        Some (Inr (PDU_PROCESSOR_INPUT, pcall', s')) \<and>
      g_context_list s' 0 = Some ctx' \<and> pchannel ctx' = Some (In_channel ich') \<and>
      g_context_list s' 2 = Some octx' \<and> pchannel octx' = Some (Out_channel och') \<and>
      ich_bytes_received ich' = 32776 \<and> ich_available_window ich' = 65536 \<and>
      flow_acks (new_events (flow_state 20 32780) s') = [(32776, 65536, ''in'')] \<and>
      och_pdu_list och' = [example_ack 32776 65536 ''in''] \<and>
      sched_stat octx' = SCHED_STAT_WRREP \<and>
      signals (new_events (flow_state 20 32780) s') = [2]"
    by blast
  from rdbody_forward_acknowledges_below_half_window
    [where pp = example_pdu_processor and p = 0 and pbuff = le_pdu and fl = 20
       and po = 2 and pr = 7 and vc = flow_vconn and octx = flow_out_context
       and och = "writing_channel []" and result = PDU_PROCESSOR_INPUT
       and pcall = "Some \<lparr>reply_list = []\<rparr>",
     OF f(1-3) [of 40000] flow_state_facts(4-6) n f(4) [of 40000] flow_state_facts(8) i refl refl]
  obtain pcall' s' ctx' ich' where
    "rdbody_forward example_pdu_processor 0 le_pdu 20 (flow_state 20 40000) =
        Some (Inr (PDU_PROCESSOR_INPUT, pcall', s'))"
    "g_context_list s' 0 = Some ctx'" "pchannel ctx' = Some (In_channel ich')"
    "g_context_list s' 2 = Some flow_out_context"
    "ich_bytes_received ich' = 25556 \<and> ich_available_window ich' = 39980 \<and>
      flow_acks (new_events (flow_state 20 40000) s') = [] \<and>
      signals (new_events (flow_state 20 40000) s') = []"
    by (auto simp: flow_state_facts(9-13))
  then have b: "\<exists>pcall' s' ctx' ich'.
      rdbody_forward example_pdu_processor 0 le_pdu 20 (flow_state 20 40000) =
        Some (Inr (PDU_PROCESSOR_INPUT, pcall', s')) \<and>
      g_context_list s' 0 = Some ctx' \<and> pchannel ctx' = Some (In_channel ich') \<and>
      g_context_list s' 2 = Some flow_out_context \<and>
      ich_bytes_received ich' = 25556 \<and> ich_available_window ich' = 39980 \<and>
      flow_acks (new_events (flow_state 20 40000) s') = [] \<and>
      signals (new_events (flow_state 20 40000) s') = []"
    by blast
  from a b show ?thesis by blast
qed

text \<open>The step of \<^verbatim>\<open>htparse_rdbody\<close> on that connection up to the verdict on
  transport signalling: the PDU is whole in the buffer, and its length is noted.\<close>

lemma flow_step_to_forward:
  "htparse_rdbody example_config example_env example_modules pp 0 (flow_state 0 aw) =
     (case pdu_processor_rts_input pp le_pdu 0 (flow_state 20 aw) of
        (result, pcall, s1) \<Rightarrow>
          rdbody_opened_in pp 0 le_pdu 20 result pcall s1 \<bind>
            (\<lambda>y. case y of Inl rs \<Rightarrow> Some rs
               | Inr (result', pcall', s2) \<Rightarrow>
                   rdbody_finish example_config example_env 0 20 result' pcall' s2))"
proof -
  have c: "chan_frag_length (flow_in_context 0 aw) = Some 0"
    by (simp add: flow_in_context_def flow_in_channel_def buffered_in_context_def
        chan_frag_length_def in_chan_def example_state_defs)
  have r: "rdbody_read example_config example_env 0 (flow_in_context 0 aw) =
      Inr (flow_in_context 0 aw)"
    by (simp add: rdbody_read_def flow_in_context_def buffered_in_context_def
        stream_get_total_length_def example_config_def le_pdu_def)
  have f: "rdbody_frag example_config 0 (flow_in_context 0 aw) =
      Some (Inr (flow_in_context 20 aw, le_pdu, 20))"
    by (simp add: rdbody_frag_def flow_in_context_def flow_in_channel_def
        buffered_in_context_def
        stream_get_read_buf_def stream_rewind_read_ptr_def example_config_def le_pdu_def
        read_frag_length_def byte_at_def le16p_to_cpu_def set_chan_frag_length_def
        in_chan_def example_state_defs Let_def)
  have l: "take 20 le_pdu = le_pdu" by (simp add: le_pdu_def)
  have t: "channel_type (flow_in_context 0 aw) = CHANNEL_TYPE_IN"
    by (simp add: flow_in_context_def buffered_in_context_def example_state_defs)
  have s: "set_ctx 0 (flow_in_context 20 aw) (flow_state 0 aw) = flow_state 20 aw"
    by (simp add: set_ctx_def flow_state_def fun_upd_twist)
  show ?thesis
    using c r f t
    by (simp add: htparse_rdbody_def flow_state_facts(1,2) l s)
qed

text \<open>With a processor that hands no call back, the PDU is forwarded and counted, and
  the step ends.\<close>

lemma flow_forward_silent:
  "rdbody_forward silent_pdu_processor 0 le_pdu 20 (flow_state 20 aw) =
     Some (Inr (PDU_PROCESSOR_INPUT, None,
       \<lparr>g_vconnection_hash = [(''c:6001:h'', flow_vconn)],
        g_context_list = [0 \<mapsto> (flow_in_context 20 aw)\<lparr>pchannel := Some (In_channel
             ((flow_in_channel 20 aw)\<lparr>ich_available_window := aw - 20,
                ich_bytes_received := 65536 - aw + 20\<rparr>))\<rparr>, 2 \<mapsto> flow_out_context],
        trace = [Lock_registry, Unlock_registry, Lock_vconn ''c:6001:h'',
                 Unlock_vconn ''c:6001:h'', Lock_registry, Unlock_registry]\<rparr>))"
  by (simp add: rdbody_forward_def flow_state_def silent_pdu_processor_def
      example_pdu_processor_def flow_in_context_def flow_in_channel_def
      buffered_in_context_def flow_vconn_def flow_out_context_def
      http_parser_get_vconnection_def VCONN_REF_put_def vconn_removable_def
      set_ctx_def in_chan_def example_state_defs Let_def fun_upd_twist)

lemma flow_finish_input:
  "rdbody_finish example_config example_env 0 20 PDU_PROCESSOR_INPUT pcall
       \<lparr>g_vconnection_hash = h,
        g_context_list = [0 \<mapsto> (flow_in_context 20 aw)\<lparr>pchannel := Some (In_channel ich)\<rparr>,
           2 \<mapsto> octx],
        trace = evs\<rparr> =
     Some (TPROC_CONT,
       \<lparr>g_vconnection_hash = h,
        g_context_list = [0 \<mapsto> (flow_in_context 20 aw)\<lparr>pchannel := Some (In_channel
             (ich\<lparr>ich_frag_length := 0\<rparr>)), stream_in := stream_init\<rparr>, 2 \<mapsto> octx],
        trace = evs\<rparr>)"
  by (simp add: rdbody_finish_def set_chan_frag_length_def in_chan_def
      flow_in_context_def buffered_in_context_def example_state_defs
      stream_fwd_read_ptr_def http_parser_reconstruct_stream_def stream_get_read_buf_def
      le_pdu_def set_ctx_def Let_def fun_upd_twist)

text \<open>
  No acknowledgement without a call. The IN channel has 32780 bytes of window left
  when the PDU of 20 bytes arrives, and the OUT channel's window size is 65536; the
  processor takes the PDU in and hands no call back. The step ends with the window at
  32760, below half of the window size, and no acknowledgement has been built.
\<close>

theorem htparse_rdbody_no_ack_without_call_counterexample:
  "map_option fst (htparse_rdbody example_config example_env example_modules
      silent_pdu_processor 0 (flow_state 0 32780)) = Some TPROC_CONT \<and>
   (case htparse_rdbody example_config example_env example_modules
      silent_pdu_processor 0 (flow_state 0 32780) of
      None \<Rightarrow> None
    | Some (r, s') \<Rightarrow> map_option pchannel (g_context_list s' 0)) =
     Some (Some (In_channel ((flow_in_channel 0 32780)\<lparr>ich_available_window := 32760,
       ich_bytes_received := 32776\<rparr>))) \<and>
   (case htparse_rdbody example_config example_env example_modules
      silent_pdu_processor 0 (flow_state 0 32780) of
      None \<Rightarrow> None
    | Some (r, s') \<Rightarrow> g_context_list s' 2) = Some flow_out_context \<and>
   (case htparse_rdbody example_config example_env example_modules
      silent_pdu_processor 0 (flow_state 0 32780) of
      None \<Rightarrow> None
    | Some (r, s') \<Rightarrow> Some (flow_acks (new_events (flow_state 0 32780) s'))) = Some [] \<and>
   (case htparse_rdbody example_config example_env example_modules
      silent_pdu_processor 0 (flow_state 0 32780) of
      None \<Rightarrow> None
    | Some (r, s') \<Rightarrow> Some (signals (new_events (flow_state 0 32780) s'))) = Some [] \<and>
   out_chan flow_out_context = Some (writing_channel []) \<and>
   och_window_size (writing_channel []) = 65536 \<and>
   (32760 :: 32 word) < 65536 div 2"
proof -
  have r: "pdu_processor_rts_input silent_pdu_processor le_pdu 0 (flow_state 20 32780) =
      (PDU_PROCESSOR_FORWARD, None, flow_state 20 32780)"
    by (simp add: silent_pdu_processor_def example_pdu_processor_def)
  have o: "rdbody_opened_in silent_pdu_processor 0 le_pdu 20 PDU_PROCESSOR_FORWARD None
      (flow_state 20 32780) =
      rdbody_forward silent_pdu_processor 0 le_pdu 20 (flow_state 20 32780)"
    by (simp add: rdbody_opened_in_def flow_state_facts(1) flow_in_context_def
        flow_in_channel_def buffered_in_context_def in_chan_def example_state_defs)
  define s' where "s' =
       \<lparr>g_vconnection_hash = [(''c:6001:h'', flow_vconn)],
        g_context_list = [0 \<mapsto> (flow_in_context 20 32780)\<lparr>pchannel := Some (In_channel
             ((flow_in_channel 20 32780)\<lparr>ich_available_window := 32780 - 20,
                ich_bytes_received := 65536 - 32780 + 20, ich_frag_length := 0\<rparr>)),
              stream_in := stream_init\<rparr>, 2 \<mapsto> flow_out_context],
        trace = [Lock_registry, Unlock_registry, Lock_vconn ''c:6001:h'',
                 Unlock_vconn ''c:6001:h'', Lock_registry, Unlock_registry]\<rparr>"
  have e: "htparse_rdbody example_config example_env example_modules silent_pdu_processor 0
        (flow_state 0 32780) = Some (TPROC_CONT, s')"
    unfolding s'_def
    by (simp only: flow_step_to_forward r prod.case o flow_forward_silent bind.bind_lunit
        sum.case flow_finish_input)
  have 1: "map_option pchannel (g_context_list s' 0) = Some (Some (In_channel
        ((flow_in_channel 0 32780)\<lparr>ich_available_window := 32760,
           ich_bytes_received := 32776\<rparr>)))"
    by (simp add: s'_def flow_in_channel_def)
  have 2: "g_context_list s' 2 = Some flow_out_context"
    by (simp add: s'_def)
  have 3: "flow_acks (new_events (flow_state 0 32780) s') = []"
    "signals (new_events (flow_state 0 32780) s') = []"
    by (simp_all add: s'_def new_events_def flow_state_def)
  have 4: "out_chan flow_out_context = Some (writing_channel [])"
    by (simp add: flow_out_context_def)
  have 5: "och_window_size (writing_channel []) = 65536"
    by (simp add: flow_state_facts)
  have 6: "(32760 :: 32 word) < 65536 div 2" by simp
  from 1 2 3 4 5 6 show ?thesis unfolding e by simp
qed

end
